theory Spec2Isabelle
  imports Main "HOL-Library.Sublist" "HOL-Library.AList"
begin

section \<open>Errors\<close>

text \<open>
  Go errors are values. Two kinds matter to the code: an API status error whose reason
  is NotFound (the only kind \<open>apierrors.IsNotFound\<close> accepts) and every other error.
  Both carry their message. \<open>fmt.Errorf(prefix + "%v", err)\<close> builds a new plain error
  from the message of \<open>err\<close>, so the result is never a NotFound status error.
\<close>

datatype error = NotFound string | Failure string

fun Error :: "error \<Rightarrow> string" where
  "Error (NotFound m) = m"
| "Error (Failure m) = m"

fun IsNotFound :: "error \<Rightarrow> bool" where
  "IsNotFound (NotFound m) = True"
| "IsNotFound (Failure m) = False"

definition Errorf :: "string \<Rightarrow> error \<Rightarrow> error" where
  "Errorf msg err = Failure (msg @ Error err)"

section \<open>Replication slots: data model\<close>

text \<open>
  Modelled from the spec: the declarations of \<open>slots.ReplicationSlot\<close> and
  \<open>slots.ReplicationSlotList\<close> are in the package \<open>slots\<close>, apart from the runner; the runner reads
  \<open>SlotName\<close>, \<open>Items\<close> and \<open>Has\<close> only. The remaining fields follow the
  spec's data model (name, state, active flag, owning identity), and \<open>Has\<close> is the
  spec's membership test by name.
\<close>

record replication_slot =
  SlotName :: string
  State :: string
  Active :: bool
  Owner :: string

record replication_slot_list =
  Items :: "replication_slot list"

definition Has :: "replication_slot_list \<Rightarrow> string \<Rightarrow> bool" where
  "Has sl name = (name \<in> set (map SlotName (Items sl)))"

record high_availability =
  Enabled :: bool

record replication_slots_configuration =
  UpdateInterval :: int
  HighAvailability :: "high_availability option"

text \<open>
  The \<open>slots.Manager\<close> capability, over the state \<open>'db\<close> of the database it talks to:
  its methods \<open>List\<close>, \<open>Create\<close>, \<open>Update\<close> and \<open>Delete\<close>. \<open>List\<close> is a query; the
  three mutations return the error (if any) together with the database as the call
  left it.
\<close>

record 'db manager =
  List_slots :: "string \<Rightarrow> replication_slots_configuration \<Rightarrow> 'db \<Rightarrow> error + replication_slot_list"
  Create_slot :: "replication_slot \<Rightarrow> 'db \<Rightarrow> error option \<times> 'db"
  Update_slot :: "replication_slot \<Rightarrow> 'db \<Rightarrow> error option \<times> 'db"
  Delete_slot :: "replication_slot \<Rightarrow> 'db \<Rightarrow> error option \<times> 'db"

text \<open>Every call the pass makes on a manager, in the order it makes them.\<close>

datatype call =
  CallListPrimary
  | CallListLocal
  | CallCreate replication_slot
  | CallUpdate replication_slot
  | CallDelete replication_slot

record 'l sync_state =
  local_db :: 'l
  calls :: "call list"

section \<open>The reconciliation pass\<close>

text \<open>
  \<open>synchronizeReplicationSlots\<close> (\<open>runner.go\<close>, lines 118 to 161). Each call on the
  local manager is made through a wrapper that records it.
\<close>

definition call_Create :: "'l manager \<Rightarrow> replication_slot \<Rightarrow> 'l sync_state \<Rightarrow> error option \<times> 'l sync_state" where
  "call_Create m slot st =
     (case Create_slot m slot (local_db st) of
        (r, db) \<Rightarrow> (r, \<lparr>local_db = db, calls = calls st @ [CallCreate slot]\<rparr>))"

definition call_Update :: "'l manager \<Rightarrow> replication_slot \<Rightarrow> 'l sync_state \<Rightarrow> error option \<times> 'l sync_state" where
  "call_Update m slot st =
     (case Update_slot m slot (local_db st) of
        (r, db) \<Rightarrow> (r, \<lparr>local_db = db, calls = calls st @ [CallUpdate slot]\<rparr>))"

definition call_Delete :: "'l manager \<Rightarrow> replication_slot \<Rightarrow> 'l sync_state \<Rightarrow> error option \<times> 'l sync_state" where
  "call_Delete m slot st =
     (case Delete_slot m slot (local_db st) of
        (r, db) \<Rightarrow> (r, \<lparr>local_db = db, calls = calls st @ [CallDelete slot]\<rparr>))"

text \<open>
  The loop over \<open>slotsInPrimary.Items\<close> (\<open>runner.go\<close>, lines 139 to 150): create when
  absent locally, then update.
\<close>

fun primary_loop ::
  "'l manager \<Rightarrow> replication_slot_list \<Rightarrow> replication_slot list \<Rightarrow> 'l sync_state
     \<Rightarrow> error option \<times> 'l sync_state" where
  "primary_loop m slotsInLocal [] st = (None, st)"
| "primary_loop m slotsInLocal (slot # rest) st =
     (if \<not> Has slotsInLocal (SlotName slot) then
        (case call_Create m slot st of
           (Some err, st1) \<Rightarrow> (Some err, st1)
         | (None, st1) \<Rightarrow>
             (case call_Update m slot st1 of
                (Some err, st2) \<Rightarrow> (Some err, st2)
              | (None, st2) \<Rightarrow> primary_loop m slotsInLocal rest st2))
      else
        (case call_Update m slot st of
           (Some err, st2) \<Rightarrow> (Some err, st2)
         | (None, st2) \<Rightarrow> primary_loop m slotsInLocal rest st2))"

text \<open>
  The loop over \<open>slotsInLocal.Items\<close> (lines 151 to 158): delete when absent from the
  primary.
\<close>

fun local_loop ::
  "'l manager \<Rightarrow> replication_slot_list \<Rightarrow> replication_slot list \<Rightarrow> 'l sync_state
     \<Rightarrow> error option \<times> 'l sync_state" where
  "local_loop m slotsInPrimary [] st = (None, st)"
| "local_loop m slotsInPrimary (slot # rest) st =
     (if \<not> Has slotsInPrimary (SlotName slot) then
        (case call_Delete m slot st of
           (Some err, st1) \<Rightarrow> (Some err, st1)
         | (None, st1) \<Rightarrow> local_loop m slotsInPrimary rest st1)
      else local_loop m slotsInPrimary rest st)"

definition synchronizeReplicationSlots ::
  "'p manager \<Rightarrow> 'l manager \<Rightarrow> string \<Rightarrow> replication_slots_configuration \<Rightarrow> 'p
     \<Rightarrow> 'l sync_state \<Rightarrow> error option \<times> 'l sync_state" where
  "synchronizeReplicationSlots primarySlotManager localSlotManager podName config pdb st =
     (let st1 = st\<lparr>calls := calls st @ [CallListPrimary]\<rparr> in
      case List_slots primarySlotManager podName config pdb of
        Inl err \<Rightarrow> (Some (Errorf ''getting replication slot status from primary: '' err), st1)
      | Inr slotsInPrimary \<Rightarrow>
          (let st2 = st1\<lparr>calls := calls st1 @ [CallListLocal]\<rparr> in
           case List_slots localSlotManager podName config (local_db st2) of
             Inl err \<Rightarrow> (Some (Errorf ''getting replication slot status from local: '' err), st2)
           | Inr slotsInLocal \<Rightarrow>
               (case primary_loop localSlotManager slotsInLocal (Items slotsInPrimary) st2 of
                  (Some err, st3) \<Rightarrow> (Some err, st3)
                | (None, st3) \<Rightarrow>
                    local_loop localSlotManager slotsInPrimary (Items slotsInLocal) st3)))"

text \<open>
  Modelled from the spec: the Postgres implementation of \<open>slots.Manager\<close> is in the
  package \<open>slots\<close>, apart from the runner. This instance keeps the slots of one database as a list: \<open>List\<close>
  returns them, \<open>Create\<close> adds a slot and fails on a duplicate name, \<open>Update\<close>
  replaces the slot of that name and fails when there is none, \<open>Delete\<close> removes it
  and fails on a slot that is in use.
\<close>

definition mem_manager :: "(replication_slot list) manager" where
  "mem_manager =
     \<lparr>List_slots = (\<lambda>podName config db. Inr \<lparr>Items = db\<rparr>),
      Create_slot = (\<lambda>slot db.
         if SlotName slot \<in> set (map SlotName db)
         then (Some (Failure ''replication slot already exists''), db)
         else (None, db @ [slot])),
      Update_slot = (\<lambda>slot db.
         if SlotName slot \<in> set (map SlotName db)
         then (None, map (\<lambda>s. if SlotName s = SlotName slot then slot else s) db)
         else (Some (Failure ''replication slot does not exist''), db)),
      Delete_slot = (\<lambda>slot db.
         if Active slot
         then (Some (Failure ''replication slot is active''), db)
         else (None, filter (\<lambda>s. SlotName s \<noteq> SlotName slot) db))\<rparr>"

definition mk_slot :: "string \<Rightarrow> string \<Rightarrow> replication_slot" where
  "mk_slot name st = \<lparr>SlotName = name, State = st, Active = False, Owner = ''streaming_replica''\<rparr>"

definition slot_A :: replication_slot where
  "slot_A = mk_slot ''A'' ''primary''"

definition slot_B :: replication_slot where
  "slot_B = mk_slot ''B'' ''primary''"

definition slot_B_local :: replication_slot where
  "slot_B_local = mk_slot ''B'' ''replica''"

definition slot_C :: replication_slot where
  "slot_C = mk_slot ''C'' ''replica''"

definition slot_C_active :: replication_slot where
  "slot_C_active = (mk_slot ''C'' ''replica'')\<lparr>Active := True\<rparr>"

definition slot_D :: replication_slot where
  "slot_D = mk_slot ''D'' ''replica''"

definition ha_config :: "int \<Rightarrow> bool \<Rightarrow> replication_slots_configuration" where
  "ha_config interval on = \<lparr>UpdateInterval = interval, HighAvailability = Some \<lparr>Enabled = on\<rparr>\<rparr>"

section \<open>The runner's event loop\<close>

text \<open>
  The goroutine of \<open>Start\<close> (\<open>runner.go\<close>, lines 47 to 112) as a state machine. An
  event is what one receive of the goroutine yields: the cancellation of the context, a
  configuration pushed on the channel, or a tick of the ticker. \<open>GetUpdateInterval\<close> is
  declared in the package of the API types and is a parameter, as are the two managers and
  the pod name. The state of the primary database is not the runner's: each step takes
  it as an argument. \<open>Start\<close> itself only waits for the cancellation and returns nil.
\<close>

datatype event = Cancel | NewConfig "replication_slots_configuration option" | Tick

datatype phase = WaitingForConfig | Running | Terminated | Crashed

record ticker =
  running :: bool
  period :: int

datatype log_entry =
  Info string
  | Warning string
  | Trace string
  | ErrorLog error string

record ('p, 'l) replicator_env =
  GetUpdateInterval :: "replication_slots_configuration option \<Rightarrow> int"
  PodName :: string
  primaryManager :: "'p manager"
  localManager :: "'l manager"

record 'l replicator =
  phase :: phase
  cancelled :: bool
  config :: "replication_slots_configuration option"
  updateInterval :: int
  ticker :: "ticker option"
  log :: "log_entry list"
  sync :: "'l sync_state"

definition init_replicator :: "'l \<Rightarrow> 'l replicator" where
  "init_replicator db =
     \<lparr>phase = WaitingForConfig, cancelled = False, config = None, updateInterval = 0, ticker = None,
      log = [], sync = \<lparr>local_db = db, calls = []\<rparr>\<rparr>"

definition ticker_Stop :: "ticker option \<Rightarrow> ticker option" where
  "ticker_Stop t = map_option (\<lambda>k. k\<lparr>running := False\<rparr>) t"

definition ticker_Reset :: "int \<Rightarrow> ticker option \<Rightarrow> ticker option" where
  "ticker_Reset d t = map_option (\<lambda>k. \<lparr>running = True, period = d\<rparr>) t"

text \<open>Whether the ticker will deliver further ticks.\<close>

definition ticking :: "'l replicator \<Rightarrow> bool" where
  "ticking st = (case ticker st of None \<Rightarrow> False | Some k \<Rightarrow> running k)"

text \<open>
  The two deferred functions, in the order they run: the recovery of a panic (a
  warning when there was one), then \<open>ticker.Stop\<close> and the final log line.
\<close>

definition deferred :: "bool \<Rightarrow> 'l replicator \<Rightarrow> 'l replicator" where
  "deferred panicked st =
     st\<lparr>phase := Terminated,
        ticker := ticker_Stop (ticker st),
        log := log st @ (if panicked then [Warning ''Recovered from a panic''] else [])
                 @ [Info ''Terminated slot Replicator loop'']\<rparr>"

text \<open>
  The first receive and what follows it up to the loop (lines 48 to 60).
  \<open>time.NewTicker\<close> panics on a duration that is not positive, and no recovery is
  installed yet.
\<close>

definition start_loop ::
  "('p, 'l) replicator_env \<Rightarrow> replication_slots_configuration option \<Rightarrow> 'l replicator \<Rightarrow> 'l replicator" where
  "start_loop env c st =
     (let d = GetUpdateInterval env c in
      if d \<le> 0 then st\<lparr>phase := Crashed, config := c, updateInterval := d\<rparr>
      else st\<lparr>phase := Running, config := c, updateInterval := d,
              ticker := Some \<lparr>running = True, period = d\<rparr>\<rparr>)"

text \<open>
  The body of the loop after the \<open>select\<close> (lines 70 to 110). \<open>ticker.Reset\<close> panics
  on a duration that is not positive; inside the loop the panic is recovered and ends
  the goroutine.
\<close>

definition loop_body :: "('p, 'l) replicator_env \<Rightarrow> 'p \<Rightarrow> 'l replicator \<Rightarrow> 'l replicator" where
  "loop_body env pdb st =
     (case config st of
        None \<Rightarrow> st\<lparr>ticker := ticker_Stop (ticker st)\<rparr>
      | Some c \<Rightarrow>
          (case HighAvailability c of
             None \<Rightarrow> st\<lparr>ticker := ticker_Stop (ticker st)\<rparr>
           | Some ha \<Rightarrow>
               if \<not> Enabled ha then st\<lparr>ticker := ticker_Stop (ticker st)\<rparr>
               else
                 (let newUpdateInterval = GetUpdateInterval env (Some c) in
                  if updateInterval st \<noteq> newUpdateInterval \<and> newUpdateInterval \<le> 0
                  then deferred True st
                  else
                    (let st1 = (if updateInterval st \<noteq> newUpdateInterval
                                then st\<lparr>ticker := ticker_Reset newUpdateInterval (ticker st),
                                        updateInterval := newUpdateInterval\<rparr>
                                else st);
                         st2 = st1\<lparr>log := log st1 @ [Trace ''Synchronizing'']\<rparr>
                     in case synchronizeReplicationSlots (primaryManager env) (localManager env)
                               (PodName env) c pdb (sync st2) of
                          (None, sy) \<Rightarrow> st2\<lparr>sync := sy\<rparr>
                        | (Some err, sy) \<Rightarrow>
                            st2\<lparr>sync := sy,
                                log := log st2 @ [ErrorLog err ''synchronizing replication slots'']\<rparr>))))"

text \<open>
  One event. A cancellation is for good: the context stays cancelled, which
  \<open>cancelled\<close> records. Before the first configuration the goroutine is blocked in a
  receive on the configuration channel alone (line 48): a cancellation is not observed
  there, and when a configuration arrives after one, the goroutine sets up its ticker
  and its deferred functions and then ends at its first \<open>select\<close>, where the cancelled
  context is the one channel that is ready. In the loop the \<open>select\<close> of lines 63 to 68
  takes any of the three events; a goroutine that has ended consumes nothing.
\<close>

definition step :: "('p, 'l) replicator_env \<Rightarrow> 'p \<Rightarrow> 'l replicator \<Rightarrow> event \<Rightarrow> 'l replicator" where
  "step env pdb st ev =
     (case phase st of
        WaitingForConfig \<Rightarrow>
          (case ev of
             NewConfig c \<Rightarrow>
               (let st1 = start_loop env c st in
                if cancelled st1 \<and> phase st1 = Running then deferred False st1 else st1)
           | Cancel \<Rightarrow> st\<lparr>cancelled := True\<rparr>
           | Tick \<Rightarrow> st)
      | Running \<Rightarrow>
          (case ev of
             Cancel \<Rightarrow> deferred False (st\<lparr>cancelled := True\<rparr>)
           | NewConfig c \<Rightarrow> loop_body env pdb (st\<lparr>config := c\<rparr>)
           | Tick \<Rightarrow> loop_body env pdb st)
      | Terminated \<Rightarrow> st
      | Crashed \<Rightarrow> st)"

definition run :: "('p, 'l) replicator_env \<Rightarrow> 'p \<Rightarrow> 'l replicator \<Rightarrow> event list \<Rightarrow> 'l replicator" where
  "run env pdb st evs = foldl (step env pdb) st evs"

text \<open>
  Modelled from the spec: \<open>GetUpdateInterval\<close> is declared with the API types;
  the spec says a configuration implies its interval. This instance returns the
  configured \<open>updateInterval\<close> and falls back to 30 when there is no configuration
  or the configured value is not positive.
\<close>

definition interval_of :: "replication_slots_configuration option \<Rightarrow> int" where
  "interval_of c =
     (case c of
        None \<Rightarrow> 30
      | Some k \<Rightarrow> if UpdateInterval k \<le> 0 then 30 else UpdateInterval k)"

definition mem_env :: "(replication_slot list, replication_slot list) replicator_env" where
  "mem_env =
     \<lparr>GetUpdateInterval = interval_of, PodName = ''pod-1'',
      primaryManager = mem_manager, localManager = mem_manager\<rparr>"

section \<open>Reading a trace of calls\<close>

text \<open>
  What one recorded call does to the local database, and the error it returns:
  the meaning of an entry of \<open>calls\<close>. The two \<open>List\<close> calls are queries.
\<close>

fun perform ::
  "'p manager \<Rightarrow> 'l manager \<Rightarrow> string \<Rightarrow> replication_slots_configuration \<Rightarrow> 'p \<Rightarrow> call \<Rightarrow> 'l
     \<Rightarrow> error option \<times> 'l" where
  "perform pm lm pod cfg pdb CallListPrimary db =
     (case List_slots pm pod cfg pdb of Inl err \<Rightarrow> (Some err, db) | Inr sl \<Rightarrow> (None, db))"
| "perform pm lm pod cfg pdb CallListLocal db =
     (case List_slots lm pod cfg db of Inl err \<Rightarrow> (Some err, db) | Inr sl \<Rightarrow> (None, db))"
| "perform pm lm pod cfg pdb (CallCreate slot) db = Create_slot lm slot db"
| "perform pm lm pod cfg pdb (CallUpdate slot) db = Update_slot lm slot db"
| "perform pm lm pod cfg pdb (CallDelete slot) db = Delete_slot lm slot db"

text \<open>A list of calls made one after the other, up to and including the first that fails.\<close>

fun perform_all :: "(call \<Rightarrow> 'l \<Rightarrow> error option \<times> 'l) \<Rightarrow> call list \<Rightarrow> 'l \<Rightarrow> error option \<times> 'l" where
  "perform_all P [] db = (None, db)"
| "perform_all P (c # cs) db =
     (case P c db of
        (Some err, db1) \<Rightarrow> (Some err, db1)
      | (None, db1) \<Rightarrow> perform_all P cs db1)"

text \<open>
  \<open>stopped_at P ks db r db'\<close>: the calls \<open>ks\<close>, made in order from the database \<open>db\<close>,
  account for the result \<open>r\<close> and the database \<open>db'\<close>. Without an error every call of
  \<open>ks\<close> succeeded and \<open>db'\<close> is what they left. With an error, the last call of \<open>ks\<close> is
  the one that returned it, every call before it succeeded, and \<open>db'\<close> is the database
  as the failing call left it: nothing was called after the failure, nothing undone.
\<close>

definition stopped_at ::
  "(call \<Rightarrow> 'l \<Rightarrow> error option \<times> 'l) \<Rightarrow> call list \<Rightarrow> 'l \<Rightarrow> error option \<Rightarrow> 'l \<Rightarrow> bool" where
  "stopped_at P ks db r db' =
     (case r of
        None \<Rightarrow> perform_all P ks db = (None, db')
      | Some err \<Rightarrow> (\<exists>pre c dbm. ks = pre @ [c] \<and> perform_all P pre db = (None, dbm)
                       \<and> P c dbm = (Some err, db')))"

text \<open>The error the pass returns for the error of a call: the two queries' errors are wrapped.\<close>

fun reported :: "call \<Rightarrow> error \<Rightarrow> error" where
  "reported CallListPrimary err = Errorf ''getting replication slot status from primary: '' err"
| "reported CallListLocal err = Errorf ''getting replication slot status from local: '' err"
| "reported (CallCreate slot) err = err"
| "reported (CallUpdate slot) err = err"
| "reported (CallDelete slot) err = err"

definition replicator_example :: "(replication_slot list) replicator" where
  "replicator_example =
     \<lparr>phase = Running, cancelled = False, config = Some (ha_config 30 True), updateInterval = 30,
      ticker = Some \<lparr>running = True, period = 30\<rparr>, log = [],
      sync = \<lparr>local_db = [slot_C_active, slot_D], calls = []\<rparr>\<rparr>"

section \<open>Webhook certificates: data model\<close>

text \<open>
  A Go \<open>[]byte\<close> and a Go \<open>string\<close> are both byte sequences, and the conversions
  between them keep the bytes; both are \<open>string\<close> here. A missing key of a Go map reads
  as the nil slice, which is the empty sequence.

  The \<open>Data\<close> of a secret is a Go map from field name to bytes. It is kept as an
  association list: \<open>map_of\<close> reads it, \<open>AList.update\<close> is the assignment
  \<open>Data[k] = v\<close>, and the order of the list stands for the order in which \<open>range\<close>
  visits the map.
\<close>

type_synonym bytes = string

record secret =
  Namespace :: string
  Name :: string
  ResourceVersion :: string
  Data :: "(string \<times> bytes) list"

definition data_field :: "secret \<Rightarrow> string \<Rightarrow> bytes" where
  "data_field s k = (case map_of (Data s) k of None \<Rightarrow> [] | Some b \<Rightarrow> b)"

text \<open>
  Admission configurations. Only \<open>Webhooks\<close> and \<open>ClientConfig.CABundle\<close> are touched by
  the code; everything else an object, an entry or a client configuration holds is its
  \<open>_rest\<close>, of an arbitrary type.
\<close>

record 'x client_config =
  CABundle :: bytes
  client_config_rest :: 'x

record 'x webhook =
  ClientConfig :: "'x client_config"
  webhook_rest :: 'x

record 'x webhook_configuration =
  ConfigurationName :: string
  Webhooks :: "'x webhook list"
  configuration_rest :: 'x

record WebhookEnvironment =
  CertDir :: string
  CaSecretName :: string
  SecretName :: string
  ServiceName :: string
  OperatorNamespace :: string
  MutatingWebhookConfigurationName :: string
  ValidatingWebhookConfigurationName :: string

text \<open>
  Modelled from the spec: the declaration of the key pair type is in another file of
  the package; the code reads its \<open>Certificate\<close> field, and the spec's pairs hold a private
  key and a certificate.
\<close>

record key_pair =
  Private :: bytes
  Certificate :: bytes

text \<open>
  The certificate functions that are defined in another file of the package, as
  parameters: they parse, create, sign and check expiry (reading the clock and drawing
  random keys), and none of them touches the cluster or the file system. \<open>'k\<close> is the
  type of a parsed private key. \<open>RenewCertificate\<close> changes the pair in place; it returns
  the pair as changed.
\<close>

record 'k pki =
  CreateCA :: "error + key_pair"
  ParseCASecret :: "secret \<Rightarrow> error + key_pair"
  ParseServerSecret :: "secret \<Rightarrow> error + key_pair"
  IsExpiring :: "key_pair \<Rightarrow> error + bool"
  ParseECPrivateKey :: "key_pair \<Rightarrow> error + 'k"
  RenewCertificate :: "key_pair \<Rightarrow> 'k \<Rightarrow> error + key_pair"
  CreateAndSignPair :: "key_pair \<Rightarrow> string \<Rightarrow> error + key_pair"
  GenerateCASecret :: "key_pair \<Rightarrow> string \<Rightarrow> string \<Rightarrow> secret"
  GenerateServerSecret :: "key_pair \<Rightarrow> string \<Rightarrow> string \<Rightarrow> secret"

text \<open>
  The Kubernetes client over a cluster state \<open>'c\<close>: a \<open>Get\<close> reads, a \<open>Create\<close> or an
  \<open>Update\<close> returns the stored object (or an error) and the cluster as the call left it.
  No call changes the object passed to it.
\<close>

record ('c, 'm, 'v) client =
  SecretsGet :: "string \<Rightarrow> string \<Rightarrow> 'c \<Rightarrow> error + secret"
  SecretsCreate :: "string \<Rightarrow> secret \<Rightarrow> 'c \<Rightarrow> (error + secret) \<times> 'c"
  SecretsUpdate :: "string \<Rightarrow> secret \<Rightarrow> 'c \<Rightarrow> (error + secret) \<times> 'c"
  MutatingGet :: "string \<Rightarrow> 'c \<Rightarrow> error + 'm webhook_configuration"
  MutatingUpdate :: "'m webhook_configuration \<Rightarrow> 'c \<Rightarrow> (error + 'm webhook_configuration) \<times> 'c"
  ValidatingGet :: "string \<Rightarrow> 'c \<Rightarrow> error + 'v webhook_configuration"
  ValidatingUpdate :: "'v webhook_configuration \<Rightarrow> 'c \<Rightarrow> (error + 'v webhook_configuration) \<times> 'c"

text \<open>
  The file system over a state \<open>'f\<close>: \<open>fileutils.FileExists\<close>, \<open>fileutils.ReadFile\<close>
  (both of the package \<open>fileutils\<close>), \<open>ioutil.WriteFile\<close> and \<open>path.Join\<close>.
\<close>

record 'f filesystem =
  FileExists :: "string \<Rightarrow> 'f \<Rightarrow> error + bool"
  ReadFile :: "string \<Rightarrow> 'f \<Rightarrow> error + string"
  WriteFile :: "string \<Rightarrow> bytes \<Rightarrow> nat \<Rightarrow> 'f \<Rightarrow> error option \<times> 'f"
  path_Join :: "string \<Rightarrow> string \<Rightarrow> string"

text \<open>The permission bits \<open>0600\<close> (octal): read and write for the owner, nothing else.\<close>

definition owner_read_write :: nat where
  "owner_read_write = 6 * 64"

text \<open>Every call the code makes on the cluster, the file system and the logger, in order.\<close>

datatype ('m, 'v) action =
  ActGetSecret string string
  | ActCreateSecret string secret
  | ActUpdateSecret string secret
  | ActGetMutating string
  | ActUpdateMutating "'m webhook_configuration"
  | ActGetValidating string
  | ActUpdateValidating "'v webhook_configuration"
  | ActFileExists string
  | ActReadFile string
  | ActWriteFile string bytes nat
  | ActLogInfo string string

record ('c, 'f, 'm, 'v) world =
  cluster :: 'c
  files :: 'f
  actions :: "('m, 'v) action list"

definition api_SecretsGet ::
  "('c, 'm, 'v) client \<Rightarrow> string \<Rightarrow> string \<Rightarrow> ('c, 'f, 'm, 'v) world
     \<Rightarrow> (error + secret) \<times> ('c, 'f, 'm, 'v) world" where
  "api_SecretsGet cl ns name w =
     (SecretsGet cl ns name (cluster w), w\<lparr>actions := actions w @ [ActGetSecret ns name]\<rparr>)"

definition api_SecretsCreate ::
  "('c, 'm, 'v) client \<Rightarrow> string \<Rightarrow> secret \<Rightarrow> ('c, 'f, 'm, 'v) world
     \<Rightarrow> (error + secret) \<times> ('c, 'f, 'm, 'v) world" where
  "api_SecretsCreate cl ns s w =
     (case SecretsCreate cl ns s (cluster w) of
        (r, c) \<Rightarrow> (r, w\<lparr>cluster := c, actions := actions w @ [ActCreateSecret ns s]\<rparr>))"

definition api_SecretsUpdate ::
  "('c, 'm, 'v) client \<Rightarrow> string \<Rightarrow> secret \<Rightarrow> ('c, 'f, 'm, 'v) world
     \<Rightarrow> (error + secret) \<times> ('c, 'f, 'm, 'v) world" where
  "api_SecretsUpdate cl ns s w =
     (case SecretsUpdate cl ns s (cluster w) of
        (r, c) \<Rightarrow> (r, w\<lparr>cluster := c, actions := actions w @ [ActUpdateSecret ns s]\<rparr>))"

definition api_MutatingGet ::
  "('c, 'm, 'v) client \<Rightarrow> string \<Rightarrow> ('c, 'f, 'm, 'v) world
     \<Rightarrow> (error + 'm webhook_configuration) \<times> ('c, 'f, 'm, 'v) world" where
  "api_MutatingGet cl name w =
     (MutatingGet cl name (cluster w), w\<lparr>actions := actions w @ [ActGetMutating name]\<rparr>)"

definition api_MutatingUpdate ::
  "('c, 'm, 'v) client \<Rightarrow> 'm webhook_configuration \<Rightarrow> ('c, 'f, 'm, 'v) world
     \<Rightarrow> (error + 'm webhook_configuration) \<times> ('c, 'f, 'm, 'v) world" where
  "api_MutatingUpdate cl cfg w =
     (case MutatingUpdate cl cfg (cluster w) of
        (r, c) \<Rightarrow> (r, w\<lparr>cluster := c, actions := actions w @ [ActUpdateMutating cfg]\<rparr>))"

definition api_ValidatingGet ::
  "('c, 'm, 'v) client \<Rightarrow> string \<Rightarrow> ('c, 'f, 'm, 'v) world
     \<Rightarrow> (error + 'v webhook_configuration) \<times> ('c, 'f, 'm, 'v) world" where
  "api_ValidatingGet cl name w =
     (ValidatingGet cl name (cluster w), w\<lparr>actions := actions w @ [ActGetValidating name]\<rparr>)"

definition api_ValidatingUpdate ::
  "('c, 'm, 'v) client \<Rightarrow> 'v webhook_configuration \<Rightarrow> ('c, 'f, 'm, 'v) world
     \<Rightarrow> (error + 'v webhook_configuration) \<times> ('c, 'f, 'm, 'v) world" where
  "api_ValidatingUpdate cl cfg w =
     (case ValidatingUpdate cl cfg (cluster w) of
        (r, c) \<Rightarrow> (r, w\<lparr>cluster := c, actions := actions w @ [ActUpdateValidating cfg]\<rparr>))"

definition fs_FileExists ::
  "'f filesystem \<Rightarrow> string \<Rightarrow> ('c, 'f, 'm, 'v) world \<Rightarrow> (error + bool) \<times> ('c, 'f, 'm, 'v) world" where
  "fs_FileExists fs p w = (FileExists fs p (files w), w\<lparr>actions := actions w @ [ActFileExists p]\<rparr>)"

definition fs_ReadFile ::
  "'f filesystem \<Rightarrow> string \<Rightarrow> ('c, 'f, 'm, 'v) world \<Rightarrow> (error + string) \<times> ('c, 'f, 'm, 'v) world" where
  "fs_ReadFile fs p w = (ReadFile fs p (files w), w\<lparr>actions := actions w @ [ActReadFile p]\<rparr>)"

definition fs_WriteFile ::
  "'f filesystem \<Rightarrow> string \<Rightarrow> bytes \<Rightarrow> nat \<Rightarrow> ('c, 'f, 'm, 'v) world
     \<Rightarrow> error option \<times> ('c, 'f, 'm, 'v) world" where
  "fs_WriteFile fs p content perm w =
     (case WriteFile fs p content perm (files w) of
        (r, f) \<Rightarrow> (r, w\<lparr>files := f, actions := actions w @ [ActWriteFile p content perm]\<rparr>))"

definition log_Info :: "string \<Rightarrow> string \<Rightarrow> ('c, 'f, 'm, 'v) world \<Rightarrow> ('c, 'f, 'm, 'v) world" where
  "log_Info msg name w = w\<lparr>actions := actions w @ [ActLogInfo msg name]\<rparr>"

section \<open>Webhook certificates: the operations\<close>

text \<open>
  \<open>renewCACertificate\<close> (lines 86 to 118) returns its result
  and, beside it, the secret object its argument points to as the call left it: the
  assignment to \<open>secret.Data["ca.crt"]\<close> changes the caller's object. (An assignment
  into a nil map would panic; the secret has been parsed by then, so it has data.)
\<close>

definition renewCACertificate ::
  "('c, 'm, 'v) client \<Rightarrow> 'k pki \<Rightarrow> secret \<Rightarrow> ('c, 'f, 'm, 'v) world
     \<Rightarrow> (error + secret) \<times> secret \<times> ('c, 'f, 'm, 'v) world" where
  "renewCACertificate cl pk secret w =
     (case ParseCASecret pk secret of
        Inl err \<Rightarrow> (Inl err, secret, w)
      | Inr pair \<Rightarrow>
          (case IsExpiring pk pair of
             Inl err \<Rightarrow> (Inl err, secret, w)
           | Inr expiring \<Rightarrow>
               if \<not> expiring then (Inr secret, secret, w)
               else
                 (case ParseECPrivateKey pk pair of
                    Inl err \<Rightarrow> (Inl err, secret, w)
                  | Inr privateKey \<Rightarrow>
                      (case RenewCertificate pk pair privateKey of
                         Inl err \<Rightarrow> (Inl err, secret, w)
                       | Inr renewed \<Rightarrow>
                           (let secret1 = secret\<lparr>Data := AList.update ''ca.crt'' (Certificate renewed) (Data secret)\<rparr>
                            in case api_SecretsUpdate cl (Namespace secret1) secret1 w of
                                 (Inl err, w1) \<Rightarrow> (Inl err, secret1, w1)
                               | (Inr updatedSecret, w1) \<Rightarrow> (Inr updatedSecret, secret1, w1))))))"

definition EnsureRootCACertificate ::
  "('c, 'm, 'v) client \<Rightarrow> 'k pki \<Rightarrow> string \<Rightarrow> string \<Rightarrow> ('c, 'f, 'm, 'v) world
     \<Rightarrow> (error + secret) \<times> ('c, 'f, 'm, 'v) world" where
  "EnsureRootCACertificate cl pk namespace name w =
     (case api_SecretsGet cl namespace name w of
        (Inr secret, w1) \<Rightarrow>
          (case renewCACertificate cl pk secret w1 of
             (Inl err, secret1, w2) \<Rightarrow> (Inl err, w2)
           | (Inr updatedSecret, secret1, w2) \<Rightarrow> (Inr secret1, w2))
      | (Inl err, w1) \<Rightarrow>
          if \<not> IsNotFound err then (Inl err, w1)
          else
            (case CreateCA pk of
               Inl err1 \<Rightarrow> (Inl err1, w1)
             | Inr pair \<Rightarrow>
                 (case api_SecretsCreate cl namespace (GenerateCASecret pk pair namespace name) w1 of
                    (Inl err1, w2) \<Rightarrow> (Inl err1, w2)
                  | (Inr createdSecret, w2) \<Rightarrow> (Inr createdSecret, w2))))"

definition renewServerCertificate ::
  "('c, 'm, 'v) client \<Rightarrow> 'k pki \<Rightarrow> secret \<Rightarrow> secret \<Rightarrow> ('c, 'f, 'm, 'v) world
     \<Rightarrow> (error + secret) \<times> ('c, 'f, 'm, 'v) world" where
  "renewServerCertificate cl pk caSecret secret w =
     (case ParseServerSecret pk secret of
        Inl err \<Rightarrow> (Inl err, w)
      | Inr pair \<Rightarrow>
          (case IsExpiring pk pair of
             Inl err \<Rightarrow> (Inl err, w)
           | Inr expiring \<Rightarrow>
               if \<not> expiring then (Inr secret, w)
               else
                 (case ParseCASecret pk caSecret of
                    Inl err \<Rightarrow> (Inl err, w)
                  | Inr caPair \<Rightarrow>
                      (case ParseECPrivateKey pk caPair of
                         Inl err \<Rightarrow> (Inl err, w)
                       | Inr caPrivateKey \<Rightarrow>
                           (case RenewCertificate pk pair caPrivateKey of
                              Inl err \<Rightarrow> (Inl err, w)
                            | Inr renewed \<Rightarrow>
                                (let secret1 = secret\<lparr>Data := AList.update ''tls.crt'' (Certificate renewed) (Data secret)\<rparr>
                                 in case api_SecretsUpdate cl (Namespace secret1) secret1 w of
                                      (Inl err, w1) \<Rightarrow> (Inl err, w1)
                                    | (Inr updatedSecret, w1) \<Rightarrow> (Inr updatedSecret, w1)))))))"

definition EnsureCertificate ::
  "WebhookEnvironment \<Rightarrow> ('c, 'm, 'v) client \<Rightarrow> 'k pki \<Rightarrow> secret \<Rightarrow> ('c, 'f, 'm, 'v) world
     \<Rightarrow> (error + secret) \<times> ('c, 'f, 'm, 'v) world" where
  "EnsureCertificate webhook cl pk caSecret w =
     (case api_SecretsGet cl (OperatorNamespace webhook) (SecretName webhook) w of
        (Inr secret, w1) \<Rightarrow> renewServerCertificate cl pk caSecret secret w1
      | (Inl err, w1) \<Rightarrow>
          if \<not> IsNotFound err then (Inl err, w1)
          else
            (case ParseCASecret pk caSecret of
               Inl err1 \<Rightarrow> (Inl err1, w1)
             | Inr caPair \<Rightarrow>
                 (let webhookHostname = ServiceName webhook @ ''.'' @ OperatorNamespace webhook @ ''.svc''
                  in case CreateAndSignPair pk caPair webhookHostname of
                       Inl err1 \<Rightarrow> (Inl err1, w1)
                     | Inr webhookPair \<Rightarrow>
                         (case api_SecretsCreate cl (OperatorNamespace webhook)
                                 (GenerateServerSecret pk webhookPair (OperatorNamespace webhook)
                                    (SecretName webhook)) w1 of
                            (Inl err1, w2) \<Rightarrow> (Inl err1, w2)
                          | (Inr createdSecret, w2) \<Rightarrow> (Inr createdSecret, w2)))))"

text \<open>The loop of \<open>DumpSecretToDir\<close> over the data of the secret (lines 289 to 294).\<close>

fun write_data ::
  "'f filesystem \<Rightarrow> string \<Rightarrow> (string \<times> bytes) list \<Rightarrow> ('c, 'f, 'm, 'v) world
     \<Rightarrow> error option \<times> ('c, 'f, 'm, 'v) world" where
  "write_data fs certDir [] w = (None, w)"
| "write_data fs certDir ((name, content) # rest) w =
     (case fs_WriteFile fs (path_Join fs certDir name) content owner_read_write w of
        (Some err, w1) \<Rightarrow> (Some err, w1)
      | (None, w1) \<Rightarrow> write_data fs certDir rest w1)"

text \<open>
  \<open>DumpSecretToDir\<close> from the loop on (lines 289 to 301): the data files, then the
  sentinel.
\<close>

definition dump_files ::
  "'f filesystem \<Rightarrow> secret \<Rightarrow> string \<Rightarrow> string \<Rightarrow> ('c, 'f, 'm, 'v) world
     \<Rightarrow> error option \<times> ('c, 'f, 'm, 'v) world" where
  "dump_files fs secret certDir resourceFileName w =
     (case write_data fs certDir (Data secret) w of
        (Some err, w1) \<Rightarrow> (Some err, w1)
      | (None, w1) \<Rightarrow> fs_WriteFile fs resourceFileName (ResourceVersion secret) owner_read_write w1)"

definition DumpSecretToDir ::
  "'f filesystem \<Rightarrow> secret \<Rightarrow> string \<Rightarrow> ('c, 'f, 'm, 'v) world
     \<Rightarrow> error option \<times> ('c, 'f, 'm, 'v) world" where
  "DumpSecretToDir fs secret certDir w =
     (let resourceFileName = path_Join fs certDir ''resource'' in
      case fs_FileExists fs resourceFileName w of
        (Inl err, w1) \<Rightarrow> (Some err, w1)
      | (Inr oldVersionExist, w1) \<Rightarrow>
          if oldVersionExist then
            (case fs_ReadFile fs resourceFileName w1 of
               (Inl err, w2) \<Rightarrow> (Some err, w2)
             | (Inr oldVersion, w2) \<Rightarrow>
                 if oldVersion = ResourceVersion secret then (None, w2)
                 else dump_files fs secret certDir resourceFileName w2)
          else dump_files fs secret certDir resourceFileName w1)"

text \<open>
  The loop of the two injections (lines 314 to 316 and 332 to 334): the bundle of every
  entry is overwritten.
\<close>

definition set_CABundle :: "bytes \<Rightarrow> 'x webhook \<Rightarrow> 'x webhook" where
  "set_CABundle b h = h\<lparr>ClientConfig := (ClientConfig h)\<lparr>CABundle := b\<rparr>\<rparr>"

definition InjectPublicKeyIntoMutatingWebhook ::
  "WebhookEnvironment \<Rightarrow> ('c, 'm, 'v) client \<Rightarrow> secret \<Rightarrow> ('c, 'f, 'm, 'v) world
     \<Rightarrow> error option \<times> ('c, 'f, 'm, 'v) world" where
  "InjectPublicKeyIntoMutatingWebhook webhook cl tlsSecret w =
     (case api_MutatingGet cl (MutatingWebhookConfigurationName webhook) w of
        (Inl err, w1) \<Rightarrow> (Some err, w1)
      | (Inr cfg, w1) \<Rightarrow>
          (case api_MutatingUpdate cl
                  (cfg\<lparr>Webhooks := map (set_CABundle (data_field tlsSecret ''tls.crt'')) (Webhooks cfg)\<rparr>) w1 of
             (Inl err, w2) \<Rightarrow> (Some err, w2)
           | (Inr updated, w2) \<Rightarrow> (None, w2)))"

definition InjectPublicKeyIntoValidatingWebhook ::
  "WebhookEnvironment \<Rightarrow> ('c, 'm, 'v) client \<Rightarrow> secret \<Rightarrow> ('c, 'f, 'm, 'v) world
     \<Rightarrow> error option \<times> ('c, 'f, 'm, 'v) world" where
  "InjectPublicKeyIntoValidatingWebhook webhook cl tlsSecret w =
     (case api_ValidatingGet cl (ValidatingWebhookConfigurationName webhook) w of
        (Inl err, w1) \<Rightarrow> (Some err, w1)
      | (Inr cfg, w1) \<Rightarrow>
          (case api_ValidatingUpdate cl
                  (cfg\<lparr>Webhooks := map (set_CABundle (data_field tlsSecret ''tls.crt'')) (Webhooks cfg)\<rparr>) w1 of
             (Inl err, w2) \<Rightarrow> (Some err, w2)
           | (Inr updated, w2) \<Rightarrow> (None, w2)))"

text \<open>\<open>Setup\<close> from the second injection on (lines 152 to 162).\<close>

definition setup_validating ::
  "WebhookEnvironment \<Rightarrow> ('c, 'm, 'v) client \<Rightarrow> secret \<Rightarrow> ('c, 'f, 'm, 'v) world
     \<Rightarrow> error option \<times> ('c, 'f, 'm, 'v) world" where
  "setup_validating webhook cl webhookSecret w =
     (case InjectPublicKeyIntoValidatingWebhook webhook cl webhookSecret w of
        (Some err, w1) \<Rightarrow>
          if IsNotFound err
          then (None, log_Info ''validating webhook configuration not found, cannot inject public key''
                        (ValidatingWebhookConfigurationName webhook) w1)
          else (Some err, w1)
      | (None, w1) \<Rightarrow> (None, w1))"

definition Setup ::
  "WebhookEnvironment \<Rightarrow> ('c, 'm, 'v) client \<Rightarrow> 'k pki \<Rightarrow> 'f filesystem \<Rightarrow> ('c, 'f, 'm, 'v) world
     \<Rightarrow> error option \<times> ('c, 'f, 'm, 'v) world" where
  "Setup webhook cl pk fs w =
     (case EnsureRootCACertificate cl pk (OperatorNamespace webhook) (CaSecretName webhook) w of
        (Inl err, w1) \<Rightarrow> (Some err, w1)
      | (Inr caSecret, w1) \<Rightarrow>
          (case EnsureCertificate webhook cl pk caSecret w1 of
             (Inl err, w2) \<Rightarrow> (Some err, w2)
           | (Inr webhookSecret, w2) \<Rightarrow>
               (case DumpSecretToDir fs webhookSecret (CertDir webhook) w2 of
                  (Some err, w3) \<Rightarrow> (Some err, w3)
                | (None, w3) \<Rightarrow>
                    (case InjectPublicKeyIntoMutatingWebhook webhook cl webhookSecret w3 of
                       (Some err, w4) \<Rightarrow>
                         if IsNotFound err
                         then setup_validating webhook cl webhookSecret
                                (log_Info ''mutating webhook configuration not found, cannot inject public key''
                                   (MutatingWebhookConfigurationName webhook) w4)
                         else (Some err, w4)
                     | (None, w4) \<Rightarrow> setup_validating webhook cl webhookSecret w4))))"

section \<open>Reading a trace of writes\<close>

text \<open>
  What a list of writes (path, content, permission requested) does to the files when
  they are made one after the other through \<open>WriteFile\<close>, up to and including the first
  that fails: the meaning of the \<open>ActWriteFile\<close> entries of a trace.
\<close>

fun write_all :: "'f filesystem \<Rightarrow> (string \<times> bytes \<times> nat) list \<Rightarrow> 'f \<Rightarrow> error option \<times> 'f" where
  "write_all fs [] f = (None, f)"
| "write_all fs ((p, content, perm) # ws) f =
     (case WriteFile fs p content perm f of
        (Some err, f1) \<Rightarrow> (Some err, f1)
      | (None, f1) \<Rightarrow> write_all fs ws f1)"

section \<open>Instances of the parameters\<close>

text \<open>
  Modelled from the spec: the object store is an external collaborator. This instance
  keeps named records; a \<open>Get\<close> of a missing record fails with NotFound, a \<open>Create\<close>
  fails on an existing name, and an \<open>Update\<close> fails on a missing record or a stale
  \<open>resourceVersion\<close> and otherwise stores the record under a new \<open>resourceVersion\<close>.
\<close>

record ('m, 'v) mem_cluster =
  stored_secrets :: "secret list"
  stored_mutating :: "'m webhook_configuration list"
  stored_validating :: "'v webhook_configuration list"

definition same_secret :: "string \<Rightarrow> string \<Rightarrow> secret \<Rightarrow> bool" where
  "same_secret ns name s = (Namespace s = ns \<and> Name s = name)"

definition mem_SecretsUpdate ::
  "string \<Rightarrow> secret \<Rightarrow> ('m, 'v) mem_cluster \<Rightarrow> (error + secret) \<times> ('m, 'v) mem_cluster" where
  "mem_SecretsUpdate ns s c =
     (case find (same_secret ns (Name s)) (stored_secrets c) of
        None \<Rightarrow> (Inl (NotFound ''secret not found''), c)
      | Some old \<Rightarrow>
          if ResourceVersion s \<noteq> ResourceVersion old
          then (Inl (Failure ''the object has been modified''), c)
          else
            (let s1 = s\<lparr>Namespace := ns, ResourceVersion := ResourceVersion old @ ''+''\<rparr>
             in (Inr s1,
                 c\<lparr>stored_secrets :=
                       map (\<lambda>t. if same_secret ns (Name s) t then s1 else t) (stored_secrets c)\<rparr>)))"

definition mem_ConfigurationUpdate ::
  "'x webhook_configuration \<Rightarrow> 'x webhook_configuration list
     \<Rightarrow> (error + 'x webhook_configuration) \<times> 'x webhook_configuration list" where
  "mem_ConfigurationUpdate cfg cs =
     (if ConfigurationName cfg \<in> set (map ConfigurationName cs)
      then (Inr cfg, map (\<lambda>t. if ConfigurationName t = ConfigurationName cfg then cfg else t) cs)
      else (Inl (NotFound ''webhook configuration not found''), cs))"

definition mem_ConfigurationGet ::
  "string \<Rightarrow> 'x webhook_configuration list \<Rightarrow> error + 'x webhook_configuration" where
  "mem_ConfigurationGet name cs =
     (case find (\<lambda>t. ConfigurationName t = name) cs of
        None \<Rightarrow> Inl (NotFound ''webhook configuration not found'')
      | Some cfg \<Rightarrow> Inr cfg)"

definition mem_client :: "(('m, 'v) mem_cluster, 'm, 'v) client" where
  "mem_client =
     \<lparr>SecretsGet = (\<lambda>ns name c.
         case find (same_secret ns name) (stored_secrets c) of
           None \<Rightarrow> Inl (NotFound ''secret not found'')
         | Some s \<Rightarrow> Inr s),
      SecretsCreate = (\<lambda>ns s c.
         case find (same_secret ns (Name s)) (stored_secrets c) of
           Some old \<Rightarrow> (Inl (Failure ''secret already exists''), c)
         | None \<Rightarrow>
             (let s1 = s\<lparr>Namespace := ns, ResourceVersion := ''1''\<rparr>
              in (Inr s1, c\<lparr>stored_secrets := stored_secrets c @ [s1]\<rparr>))),
      SecretsUpdate = mem_SecretsUpdate,
      MutatingGet = (\<lambda>name c. mem_ConfigurationGet name (stored_mutating c)),
      MutatingUpdate = (\<lambda>cfg c.
         case mem_ConfigurationUpdate cfg (stored_mutating c) of
           (r, cs) \<Rightarrow> (r, c\<lparr>stored_mutating := cs\<rparr>)),
      ValidatingGet = (\<lambda>name c. mem_ConfigurationGet name (stored_validating c)),
      ValidatingUpdate = (\<lambda>cfg c.
         case mem_ConfigurationUpdate cfg (stored_validating c) of
           (r, cs) \<Rightarrow> (r, c\<lparr>stored_validating := cs\<rparr>))\<rparr>"

text \<open>
  The same store seen by a caller that loses a race: the mutating configuration is
  deleted by someone else after it has been read, so its \<open>Update\<close> fails with the
  error given (a NotFound status error, in a real cluster).
\<close>

definition racing_client :: "error \<Rightarrow> (('m, 'v) mem_cluster, 'm, 'v) client" where
  "racing_client err =
     mem_client\<lparr>MutatingUpdate := (\<lambda>cfg c. (Inl err, c\<lparr>stored_mutating := []\<rparr>))\<rparr>"

text \<open>
  Modelled from the spec: the file system is external and the helpers are in the
  package \<open>fileutils\<close>. This instance maps a path to its content and permission bits.
  \<open>WriteFile\<close> is \<open>ioutil.WriteFile\<close> as the Go library documents it: it creates a
  missing file with the permission given, and it replaces the content of an existing
  one without changing its permission.
\<close>

type_synonym mem_files = "(string \<times> bytes \<times> nat) list"

definition mem_fs :: "mem_files filesystem" where
  "mem_fs =
     \<lparr>FileExists = (\<lambda>p f. Inr (p \<in> set (map fst f))),
      ReadFile = (\<lambda>p f.
         case map_of f p of
           None \<Rightarrow> Inl (Failure ''no such file or directory'')
         | Some (content, perm) \<Rightarrow> Inr content),
      WriteFile = (\<lambda>p content perm f.
         (None, AList.update p (content, case map_of f p of None \<Rightarrow> perm | Some (old, perm0) \<Rightarrow> perm0) f)),
      path_Join = (\<lambda>dir name. dir @ ''/'' @ name)\<rparr>"

text \<open>
  Modelled from the spec: the certificate functions are in another file of the package. In
  this symbolic instance a private key is its name, and a certificate is a validity
  mark (\<open>o\<close> for one past the renewal threshold, \<open>n\<close> for a fresh one), the subject
  and the name of the key that signed it. A certificate is signed by a key when it ends
  with that key's signature.
\<close>

definition signature :: "bytes \<Rightarrow> bytes" where
  "signature key = ''/signed-by:'' @ key"

definition signed_by :: "bytes \<Rightarrow> bytes \<Rightarrow> bool" where
  "signed_by cert key = suffix (signature key) cert"

definition sym_parse :: "string \<Rightarrow> string \<Rightarrow> secret \<Rightarrow> error + key_pair" where
  "sym_parse keyField certField s =
     (case map_of (Data s) keyField of
        None \<Rightarrow> Inl (Failure ''missing private key'')
      | Some k \<Rightarrow>
          (case map_of (Data s) certField of
             None \<Rightarrow> Inl (Failure ''missing certificate'')
           | Some c \<Rightarrow> Inr \<lparr>Private = k, Certificate = c\<rparr>))"

definition sym_pki :: "bytes pki" where
  "sym_pki =
     \<lparr>CreateCA = Inr \<lparr>Private = ''ca-key'', Certificate = ''n/ca'' @ signature ''ca-key''\<rparr>,
      ParseCASecret = sym_parse ''ca.key'' ''ca.crt'',
      ParseServerSecret = sym_parse ''tls.key'' ''tls.crt'',
      IsExpiring = (\<lambda>pair.
         case Certificate pair of
           [] \<Rightarrow> Inl (Failure ''malformed certificate'')
         | mark # rest \<Rightarrow> Inr (mark = CHR ''o'')),
      ParseECPrivateKey = (\<lambda>pair.
         if Private pair = [] then Inl (Failure ''malformed private key'') else Inr (Private pair)),
      RenewCertificate = (\<lambda>pair key.
         Inr (pair\<lparr>Certificate := ''n/renewed'' @ signature key\<rparr>)),
      CreateAndSignPair = (\<lambda>caPair host.
         Inr \<lparr>Private = ''leaf-key'', Certificate = ''n/'' @ host @ signature (Private caPair)\<rparr>),
      GenerateCASecret = (\<lambda>pair ns name.
         \<lparr>Namespace = ns, Name = name, ResourceVersion = [],
          Data = [(''ca.crt'', Certificate pair), (''ca.key'', Private pair)]\<rparr>),
      GenerateServerSecret = (\<lambda>pair ns name.
         \<lparr>Namespace = ns, Name = name, ResourceVersion = [],
          Data = [(''tls.crt'', Certificate pair), (''tls.key'', Private pair)]\<rparr>)\<rparr>"

text \<open>Example objects.\<close>

definition example_env :: WebhookEnvironment where
  "example_env =
     \<lparr>CertDir = ''/certs'', CaSecretName = ''ca-secret'', SecretName = ''webhook-secret'',
      ServiceName = ''webhook-service'', OperatorNamespace = ''operator'',
      MutatingWebhookConfigurationName = ''mutating-cfg'',
      ValidatingWebhookConfigurationName = ''validating-cfg''\<rparr>"

definition example_configuration :: "string \<Rightarrow> string webhook_configuration" where
  "example_configuration name =
     \<lparr>ConfigurationName = name,
      Webhooks = [\<lparr>ClientConfig = \<lparr>CABundle = ''stale'', client_config_rest = ''service-a''\<rparr>,
                   webhook_rest = ''hook-a''\<rparr>,
                  \<lparr>ClientConfig = \<lparr>CABundle = [], client_config_rest = ''service-b''\<rparr>,
                   webhook_rest = ''hook-b''\<rparr>],
      configuration_rest = ''labels''\<rparr>"

definition example_ca_secret :: "bytes \<Rightarrow> bytes \<Rightarrow> secret" where
  "example_ca_secret key cert =
     \<lparr>Namespace = ''operator'', Name = ''ca-secret'', ResourceVersion = ''7'',
      Data = [(''ca.crt'', cert), (''ca.key'', key)]\<rparr>"

definition example_leaf_secret :: "bytes \<Rightarrow> secret" where
  "example_leaf_secret cert =
     \<lparr>Namespace = ''operator'', Name = ''webhook-secret'', ResourceVersion = ''3'',
      Data = [(''tls.crt'', cert), (''tls.key'', ''leaf-key'')]\<rparr>"

definition example_world ::
  "secret list \<Rightarrow> string webhook_configuration list \<Rightarrow> string webhook_configuration list
     \<Rightarrow> mem_files \<Rightarrow> ((string, string) mem_cluster, mem_files, string, string) world" where
  "example_world ss ms vs f =
     \<lparr>cluster = \<lparr>stored_secrets = ss, stored_mutating = ms, stored_validating = vs\<rparr>,
      files = f, actions = []\<rparr>"

definition fresh_world :: "((string, string) mem_cluster, mem_files, string, string) world" where
  "fresh_world =
     example_world
       [example_ca_secret ''K2'' (''n/ca'' @ signature ''K2''),
        example_leaf_secret (''n/leaf'' @ signature ''K2'')]
       [example_configuration ''mutating-cfg''] [example_configuration ''validating-cfg''] []"

definition bare_world :: "((string, string) mem_cluster, mem_files, string, string) world" where
  "bare_world =
     example_world
       [example_ca_secret ''K2'' (''n/ca'' @ signature ''K2''),
        example_leaf_secret (''n/leaf'' @ signature ''K2'')]
       [] [] []"

text \<open>A certificate directory in which \<open>tls.crt\<close> exists, readable by everyone (\<open>0644\<close>).\<close>

definition world_readable :: nat where
  "world_readable = 6 * 64 + 4 * 8 + 4"

definition used_directory_world :: "((string, string) mem_cluster, mem_files, string, string) world" where
  "used_directory_world = example_world [] [] [] [(''/certs/tls.crt'', ''n/old'', world_readable)]"
section \<open>The reconciliation pass: proofs\<close>

lemma primary_loop_calls:
  "primary_loop m loc xs st = (None, st') \<Longrightarrow>
   calls st' = calls st @ concat (map (\<lambda>s. (if Has loc (SlotName s) then [] else [CallCreate s]) @ [CallUpdate s]) xs)"
proof (induction xs arbitrary: st)
  case Nil
  then show ?case by simp
next
  case (Cons x xs)
  then show ?case
    by (auto simp: call_Create_def call_Update_def split: if_splits prod.splits option.splits)
qed

lemma local_loop_calls:
  "local_loop m prim xs st = (None, st') \<Longrightarrow>
   calls st' = calls st @ map CallDelete (filter (\<lambda>s. \<not> Has prim (SlotName s)) xs)"
proof (induction xs arbitrary: st)
  case Nil
  then show ?case by simp
next
  case (Cons x xs)
  then show ?case
    by (auto simp: call_Delete_def split: if_splits prod.splits option.splits)
qed

lemma perform_all_append:
  "perform_all P (xs @ ys) db =
     (case perform_all P xs db of (Some err, db1) \<Rightarrow> (Some err, db1) | (None, db1) \<Rightarrow> perform_all P ys db1)"
  by (induction xs arbitrary: db) (auto split: prod.splits option.splits)

lemma stopped_at_Nil: "stopped_at P [] db None db"
  by (simp add: stopped_at_def)

lemma stopped_at_fail: "P c db = (Some err, db') \<Longrightarrow> stopped_at P [c] db (Some err) db'"
  unfolding stopped_at_def by (auto intro!: exI[of _ "[]"])

lemma stopped_at_Cons:
  assumes "P c db = (None, db1)" and "stopped_at P ks db1 r db'"
  shows "stopped_at P (c # ks) db r db'"
proof (cases r)
  case None
  with assms show ?thesis by (simp add: stopped_at_def)
next
  case (Some err)
  with assms(2) obtain pre k dbm where
    "ks = pre @ [k]" "perform_all P pre db1 = (None, dbm)" "P k dbm = (Some err, db')"
    by (auto simp: stopped_at_def)
  with assms(1) have "c # ks = (c # pre) @ [k] \<and> perform_all P (c # pre) db = (None, dbm)
      \<and> P k dbm = (Some err, db')"
    by simp
  then show ?thesis unfolding stopped_at_def Some by (simp only: option.case) blast
qed

lemma primary_loop_stops:
  "primary_loop lm loc xs st = (r, st') \<Longrightarrow>
   \<exists>ks. calls st' = calls st @ ks \<and>
        stopped_at (perform pm lm pod cfg pdb) ks (local_db st) r (local_db st')"
proof (induction xs arbitrary: st)
  case Nil
  then show ?case by (auto simp: stopped_at_Nil)
next
  case (Cons x xs)
  let ?P = "perform pm lm pod cfg pdb"
  show ?case
  proof (cases "Has loc (SlotName x)")
    case True
    obtain r1 db1 where u: "Update_slot lm x (local_db st) = (r1, db1)" by force
    show ?thesis
    proof (cases r1)
      case None
      let ?st2 = "\<lparr>local_db = db1, calls = calls st @ [CallUpdate x]\<rparr>"
      from Cons.prems True u None have "primary_loop lm loc xs ?st2 = (r, st')"
        by (simp add: call_Update_def)
      from Cons.IH[OF this] obtain ks where
        ks: "calls st' = calls ?st2 @ ks" "stopped_at ?P ks (local_db ?st2) r (local_db st')"
        by blast
      have "stopped_at ?P (CallUpdate x # ks) (local_db st) r (local_db st')"
        using ks(2) u None by (intro stopped_at_Cons[where ?db1.0 = db1]) simp_all
      with ks(1) show ?thesis by (intro exI[of _ "CallUpdate x # ks"]) simp
    next
      case (Some err)
      with Cons.prems True u have "r = Some err" "st' = \<lparr>local_db = db1, calls = calls st @ [CallUpdate x]\<rparr>"
        by (auto simp: call_Update_def)
      then show ?thesis using u Some
        by (intro exI[of _ "[CallUpdate x]"]) (simp add: stopped_at_fail)
    qed
  next
    case False
    obtain r0 db0 where c: "Create_slot lm x (local_db st) = (r0, db0)" by force
    show ?thesis
    proof (cases r0)
      case (Some err)
      with Cons.prems False c have "r = Some err" "st' = \<lparr>local_db = db0, calls = calls st @ [CallCreate x]\<rparr>"
        by (auto simp: call_Create_def)
      then show ?thesis using c Some
        by (intro exI[of _ "[CallCreate x]"]) (simp add: stopped_at_fail)
    next
      case None
      obtain r1 db1 where u: "Update_slot lm x db0 = (r1, db1)" by force
      show ?thesis
      proof (cases r1)
        case (Some err)
        with Cons.prems False c None u have "r = Some err"
          "st' = \<lparr>local_db = db1, calls = calls st @ [CallCreate x, CallUpdate x]\<rparr>"
          by (auto simp: call_Create_def call_Update_def)
        moreover have "stopped_at ?P [CallCreate x, CallUpdate x] (local_db st) (Some err) db1"
          using c None u Some by (intro stopped_at_Cons[where ?db1.0 = db0] stopped_at_fail) simp_all
        ultimately show ?thesis by (intro exI[of _ "[CallCreate x, CallUpdate x]"]) simp
      next
        case n1: None
        let ?st2 = "\<lparr>local_db = db1, calls = calls st @ [CallCreate x, CallUpdate x]\<rparr>"
        from Cons.prems False c None u n1 have "primary_loop lm loc xs ?st2 = (r, st')"
          by (simp add: call_Create_def call_Update_def)
        from Cons.IH[OF this] obtain ks where
          ks: "calls st' = calls ?st2 @ ks" "stopped_at ?P ks (local_db ?st2) r (local_db st')"
          by blast
        have "stopped_at ?P (CallCreate x # CallUpdate x # ks) (local_db st) r (local_db st')"
          using ks(2) c None u n1
          by (intro stopped_at_Cons[where ?db1.0 = db0] stopped_at_Cons[where ?db1.0 = db1]) simp_all
        with ks(1) show ?thesis by (intro exI[of _ "CallCreate x # CallUpdate x # ks"]) simp
      qed
    qed
  qed
qed

lemma local_loop_stops:
  "local_loop lm prim xs st = (r, st') \<Longrightarrow>
   \<exists>ks. calls st' = calls st @ ks \<and>
        stopped_at (perform pm lm pod cfg pdb) ks (local_db st) r (local_db st')"
proof (induction xs arbitrary: st)
  case Nil
  then show ?case by (auto simp: stopped_at_Nil)
next
  case (Cons x xs)
  let ?P = "perform pm lm pod cfg pdb"
  show ?case
  proof (cases "Has prim (SlotName x)")
    case True
    with Cons show ?thesis by simp
  next
    case False
    obtain r0 db0 where d: "Delete_slot lm x (local_db st) = (r0, db0)" by force
    show ?thesis
    proof (cases r0)
      case (Some err)
      with Cons.prems False d have "r = Some err" "st' = \<lparr>local_db = db0, calls = calls st @ [CallDelete x]\<rparr>"
        by (auto simp: call_Delete_def)
      then show ?thesis using d Some
        by (intro exI[of _ "[CallDelete x]"]) (simp add: stopped_at_fail)
    next
      case None
      let ?st2 = "\<lparr>local_db = db0, calls = calls st @ [CallDelete x]\<rparr>"
      from Cons.prems False d None have "local_loop lm prim xs ?st2 = (r, st')"
        by (simp add: call_Delete_def)
      from Cons.IH[OF this] obtain ks where
        ks: "calls st' = calls ?st2 @ ks" "stopped_at ?P ks (local_db ?st2) r (local_db st')"
        by blast
      have "stopped_at ?P (CallDelete x # ks) (local_db st) r (local_db st')"
        using ks(2) d None by (intro stopped_at_Cons[where ?db1.0 = db0]) simp_all
      with ks(1) show ?thesis by (intro exI[of _ "CallDelete x # ks"]) simp
    qed
  qed
qed

lemma stopped_at_append:
  "stopped_at P xs db None db1 \<Longrightarrow> stopped_at P ys db1 r db' \<Longrightarrow> stopped_at P (xs @ ys) db r db'"
proof (induction xs arbitrary: db)
  case Nil
  then show ?case by (simp add: stopped_at_def)
next
  case (Cons x xs)
  from Cons.prems(1) obtain dbx where x: "P x db = (None, dbx)" "stopped_at P xs dbx None db1"
    by (auto simp: stopped_at_def split: prod.splits option.splits)
  from Cons.IH[OF x(2) Cons.prems(2)] x(1) show ?case
    by (simp add: stopped_at_Cons)
qed



lemma primary_loop_mutations:
  "primary_loop lm loc xs st = (r, st') \<Longrightarrow>
   \<exists>ks. calls st' = calls st @ ks \<and> CallListPrimary \<notin> set ks \<and> CallListLocal \<notin> set ks"
proof (induction xs arbitrary: st)
  case Nil
  then show ?case by simp
next
  case (Cons x xs)
  then show ?case
    by (fastforce simp: call_Create_def call_Update_def split: if_splits prod.splits option.splits)
qed

lemma local_loop_mutations:
  "local_loop lm prim xs st = (r, st') \<Longrightarrow>
   \<exists>ks. calls st' = calls st @ ks \<and> CallListPrimary \<notin> set ks \<and> CallListLocal \<notin> set ks"
proof (induction xs arbitrary: st)
  case Nil
  then show ?case by simp
next
  case (Cons x xs)
  then show ?case
    by (fastforce simp: call_Delete_def split: if_splits prod.splits option.splits)
qed

lemma reported_mutation:
  "c \<noteq> CallListPrimary \<Longrightarrow> c \<noteq> CallListLocal \<Longrightarrow> reported c err = err"
  by (cases c) simp_all

lemma stopped_at_last:
  "stopped_at P ks db (Some err) db' \<Longrightarrow> ks \<noteq> []"
  by (auto simp: stopped_at_def)

lemma sync_stops:
  assumes "synchronizeReplicationSlots pm lm pod cfg pdb st = (r, st')"
  shows "\<exists>ks. calls st' = calls st @ ks \<and>
     (case r of
        None \<Rightarrow> stopped_at (perform pm lm pod cfg pdb) ks (local_db st) None (local_db st')
      | Some err \<Rightarrow>
          (\<exists>err0. stopped_at (perform pm lm pod cfg pdb) ks (local_db st) (Some err0) (local_db st')
                 \<and> err = reported (last ks) err0))"
proof -
  let ?P = "perform pm lm pod cfg pdb"
  let ?db = "local_db st"
  show ?thesis
  proof (cases "List_slots pm pod cfg pdb")
    case (Inl e)
    with assms have r: "r = Some (Errorf ''getting replication slot status from primary: '' e)"
      and st': "st' = st\<lparr>calls := calls st @ [CallListPrimary]\<rparr>"
      by (auto simp: synchronizeReplicationSlots_def Let_def)
    have "stopped_at ?P [CallListPrimary] ?db (Some e) ?db"
      using Inl by (intro stopped_at_fail) simp
    then show ?thesis unfolding r st'
      by (intro exI[of _ "[CallListPrimary]"]) auto
  next
    case prim: (Inr slotsInPrimary)
    have p1: "?P CallListPrimary ?db = (None, ?db)" using prim by simp
    show ?thesis
    proof (cases "List_slots lm pod cfg ?db")
      case (Inl e)
      with assms prim have r: "r = Some (Errorf ''getting replication slot status from local: '' e)"
        and st': "st' = st\<lparr>calls := calls st @ [CallListPrimary, CallListLocal]\<rparr>"
        by (auto simp: synchronizeReplicationSlots_def Let_def)
      have "stopped_at ?P [CallListLocal] ?db (Some e) ?db"
        using Inl by (intro stopped_at_fail) simp
      with p1 have "stopped_at ?P [CallListPrimary, CallListLocal] ?db (Some e) ?db"
        by (rule stopped_at_Cons)
      then show ?thesis unfolding r st'
        by (intro exI[of _ "[CallListPrimary, CallListLocal]"]) auto
    next
      case loc: (Inr slotsInLocal)
      have p2: "?P CallListLocal ?db = (None, ?db)" using loc by simp
      let ?st2 = "st\<lparr>calls := calls st @ [CallListPrimary, CallListLocal]\<rparr>"
      obtain r1 st3 where pl: "primary_loop lm slotsInLocal (Items slotsInPrimary) ?st2 = (r1, st3)"
        by force
      from primary_loop_stops[OF pl, of pm pod cfg pdb] obtain ks1 where
        ks1: "calls st3 = calls ?st2 @ ks1" "stopped_at ?P ks1 ?db r1 (local_db st3)"
        by auto
      from primary_loop_mutations[OF pl] ks1(1) have m1:
        "CallListPrimary \<notin> set ks1" "CallListLocal \<notin> set ks1"
        by auto
      have lists: "stopped_at ?P [CallListPrimary, CallListLocal] ?db None ?db"
        using p1 p2 by (simp add: stopped_at_def)
      show ?thesis
      proof (cases r1)
        case (Some e)
        with assms prim loc pl have r: "r = Some e" and st': "st' = st3"
          by (auto simp: synchronizeReplicationSlots_def Let_def)
        have s: "stopped_at ?P ([CallListPrimary, CallListLocal] @ ks1) ?db (Some e) (local_db st3)"
          using lists ks1(2) Some by (intro stopped_at_append[where ?db1.0 = "?db"]) simp_all
        have ne: "ks1 \<noteq> []" using ks1(2) Some by (auto dest: stopped_at_last)
        then have "last ([CallListPrimary, CallListLocal] @ ks1) = last ks1" by simp
        moreover have "last ks1 \<in> set ks1" using ne by simp
        ultimately have "reported (last ([CallListPrimary, CallListLocal] @ ks1)) e = e"
          using m1 by (intro reported_mutation) auto
        with s ks1(1) show ?thesis unfolding r st'
          by (intro exI[of _ "[CallListPrimary, CallListLocal] @ ks1"]) auto
      next
        case None
        with assms prim loc pl have ll: "local_loop lm slotsInPrimary (Items slotsInLocal) st3 = (r, st')"
          by (auto simp: synchronizeReplicationSlots_def Let_def)
        from local_loop_stops[OF ll, of pm pod cfg pdb] obtain ks2 where
          ks2: "calls st' = calls st3 @ ks2" "stopped_at ?P ks2 (local_db st3) r (local_db st')"
          by auto
        from local_loop_mutations[OF ll] ks2(1) have m2:
          "CallListPrimary \<notin> set ks2" "CallListLocal \<notin> set ks2"
          by auto
        let ?ks = "[CallListPrimary, CallListLocal] @ ks1 @ ks2"
        have s12: "stopped_at ?P (ks1 @ ks2) ?db r (local_db st')"
          using ks1(2) ks2(2) None by (intro stopped_at_append[where ?db1.0 = "local_db st3"]) simp_all
        have s: "stopped_at ?P ?ks ?db r (local_db st')"
          using lists s12 by (rule stopped_at_append)
        have c: "calls st' = calls st @ ?ks" using ks1(1) ks2(1) by simp
        show ?thesis
        proof (cases r)
          case None
          with s c show ?thesis by (intro exI[of _ ?ks]) simp
        next
          case (Some e)
          have ne: "ks2 \<noteq> []" using ks2(2) Some by (auto dest: stopped_at_last)
          then have "last ?ks = last ks2" by simp
          moreover have "last ks2 \<in> set ks2" using ne by simp
          ultimately have "reported (last ?ks) e = e"
            using m2 by (intro reported_mutation) auto
          with s c Some show ?thesis by (intro exI[of _ ?ks]) auto
        qed
      qed
    qed
  qed
qed

lemma sync_calls:
  assumes "List_slots pm pod cfg pdb = Inr slotsInPrimary"
    and "List_slots lm pod cfg (local_db st) = Inr slotsInLocal"
    and "synchronizeReplicationSlots pm lm pod cfg pdb st = (None, st')"
  shows "calls st' = calls st @ [CallListPrimary, CallListLocal]
       @ concat (map (\<lambda>s. (if Has slotsInLocal (SlotName s) then [] else [CallCreate s]) @ [CallUpdate s])
                  (Items slotsInPrimary))
       @ map CallDelete (filter (\<lambda>s. \<not> Has slotsInPrimary (SlotName s)) (Items slotsInLocal))"
  using assms
  by (auto simp: synchronizeReplicationSlots_def Let_def split: sum.splits prod.splits option.splits
      dest!: primary_loop_calls local_loop_calls)

lemma primary_loop_prefix:
  "primary_loop m loc xs st = (r, st') \<Longrightarrow>
   \<exists>ks. calls st' = calls st @ ks
      \<and> prefix ks (concat (map (\<lambda>s. (if Has loc (SlotName s) then [] else [CallCreate s]) @ [CallUpdate s]) xs))"
proof (induction xs arbitrary: st)
  case Nil
  then show ?case by simp
next
  case (Cons x xs)
  let ?plan = "concat (map (\<lambda>s. (if Has loc (SlotName s) then [] else [CallCreate s]) @ [CallUpdate s]) xs)"
  show ?case
  proof (cases "Has loc (SlotName x)")
    case True
    obtain r1 db1 where u: "Update_slot m x (local_db st) = (r1, db1)" by force
    show ?thesis
    proof (cases r1)
      case (Some e)
      with Cons.prems True u have "calls st' = calls st @ [CallUpdate x]"
        by (auto simp: call_Update_def)
      with True show ?thesis by simp
    next
      case None
      with Cons.prems True u
      have "primary_loop m loc xs \<lparr>local_db = db1, calls = calls st @ [CallUpdate x]\<rparr> = (r, st')"
        by (simp add: call_Update_def)
      from Cons.IH[OF this] obtain ks where "calls st' = (calls st @ [CallUpdate x]) @ ks" "prefix ks ?plan"
        by auto
      with True show ?thesis by (intro exI[of _ "CallUpdate x # ks"]) simp
    qed
  next
    case False
    obtain r0 db0 where c: "Create_slot m x (local_db st) = (r0, db0)" by force
    show ?thesis
    proof (cases r0)
      case (Some e)
      with Cons.prems False c have "calls st' = calls st @ [CallCreate x]"
        by (auto simp: call_Create_def)
      with False show ?thesis by simp
    next
      case None
      obtain r1 db1 where u: "Update_slot m x db0 = (r1, db1)" by force
      show ?thesis
      proof (cases r1)
        case (Some e)
        with Cons.prems False c None u have "calls st' = calls st @ [CallCreate x, CallUpdate x]"
          by (auto simp: call_Create_def call_Update_def)
        with False show ?thesis by simp
      next
        case n1: None
        with Cons.prems False c None u
        have "primary_loop m loc xs \<lparr>local_db = db1, calls = calls st @ [CallCreate x, CallUpdate x]\<rparr>
                = (r, st')"
          by (simp add: call_Create_def call_Update_def)
        from Cons.IH[OF this] obtain ks where
          "calls st' = (calls st @ [CallCreate x, CallUpdate x]) @ ks" "prefix ks ?plan"
          by auto
        with False show ?thesis by (intro exI[of _ "CallCreate x # CallUpdate x # ks"]) simp
      qed
    qed
  qed
qed

lemma local_loop_prefix:
  "local_loop m prim xs st = (r, st') \<Longrightarrow>
   \<exists>ks. calls st' = calls st @ ks
      \<and> prefix ks (map CallDelete (filter (\<lambda>s. \<not> Has prim (SlotName s)) xs))"
proof (induction xs arbitrary: st)
  case Nil
  then show ?case by simp
next
  case (Cons x xs)
  show ?case
  proof (cases "Has prim (SlotName x)")
    case True
    with Cons show ?thesis by simp
  next
    case False
    obtain r0 db0 where d: "Delete_slot m x (local_db st) = (r0, db0)" by force
    show ?thesis
    proof (cases r0)
      case (Some e)
      with Cons.prems False d have "calls st' = calls st @ [CallDelete x]"
        by (auto simp: call_Delete_def)
      with False show ?thesis by simp
    next
      case None
      with Cons.prems False d
      have "local_loop m prim xs \<lparr>local_db = db0, calls = calls st @ [CallDelete x]\<rparr> = (r, st')"
        by (simp add: call_Delete_def)
      from Cons.IH[OF this] obtain ks where "calls st' = (calls st @ [CallDelete x]) @ ks"
        "prefix ks (map CallDelete (filter (\<lambda>s. \<not> Has prim (SlotName s)) xs))"
        by auto
      with False show ?thesis by (intro exI[of _ "CallDelete x # ks"]) simp
    qed
  qed
qed

lemma sync_prefix:
  assumes "List_slots pm pod cfg pdb = Inr slotsInPrimary"
    and "List_slots lm pod cfg (local_db st) = Inr slotsInLocal"
    and "synchronizeReplicationSlots pm lm pod cfg pdb st = (r, st')"
  shows "\<exists>ks. calls st' = calls st @ [CallListPrimary, CallListLocal] @ ks
      \<and> prefix ks
          (concat (map (\<lambda>s. (if Has slotsInLocal (SlotName s) then [] else [CallCreate s]) @ [CallUpdate s])
                     (Items slotsInPrimary))
           @ map CallDelete (filter (\<lambda>s. \<not> Has slotsInPrimary (SlotName s)) (Items slotsInLocal)))"
proof -
  let ?st2 = "st\<lparr>calls := calls st @ [CallListPrimary, CallListLocal]\<rparr>"
  let ?p1 = "concat (map (\<lambda>s. (if Has slotsInLocal (SlotName s) then [] else [CallCreate s]) @ [CallUpdate s])
                     (Items slotsInPrimary))"
  let ?p2 = "map CallDelete (filter (\<lambda>s. \<not> Has slotsInPrimary (SlotName s)) (Items slotsInLocal))"
  obtain r1 st3 where pl: "primary_loop lm slotsInLocal (Items slotsInPrimary) ?st2 = (r1, st3)"
    by force
  from primary_loop_prefix[OF pl] obtain ks1 where
    k1: "calls st3 = calls st @ [CallListPrimary, CallListLocal] @ ks1" "prefix ks1 ?p1"
    by auto
  show ?thesis
  proof (cases r1)
    case (Some e)
    with assms pl have "st' = st3" by (auto simp: synchronizeReplicationSlots_def Let_def)
    with k1 show ?thesis by (intro exI[of _ ks1]) (simp add: prefix_prefix)
  next
    case None
    with assms pl have ll: "local_loop lm slotsInPrimary (Items slotsInLocal) st3 = (r, st')"
      by (auto simp: synchronizeReplicationSlots_def Let_def)
    from primary_loop_calls[OF pl[unfolded None]] have e1: "calls st3 = calls ?st2 @ ?p1" .
    from local_loop_prefix[OF ll] obtain ks2 where
      k2: "calls st' = calls st3 @ ks2" "prefix ks2 ?p2"
      by auto
    from e1 k2 show ?thesis by (intro exI[of _ "?p1 @ ks2"]) simp
  qed
qed

lemma example_pass:
  "synchronizeReplicationSlots mem_manager mem_manager ''pod-1'' (ha_config 30 True)
      [slot_A, slot_B] \<lparr>local_db = [slot_B_local, slot_C], calls = []\<rparr>
    = (None, \<lparr>local_db = [slot_B, slot_A],
               calls = [CallListPrimary, CallListLocal, CallCreate slot_A, CallUpdate slot_A,
                        CallUpdate slot_B, CallDelete slot_C]\<rparr>)"
  by (simp add: synchronizeReplicationSlots_def mem_manager_def Has_def call_Create_def
      call_Update_def call_Delete_def slot_A_def slot_B_def slot_B_local_def slot_C_def mk_slot_def)

text \<open>
  Claim C1. Let \<open>plan\<close> be, for the two lists the \<open>List\<close> calls returned: for each slot
  of the primary's list in turn, \<open>Create\<close> when its name is absent from the local list
  and then \<open>Update\<close> in every case; after that, \<open>Delete\<close> for each slot of the local
  list whose name is absent from the primary's. Every call of \<open>plan\<close> is on the local
  manager, one call per slot and kind. After its two \<open>List\<close> calls a pass makes the calls
  of \<open>plan\<close> in order, as far as it gets: always a prefix of \<open>plan\<close>, and the whole of
  \<open>plan\<close> when the pass returns no error (a call that fails ends the pass, claim C7).
  With primary slots A, B and local slots B, C the pass succeeds with one \<open>Create\<close> (A),
  two \<open>Update\<close>s (A, B) and one \<open>Delete\<close> (C), and leaves the local slots A and B.
\<close>

theorem synchronizeReplicationSlots_converges:
  "(List_slots pm pod cfg pdb = Inr slotsInPrimary
      \<and> List_slots lm pod cfg (local_db st) = Inr slotsInLocal
      \<and> plan = concat (map (\<lambda>s. (if Has slotsInLocal (SlotName s) then [] else [CallCreate s])
                                 @ [CallUpdate s])
                         (Items slotsInPrimary))
               @ map CallDelete (filter (\<lambda>s. \<not> Has slotsInPrimary (SlotName s)) (Items slotsInLocal))
      \<and> synchronizeReplicationSlots pm lm pod cfg pdb st = (r, st')
    \<longrightarrow> (\<exists>ks. calls st' = calls st @ [CallListPrimary, CallListLocal] @ ks
              \<and> prefix ks plan \<and> (r = None \<longrightarrow> ks = plan)))
   \<and> (case synchronizeReplicationSlots mem_manager mem_manager ''pod-1'' (ha_config 30 True)
              [slot_A, slot_B] \<lparr>local_db = [slot_B_local, slot_C], calls = []\<rparr> of
         (r1, st1) \<Rightarrow>
           r1 = None \<and> set (local_db st1) = {slot_A, slot_B}
           \<and> calls st1 = [CallListPrimary, CallListLocal, CallCreate slot_A, CallUpdate slot_A,
                           CallUpdate slot_B, CallDelete slot_C])"
proof (intro conjI impI)
  assume a: "List_slots pm pod cfg pdb = Inr slotsInPrimary
      \<and> List_slots lm pod cfg (local_db st) = Inr slotsInLocal
      \<and> plan = concat (map (\<lambda>s. (if Has slotsInLocal (SlotName s) then [] else [CallCreate s])
                                 @ [CallUpdate s])
                         (Items slotsInPrimary))
               @ map CallDelete (filter (\<lambda>s. \<not> Has slotsInPrimary (SlotName s)) (Items slotsInLocal))
      \<and> synchronizeReplicationSlots pm lm pod cfg pdb st = (r, st')"
  then have l1: "List_slots pm pod cfg pdb = Inr slotsInPrimary"
    and l2: "List_slots lm pod cfg (local_db st) = Inr slotsInLocal"
    and s: "synchronizeReplicationSlots pm lm pod cfg pdb st = (r, st')"
    by simp_all
  from sync_prefix[OF l1 l2 s] a obtain ks where
    k: "calls st' = calls st @ [CallListPrimary, CallListLocal] @ ks" "prefix ks plan"
    by auto
  have "ks = plan" if "r = None"
    using sync_calls[OF l1 l2 s[unfolded that]] k(1) a by simp
  with k show "\<exists>ks. calls st' = calls st @ [CallListPrimary, CallListLocal] @ ks
              \<and> prefix ks plan \<and> (r = None \<longrightarrow> ks = plan)"
    by blast
next
  show "case synchronizeReplicationSlots mem_manager mem_manager ''pod-1'' (ha_config 30 True)
              [slot_A, slot_B] \<lparr>local_db = [slot_B_local, slot_C], calls = []\<rparr> of
         (r1, st1) \<Rightarrow>
           r1 = None \<and> set (local_db st1) = {slot_A, slot_B}
           \<and> calls st1 = [CallListPrimary, CallListLocal, CallCreate slot_A, CallUpdate slot_A,
                           CallUpdate slot_B, CallDelete slot_C]"
    by (auto simp: example_pass)
qed

text \<open>The hypotheses of the first part hold for the example of the second.\<close>

theorem synchronizeReplicationSlots_converges_witness:
  "List_slots mem_manager ''pod-1'' (ha_config 30 True) [slot_A, slot_B] = Inr \<lparr>Items = [slot_A, slot_B]\<rparr>
   \<and> List_slots mem_manager ''pod-1'' (ha_config 30 True) [slot_B_local, slot_C]
        = Inr \<lparr>Items = [slot_B_local, slot_C]\<rparr>
   \<and> synchronizeReplicationSlots mem_manager mem_manager ''pod-1'' (ha_config 30 True)
        [slot_A, slot_B] \<lparr>local_db = [slot_B_local, slot_C], calls = []\<rparr>
      = (None, \<lparr>local_db = [slot_B, slot_A],
                 calls = [CallListPrimary, CallListLocal, CallCreate slot_A, CallUpdate slot_A,
                          CallUpdate slot_B, CallDelete slot_C]\<rparr>)
   \<and> [CallListPrimary, CallListLocal, CallCreate slot_A, CallUpdate slot_A,
        CallUpdate slot_B, CallDelete slot_C]
      = [CallListPrimary, CallListLocal]
          @ concat (map (\<lambda>s. (if Has \<lparr>Items = [slot_B_local, slot_C]\<rparr> (SlotName s) then []
                               else [CallCreate s]) @ [CallUpdate s])
                      [slot_A, slot_B])
          @ map CallDelete (filter (\<lambda>s. \<not> Has \<lparr>Items = [slot_A, slot_B]\<rparr> (SlotName s))
                              [slot_B_local, slot_C])"
proof -
  let ?prim = "\<lparr>Items = [slot_A, slot_B]\<rparr>"
  let ?loc = "\<lparr>Items = [slot_B_local, slot_C]\<rparr>"
  let ?st = "\<lparr>local_db = [slot_B_local, slot_C], calls = []\<rparr>"
  let ?st' = "\<lparr>local_db = [slot_B, slot_A],
                 calls = [CallListPrimary, CallListLocal, CallCreate slot_A, CallUpdate slot_A,
                          CallUpdate slot_B, CallDelete slot_C]\<rparr>"
  let ?plan = "concat (map (\<lambda>s. (if Has ?loc (SlotName s) then [] else [CallCreate s]) @ [CallUpdate s])
                        (Items ?prim))
               @ map CallDelete (filter (\<lambda>s. \<not> Has ?prim (SlotName s)) (Items ?loc))"
  have l1: "List_slots mem_manager ''pod-1'' (ha_config 30 True) [slot_A, slot_B] = Inr ?prim"
    by (simp add: mem_manager_def)
  have l2: "List_slots mem_manager ''pod-1'' (ha_config 30 True) (local_db ?st) = Inr ?loc"
    by (simp add: mem_manager_def)
  have h: "List_slots mem_manager ''pod-1'' (ha_config 30 True) [slot_A, slot_B] = Inr ?prim
      \<and> List_slots mem_manager ''pod-1'' (ha_config 30 True) (local_db ?st) = Inr ?loc
      \<and> ?plan = ?plan
      \<and> synchronizeReplicationSlots mem_manager mem_manager ''pod-1'' (ha_config 30 True)
           [slot_A, slot_B] ?st = (None, ?st')"
    using l1 l2 example_pass by simp
  have "\<exists>ks. calls ?st' = calls ?st @ [CallListPrimary, CallListLocal] @ ks
              \<and> prefix ks ?plan \<and> (None = (None :: error option) \<longrightarrow> ks = ?plan)"
    by (rule synchronizeReplicationSlots_converges[where pm = mem_manager and lm = mem_manager
          and plan = ?plan and r = None, THEN conjunct1, THEN mp, OF h])
  then have "calls ?st' = calls ?st @ [CallListPrimary, CallListLocal] @ ?plan"
    by auto
  with l1 l2 example_pass show ?thesis by simp
qed

lemma loop_body_pass:
  assumes "config st = Some c" and "HighAvailability c = Some ha" and "Enabled ha"
    and "updateInterval st = GetUpdateInterval env (Some c) \<or> 0 < GetUpdateInterval env (Some c)"
    and "synchronizeReplicationSlots (primaryManager env) (localManager env) (PodName env) c pdb (sync st)
           = (r, sy)"
  shows "loop_body env pdb st =
     st\<lparr>ticker := (if updateInterval st \<noteq> GetUpdateInterval env (Some c)
                    then ticker_Reset (GetUpdateInterval env (Some c)) (ticker st) else ticker st),
        updateInterval := GetUpdateInterval env (Some c),
        sync := sy,
        log := log st @ [Trace ''Synchronizing'']
                 @ (case r of None \<Rightarrow> [] | Some err \<Rightarrow> [ErrorLog err ''synchronizing replication slots''])\<rparr>"
  using assms by (cases r) (auto simp: loop_body_def Let_def)

text \<open>
  Claim C7. The runner is in its loop and an event (a tick, or a new configuration) leads
  to a pass, which returns \<open>r\<close>. The calls the pass made account for \<open>r\<close> in the sense of
  \<open>stopped_at\<close>: when the pass returns an error, the last call it made is the \<open>List\<close>,
  \<open>Create\<close>, \<open>Update\<close> or \<open>Delete\<close> that failed (so no call follows the failure and
  nothing is rolled back), the local database is as that call left it, and the error
  returned is that call's (wrapped for a \<open>List\<close>). The runner logs the error and stays in
  its loop, ready for the next event.
\<close>

theorem pass_error_aborts_pass_only:
  assumes "phase st = Running"
    and "ev = Tick \<and> config st = Some c \<or> ev = NewConfig (Some c)"
    and "HighAvailability c = Some ha" and "Enabled ha"
    and "updateInterval st = GetUpdateInterval env (Some c) \<or> 0 < GetUpdateInterval env (Some c)"
    and "synchronizeReplicationSlots (primaryManager env) (localManager env) (PodName env) c pdb (sync st)
           = (r, sy)"
  shows "(\<exists>ks. calls sy = calls (sync st) @ ks \<and>
           (case r of
              None \<Rightarrow>
                stopped_at (perform (primaryManager env) (localManager env) (PodName env) c pdb)
                  ks (local_db (sync st)) None (local_db sy)
            | Some err \<Rightarrow>
                (\<exists>err0. stopped_at (perform (primaryManager env) (localManager env) (PodName env) c pdb)
                           ks (local_db (sync st)) (Some err0) (local_db sy)
                        \<and> err = reported (last ks) err0)))
       \<and> phase (step env pdb st ev) = Running
       \<and> sync (step env pdb st ev) = sy
       \<and> log (step env pdb st ev) = log st @ [Trace ''Synchronizing'']
            @ (case r of None \<Rightarrow> [] | Some err \<Rightarrow> [ErrorLog err ''synchronizing replication slots''])"
proof -
  let ?st = "case ev of NewConfig k \<Rightarrow> st\<lparr>config := k\<rparr> | _ \<Rightarrow> st"
  have s: "step env pdb st ev = loop_body env pdb ?st"
    using assms(1,2) by (auto simp: step_def)
  have c: "config ?st = Some c" "updateInterval ?st = updateInterval st" "sync ?st = sync st"
    "log ?st = log st" "phase ?st = Running"
    using assms(1,2) by auto
  have "loop_body env pdb ?st =
     ?st\<lparr>ticker := (if updateInterval ?st \<noteq> GetUpdateInterval env (Some c)
                    then ticker_Reset (GetUpdateInterval env (Some c)) (ticker ?st) else ticker ?st),
        updateInterval := GetUpdateInterval env (Some c),
        sync := sy,
        log := log ?st @ [Trace ''Synchronizing'']
                 @ (case r of None \<Rightarrow> [] | Some err \<Rightarrow> [ErrorLog err ''synchronizing replication slots''])\<rparr>"
    using c(1) assms(3,4) assms(5,6)[folded c(2,3)] by (rule loop_body_pass)
  with s c have "phase (step env pdb st ev) = Running" "sync (step env pdb st ev) = sy"
    "log (step env pdb st ev) = log st @ [Trace ''Synchronizing'']
            @ (case r of None \<Rightarrow> [] | Some err \<Rightarrow> [ErrorLog err ''synchronizing replication slots''])"
    by simp_all
  with sync_stops[OF assms(6)] show ?thesis by simp
qed


lemma example_failing_pass:
  "synchronizeReplicationSlots mem_manager mem_manager ''pod-1'' (ha_config 30 True) [slot_A]
      \<lparr>local_db = [slot_C_active, slot_D], calls = []\<rparr>
    = (Some (Failure ''replication slot is active''),
       \<lparr>local_db = [slot_C_active, slot_D, slot_A],
        calls = [CallListPrimary, CallListLocal, CallCreate slot_A, CallUpdate slot_A,
                 CallDelete slot_C_active]\<rparr>)"
  by (simp add: synchronizeReplicationSlots_def mem_manager_def Has_def call_Create_def
      call_Update_def call_Delete_def slot_A_def slot_C_active_def slot_D_def mk_slot_def)

text \<open>
  An instance: the primary has slot A; the replica has C, which is in use, and D. The
  pass creates and updates A, fails to delete C and stops: D is not deleted, A stays.
\<close>

theorem pass_error_aborts_pass_only_witness:
  "phase replicator_example = Running
   \<and> config replicator_example = Some (ha_config 30 True)
   \<and> HighAvailability (ha_config 30 True) = Some \<lparr>Enabled = True\<rparr>
   \<and> updateInterval replicator_example = GetUpdateInterval mem_env (Some (ha_config 30 True))
   \<and> synchronizeReplicationSlots (primaryManager mem_env) (localManager mem_env) (PodName mem_env)
        (ha_config 30 True) [slot_A] (sync replicator_example)
      = (Some (Failure ''replication slot is active''),
         \<lparr>local_db = [slot_C_active, slot_D, slot_A],
          calls = [CallListPrimary, CallListLocal, CallCreate slot_A, CallUpdate slot_A,
                   CallDelete slot_C_active]\<rparr>)
   \<and> phase (step mem_env [slot_A] replicator_example Tick) = Running
   \<and> local_db (sync (step mem_env [slot_A] replicator_example Tick)) = [slot_C_active, slot_D, slot_A]
   \<and> log (step mem_env [slot_A] replicator_example Tick)
      = [Trace ''Synchronizing'',
         ErrorLog (Failure ''replication slot is active'') ''synchronizing replication slots'']"
proof -
  have h1: "phase replicator_example = Running"
    by (simp add: replicator_example_def)
  have h2: "Tick = Tick \<and> config replicator_example = Some (ha_config 30 True)
            \<or> Tick = NewConfig (Some (ha_config 30 True))"
    by (simp add: replicator_example_def)
  have h3: "HighAvailability (ha_config 30 True) = Some \<lparr>Enabled = True\<rparr>"
    by (simp add: ha_config_def)
  have h4: "Enabled \<lparr>Enabled = True\<rparr>"
    by simp
  have g: "GetUpdateInterval mem_env (Some (ha_config 30 True)) = 30"
    by (simp add: mem_env_def interval_of_def ha_config_def)
  have h5: "updateInterval replicator_example = GetUpdateInterval mem_env (Some (ha_config 30 True))
            \<or> 0 < GetUpdateInterval mem_env (Some (ha_config 30 True))"
    by (simp add: replicator_example_def g)
  have h6: "synchronizeReplicationSlots (primaryManager mem_env) (localManager mem_env) (PodName mem_env)
        (ha_config 30 True) [slot_A] (sync replicator_example)
      = (Some (Failure ''replication slot is active''),
         \<lparr>local_db = [slot_C_active, slot_D, slot_A],
          calls = [CallListPrimary, CallListLocal, CallCreate slot_A, CallUpdate slot_A,
                   CallDelete slot_C_active]\<rparr>)"
    using example_failing_pass by (simp add: mem_env_def replicator_example_def)
  from pass_error_aborts_pass_only[OF h1 h2 h3 h4 h5 h6] h1 h3 g h6
  show ?thesis by (simp add: replicator_example_def)
qed

text \<open>
  Claim C2 says that any later configuration with high availability enabled makes the
  runner tick again, whatever its interval. The code stops the ticker when a
  configuration disables high availability, and restarts it (\<open>ticker.Reset\<close>) only when
  the interval of the new configuration differs from the recorded \<open>updateInterval\<close>,
  which the stop left untouched. So from any state of the loop, a disabling configuration
  followed by an enabling one whose interval equals the recorded one runs one pass and
  leaves the ticker stopped: no tick will follow.
\<close>

theorem ticker_not_restarted_on_same_interval:
  assumes "phase st = Running"
    and "HighAvailability off = Some \<lparr>Enabled = False\<rparr>"
    and "HighAvailability c = Some ha" and "Enabled ha"
    and "GetUpdateInterval env (Some c) = updateInterval st"
  shows "\<not> ticking (run env pdb st [NewConfig (Some off), NewConfig (Some c)])
         \<and> phase (run env pdb st [NewConfig (Some off), NewConfig (Some c)]) = Running
         \<and> config (run env pdb st [NewConfig (Some off), NewConfig (Some c)]) = Some c"
proof -
  let ?s1 = "step env pdb st (NewConfig (Some off))"
  have s1: "?s1 = st\<lparr>config := Some off, ticker := ticker_Stop (ticker st)\<rparr>"
    using assms(1,2) by (simp add: step_def loop_body_def)
  obtain r sy where p: "synchronizeReplicationSlots (primaryManager env) (localManager env)
      (PodName env) c pdb (sync (?s1\<lparr>config := Some c\<rparr>)) = (r, sy)"
    by force
  have "loop_body env pdb (?s1\<lparr>config := Some c\<rparr>) =
     (?s1\<lparr>config := Some c\<rparr>)\<lparr>ticker := (if updateInterval (?s1\<lparr>config := Some c\<rparr>) \<noteq> GetUpdateInterval env (Some c)
                    then ticker_Reset (GetUpdateInterval env (Some c)) (ticker (?s1\<lparr>config := Some c\<rparr>))
                    else ticker (?s1\<lparr>config := Some c\<rparr>)),
        updateInterval := GetUpdateInterval env (Some c),
        sync := sy,
        log := log (?s1\<lparr>config := Some c\<rparr>) @ [Trace ''Synchronizing'']
                 @ (case r of None \<Rightarrow> [] | Some err \<Rightarrow> [ErrorLog err ''synchronizing replication slots''])\<rparr>"
    using assms(3,4,5) p by (intro loop_body_pass) (simp_all add: s1)
  moreover have "step env pdb ?s1 (NewConfig (Some c)) = loop_body env pdb (?s1\<lparr>config := Some c\<rparr>)"
    unfolding s1 using assms(1) by (simp add: step_def)
  ultimately have "step env pdb ?s1 (NewConfig (Some c)) =
     st\<lparr>config := Some c, ticker := ticker_Stop (ticker st), sync := sy,
        log := log st @ [Trace ''Synchronizing'']
                 @ (case r of None \<Rightarrow> [] | Some err \<Rightarrow> [ErrorLog err ''synchronizing replication slots''])\<rparr>"
    unfolding s1 using assms(5) by simp
  moreover have "run env pdb st [NewConfig (Some off), NewConfig (Some c)]
      = step env pdb ?s1 (NewConfig (Some c))"
    by (simp add: run_def)
  ultimately show ?thesis
    using assms(1)
    by (cases "ticker st") (simp_all add: ticking_def ticker_Stop_def)
qed

text \<open>
  An instance: configurations with interval 30 that enable, disable and enable again
  leave the ticker stopped; had the last one said 45, the ticker would run again.
\<close>

theorem ticker_not_restarted_on_same_interval_witness:
  "phase (run mem_env [slot_A] (init_replicator [slot_C]) [NewConfig (Some (ha_config 30 True))]) = Running
   \<and> ticking (run mem_env [slot_A] (init_replicator [slot_C]) [NewConfig (Some (ha_config 30 True))])
   \<and> \<not> ticking (run mem_env [slot_A] (init_replicator [slot_C])
          [NewConfig (Some (ha_config 30 True)), NewConfig (Some (ha_config 30 False)),
           NewConfig (Some (ha_config 30 True))])
   \<and> phase (run mem_env [slot_A] (init_replicator [slot_C])
          [NewConfig (Some (ha_config 30 True)), NewConfig (Some (ha_config 30 False)),
           NewConfig (Some (ha_config 30 True))]) = Running
   \<and> ticking (run mem_env [slot_A] (init_replicator [slot_C])
          [NewConfig (Some (ha_config 30 True)), NewConfig (Some (ha_config 30 False)),
           NewConfig (Some (ha_config 45 True))])"
proof -
  let ?st = "run mem_env [slot_A] (init_replicator [slot_C]) [NewConfig (Some (ha_config 30 True))]"
  have st: "?st = \<lparr>phase = Running, cancelled = False, config = Some (ha_config 30 True),
      updateInterval = 30,
      ticker = Some \<lparr>running = True, period = 30\<rparr>, log = [],
      sync = \<lparr>local_db = [slot_C], calls = []\<rparr>\<rparr>"
    by (simp add: run_def step_def init_replicator_def start_loop_def mem_env_def interval_of_def
        ha_config_def)
  have h1: "phase ?st = Running" by (simp add: st)
  have h2: "HighAvailability (ha_config 30 False) = Some \<lparr>Enabled = False\<rparr>"
    by (simp add: ha_config_def)
  have h3: "HighAvailability (ha_config 30 True) = Some \<lparr>Enabled = True\<rparr>"
    by (simp add: ha_config_def)
  have h4: "Enabled \<lparr>Enabled = True\<rparr>" by simp
  have h5: "GetUpdateInterval mem_env (Some (ha_config 30 True)) = updateInterval ?st"
    unfolding st by (simp add: mem_env_def interval_of_def ha_config_def)
  have r: "run mem_env [slot_A] ?st evs
         = run mem_env [slot_A] (init_replicator [slot_C]) (NewConfig (Some (ha_config 30 True)) # evs)"
    for evs by (simp add: run_def)
  have t45: "ticking (run mem_env [slot_A] ?st
          [NewConfig (Some (ha_config 30 False)), NewConfig (Some (ha_config 45 True))])"
    unfolding st
    by (simp add: run_def step_def loop_body_def mem_env_def interval_of_def ha_config_def
        ticker_Stop_def ticker_Reset_def ticking_def Let_def split: prod.splits option.splits)
  from ticker_not_restarted_on_same_interval[OF h1 h2 h3 h4 h5, of "[slot_A]"] h1 t45
  show ?thesis unfolding r by (simp add: st ticking_def)
qed

text \<open>
  Claim C3 says that cancellation ends the goroutine in every state, the initial one
  included. Before the first configuration the goroutine is blocked in a receive on the
  configuration channel alone: a cancellation changes nothing there but the context
  (no ticker to stop, no final log line, the state stays \<open>WaitingForConfig\<close>), however
  long it waits. Only if a configuration arrives later does the goroutine go on, to end
  at its first \<open>select\<close> (or to crash in \<open>time.NewTicker\<close>). Inside the loop a
  cancellation does end it: the ticker is stopped and the final line is logged.
\<close>

theorem cancel_unobserved_before_first_config:
  "step env pdb (st\<lparr>phase := WaitingForConfig\<rparr>) Cancel
     = st\<lparr>phase := WaitingForConfig, cancelled := True\<rparr>
   \<and> phase (run env pdb (init_replicator db) (Cancel # replicate n Tick)) = WaitingForConfig
   \<and> log (run env pdb (init_replicator db) (Cancel # replicate n Tick)) = []
   \<and> ticker (run env pdb (init_replicator db) (Cancel # replicate n Tick)) = None
   \<and> phase (run env pdb (init_replicator db) [Cancel, NewConfig c])
       = (if GetUpdateInterval env c \<le> 0 then Crashed else Terminated)
   \<and> phase (step env pdb (st\<lparr>phase := Running\<rparr>) Cancel) = Terminated
   \<and> \<not> ticking (step env pdb (st\<lparr>phase := Running\<rparr>) Cancel)
   \<and> log (step env pdb (st\<lparr>phase := Running\<rparr>) Cancel) = log st @ [Info ''Terminated slot Replicator loop'']"
proof -
  have t: "run env pdb (s\<lparr>phase := WaitingForConfig\<rparr>) evs = s\<lparr>phase := WaitingForConfig\<rparr>"
    if "set evs \<subseteq> {Tick}" for evs s
    using that by (induction evs) (auto simp: run_def step_def)
  have c: "run env pdb (init_replicator db) (Cancel # evs)
             = run env pdb ((init_replicator db)\<lparr>cancelled := True\<rparr>) evs" for evs
    by (simp add: run_def step_def init_replicator_def)
  have "run env pdb (((init_replicator db)\<lparr>cancelled := True\<rparr>)\<lparr>phase := WaitingForConfig\<rparr>)
            (replicate n Tick)
          = ((init_replicator db)\<lparr>cancelled := True\<rparr>)\<lparr>phase := WaitingForConfig\<rparr>"
    by (rule t) auto
  then have w: "run env pdb (init_replicator db) (Cancel # replicate n Tick)
          = (init_replicator db)\<lparr>cancelled := True\<rparr>"
    unfolding c by (simp add: init_replicator_def)
  have l: "phase (run env pdb (init_replicator db) [Cancel, NewConfig c])
       = (if GetUpdateInterval env c \<le> 0 then Crashed else Terminated)"
    by (simp add: run_def step_def init_replicator_def start_loop_def Let_def deferred_def)
  from w l show ?thesis
    by (cases "ticker st") (simp_all add: step_def deferred_def ticking_def ticker_Stop_def init_replicator_def)
qed

section \<open>Webhook certificates: proofs\<close>

text \<open>The definitions to unfold when a run on the example objects is evaluated.\<close>

lemmas example_defs =
  mem_client_def mem_SecretsUpdate_def mem_ConfigurationUpdate_def mem_ConfigurationGet_def
  racing_client_def mem_fs_def sym_pki_def sym_parse_def signature_def
  example_env_def example_configuration_def example_ca_secret_def example_leaf_secret_def
  example_world_def same_secret_def fresh_world_def bare_world_def

lemmas certs_defs =
  Setup_def setup_validating_def EnsureRootCACertificate_def renewCACertificate_def
  EnsureCertificate_def renewServerCertificate_def DumpSecretToDir_def dump_files_def
  InjectPublicKeyIntoMutatingWebhook_def InjectPublicKeyIntoValidatingWebhook_def set_CABundle_def
  api_SecretsGet_def api_SecretsCreate_def api_SecretsUpdate_def api_MutatingGet_def
  api_MutatingUpdate_def api_ValidatingGet_def api_ValidatingUpdate_def fs_FileExists_def
  fs_ReadFile_def fs_WriteFile_def log_Info_def data_field_def

lemma write_all_append:
  "write_all fs (xs @ ys) f =
     (case write_all fs xs f of (Some err, f1) \<Rightarrow> (Some err, f1) | (None, f1) \<Rightarrow> write_all fs ys f1)"
  by (induction fs xs f rule: write_all.induct) (auto split: prod.splits option.splits)

lemma write_data_ok:
  "write_data fs dir xs w = (None, w') \<Longrightarrow>
   actions w' = actions w @ map (\<lambda>(k, v). ActWriteFile (path_Join fs dir k) v owner_read_write) xs
   \<and> cluster w' = cluster w
   \<and> write_all fs (map (\<lambda>(k, v). (path_Join fs dir k, v, owner_read_write)) xs) (files w)
       = (None, files w')"
proof (induction xs arbitrary: w)
  case Nil
  then show ?case by simp
next
  case (Cons x xs)
  obtain k v where x: "x = (k, v)" by (cases x)
  from Cons.prems x obtain w1 where
    w1: "fs_WriteFile fs (path_Join fs dir k) v owner_read_write w = (None, w1)"
    and r: "write_data fs dir xs w1 = (None, w')"
    by (auto split: prod.splits option.splits)
  from w1 have "actions w1 = actions w @ [ActWriteFile (path_Join fs dir k) v owner_read_write]"
    "cluster w1 = cluster w"
    "WriteFile fs (path_Join fs dir k) v owner_read_write (files w) = (None, files w1)"
    by (auto simp: fs_WriteFile_def split: prod.splits)
  with Cons.IH[OF r] x show ?case by simp
qed

lemma dump_files_ok:
  assumes "dump_files fs secret dir p w = (None, w')"
  shows "actions w' = actions w
           @ map (\<lambda>(k, v). ActWriteFile (path_Join fs dir k) v owner_read_write) (Data secret)
           @ [ActWriteFile p (ResourceVersion secret) owner_read_write]"
    and "cluster w' = cluster w"
    and "\<exists>f. WriteFile fs p (ResourceVersion secret) owner_read_write f = (None, files w')"
    and "write_all fs
           (map (\<lambda>(k, v). (path_Join fs dir k, v, owner_read_write)) (Data secret)
            @ [(p, ResourceVersion secret, owner_read_write)]) (files w)
         = (None, files w')"
proof -
  from assms obtain w1 where d: "write_data fs dir (Data secret) w = (None, w1)"
    and s: "fs_WriteFile fs p (ResourceVersion secret) owner_read_write w1 = (None, w')"
    by (auto simp: dump_files_def split: prod.splits option.splits)
  from s have a: "actions w' = actions w1 @ [ActWriteFile p (ResourceVersion secret) owner_read_write]"
    and c: "cluster w' = cluster w1"
    and f: "WriteFile fs p (ResourceVersion secret) owner_read_write (files w1) = (None, files w')"
    by (auto simp: fs_WriteFile_def split: prod.splits)
  from write_data_ok[OF d] a show "actions w' = actions w
           @ map (\<lambda>(k, v). ActWriteFile (path_Join fs dir k) v owner_read_write) (Data secret)
           @ [ActWriteFile p (ResourceVersion secret) owner_read_write]"
    by simp
  from write_data_ok[OF d] c show "cluster w' = cluster w" by simp
  from f show "\<exists>f. WriteFile fs p (ResourceVersion secret) owner_read_write f = (None, files w')"
    by blast
  from write_data_ok[OF d] f show "write_all fs
           (map (\<lambda>(k, v). (path_Join fs dir k, v, owner_read_write)) (Data secret)
            @ [(p, ResourceVersion secret, owner_read_write)]) (files w)
         = (None, files w')"
    by (simp add: write_all_append)
qed

lemma Dump_skip:
  assumes "p = path_Join fs dir ''resource''"
    and "FileExists fs p (files w) = Inr True"
    and "ReadFile fs p (files w) = Inr (ResourceVersion secret)"
  shows "DumpSecretToDir fs secret dir w = (None, w\<lparr>actions := actions w @ [ActFileExists p, ActReadFile p]\<rparr>)"
  using assms by (simp add: DumpSecretToDir_def Let_def fs_FileExists_def fs_ReadFile_def)

lemma Dump_writes:
  assumes "p = path_Join fs dir ''resource''"
    and "FileExists fs p (files w) = Inr False \<and> reads = [ActFileExists p]
         \<or> FileExists fs p (files w) = Inr True \<and> ReadFile fs p (files w) = Inr old
            \<and> old \<noteq> ResourceVersion secret \<and> reads = [ActFileExists p, ActReadFile p]"
    and "DumpSecretToDir fs secret dir w = (None, w')"
  shows "actions w' = actions w @ reads
           @ map (\<lambda>(k, v). ActWriteFile (path_Join fs dir k) v owner_read_write) (Data secret)
           @ [ActWriteFile p (ResourceVersion secret) owner_read_write]"
    and "\<exists>f. WriteFile fs p (ResourceVersion secret) owner_read_write f = (None, files w')"
    and "write_all fs
           (map (\<lambda>(k, v). (path_Join fs dir k, v, owner_read_write)) (Data secret)
            @ [(p, ResourceVersion secret, owner_read_write)]) (files w)
         = (None, files w')"
    and "cluster w' = cluster w"
proof -
  from assms obtain w0 where d: "dump_files fs secret dir p w0 = (None, w')"
    and a: "actions w0 = actions w @ reads" and f: "files w0 = files w" and c: "cluster w0 = cluster w"
    by (auto simp: DumpSecretToDir_def Let_def fs_FileExists_def fs_ReadFile_def)
  from dump_files_ok(1)[OF d] a show "actions w' = actions w @ reads
           @ map (\<lambda>(k, v). ActWriteFile (path_Join fs dir k) v owner_read_write) (Data secret)
           @ [ActWriteFile p (ResourceVersion secret) owner_read_write]"
    by simp
  from dump_files_ok(3)[OF d]
  show "\<exists>f. WriteFile fs p (ResourceVersion secret) owner_read_write f = (None, files w')" .
  from dump_files_ok(4)[OF d] f show "write_all fs
           (map (\<lambda>(k, v). (path_Join fs dir k, v, owner_read_write)) (Data secret)
            @ [(p, ResourceVersion secret, owner_read_write)]) (files w)
         = (None, files w')"
    by simp
  from dump_files_ok(2)[OF d] c show "cluster w' = cluster w" by simp
qed

lemma Dump_success_cases:
  assumes "p = path_Join fs dir ''resource''"
    and "DumpSecretToDir fs secret dir w = (None, w')"
  shows "(FileExists fs p (files w) = Inr True \<and> ReadFile fs p (files w) = Inr (ResourceVersion secret)
            \<and> files w' = files w)
         \<or> (\<exists>f. WriteFile fs p (ResourceVersion secret) owner_read_write f = (None, files w'))"
proof (cases "FileExists fs p (files w)")
  case (Inl e)
  with assms show ?thesis
    by (simp add: DumpSecretToDir_def Let_def fs_FileExists_def)
next
  case (Inr b)
  show ?thesis
  proof (cases b)
    case False
    with Inr have "FileExists fs p (files w) = Inr False \<and> [ActFileExists p] = [ActFileExists p]
         \<or> FileExists fs p (files w) = Inr True \<and> ReadFile fs p (files w) = Inr []
            \<and> [] \<noteq> ResourceVersion secret \<and> [ActFileExists p] = [ActFileExists p, ActReadFile p]"
      by simp
    from Dump_writes(2)[OF assms(1) this assms(2)] show ?thesis by simp
  next
    case True
    show ?thesis
    proof (cases "ReadFile fs p (files w)")
      case (Inl e)
      with assms Inr True show ?thesis
        by (simp add: DumpSecretToDir_def Let_def fs_FileExists_def fs_ReadFile_def)
    next
      case r: (Inr old)
      show ?thesis
      proof (cases "old = ResourceVersion secret")
        case same: True
        from Dump_skip[OF assms(1), of w secret] Inr True r same assms(2)
        have "w' = w\<lparr>actions := actions w @ [ActFileExists p, ActReadFile p]\<rparr>" by simp
        with Inr True r same show ?thesis by simp
      next
        case False
        with Inr True r have "FileExists fs p (files w) = Inr False
              \<and> [ActFileExists p, ActReadFile p] = [ActFileExists p]
         \<or> FileExists fs p (files w) = Inr True \<and> ReadFile fs p (files w) = Inr old
            \<and> old \<noteq> ResourceVersion secret
            \<and> [ActFileExists p, ActReadFile p] = [ActFileExists p, ActReadFile p]"
          by simp
        from Dump_writes(2)[OF assms(1) this assms(2)] show ?thesis by simp
      qed
    qed
  qed
qed

text \<open>
  Claim C6, as amended, with \<open>p\<close> the path of the sentinel file \<open>resource\<close> in the
  directory. (1) When the sentinel exists and holds the secret's \<open>resourceVersion\<close>, the
  call succeeds after the two reads: it writes no file and leaves the files as they
  were. (2) When the sentinel is missing or holds something else, a call that succeeds
  has made these writes and no other, in this order: every data field to the file of
  its name, then the \<open>resourceVersion\<close> to the sentinel, each with \<open>0600\<close> as the
  permission requested; the files it leaves are the files that these writes produce
  through \<open>WriteFile\<close>. (3) On a file system where the sentinel, once written with this
  \<open>resourceVersion\<close> and permission \<open>0600\<close>, exists and reads back, a second call after
  a successful one, with the same secret, writes nothing, and the sentinel holds the
  \<open>resourceVersion\<close>.
\<close>

theorem DumpSecretToDir_materialization:
  assumes "p = path_Join fs dir ''resource''"
  shows "(FileExists fs p (files w) = Inr True \<and> ReadFile fs p (files w) = Inr (ResourceVersion secret)
            \<longrightarrow> DumpSecretToDir fs secret dir w
                  = (None, w\<lparr>actions := actions w @ [ActFileExists p, ActReadFile p]\<rparr>))
       \<and> ((FileExists fs p (files w) = Inr False \<and> reads = [ActFileExists p]
              \<or> FileExists fs p (files w) = Inr True \<and> ReadFile fs p (files w) = Inr old
                 \<and> old \<noteq> ResourceVersion secret \<and> reads = [ActFileExists p, ActReadFile p])
            \<and> DumpSecretToDir fs secret dir w = (None, w')
            \<longrightarrow> actions w' = actions w @ reads
                  @ map (\<lambda>(k, v). ActWriteFile (path_Join fs dir k) v owner_read_write) (Data secret)
                  @ [ActWriteFile p (ResourceVersion secret) owner_read_write]
                \<and> write_all fs
                    (map (\<lambda>(k, v). (path_Join fs dir k, v, owner_read_write)) (Data secret)
                     @ [(p, ResourceVersion secret, owner_read_write)]) (files w)
                  = (None, files w')
                \<and> cluster w' = cluster w)
       \<and> ((\<forall>f f'. WriteFile fs p (ResourceVersion secret) owner_read_write f = (None, f')
                   \<longrightarrow> FileExists fs p f' = Inr True
                       \<and> ReadFile fs p f' = Inr (ResourceVersion secret))
            \<and> DumpSecretToDir fs secret dir w = (None, w1)
            \<longrightarrow> DumpSecretToDir fs secret dir w1
                  = (None, w1\<lparr>actions := actions w1 @ [ActFileExists p, ActReadFile p]\<rparr>)
                \<and> ReadFile fs p (files w1) = Inr (ResourceVersion secret))"
proof (intro conjI impI)
  assume "FileExists fs p (files w) = Inr True \<and> ReadFile fs p (files w) = Inr (ResourceVersion secret)"
  with assms show "DumpSecretToDir fs secret dir w
                  = (None, w\<lparr>actions := actions w @ [ActFileExists p, ActReadFile p]\<rparr>)"
    by (simp add: Dump_skip)
next
  assume a: "(FileExists fs p (files w) = Inr False \<and> reads = [ActFileExists p]
              \<or> FileExists fs p (files w) = Inr True \<and> ReadFile fs p (files w) = Inr old
                 \<and> old \<noteq> ResourceVersion secret \<and> reads = [ActFileExists p, ActReadFile p])
            \<and> DumpSecretToDir fs secret dir w = (None, w')"
  then show "actions w' = actions w @ reads
                  @ map (\<lambda>(k, v). ActWriteFile (path_Join fs dir k) v owner_read_write) (Data secret)
                  @ [ActWriteFile p (ResourceVersion secret) owner_read_write]"
    using Dump_writes(1)[OF assms, of w reads old secret w'] by blast
  from a show "write_all fs
                    (map (\<lambda>(k, v). (path_Join fs dir k, v, owner_read_write)) (Data secret)
                     @ [(p, ResourceVersion secret, owner_read_write)]) (files w)
                  = (None, files w')"
    using Dump_writes(3)[OF assms, of w reads old secret w'] by blast
  from a show "cluster w' = cluster w"
    using Dump_writes(4)[OF assms, of w reads old secret w'] by blast
next
  assume a: "(\<forall>f f'. WriteFile fs p (ResourceVersion secret) owner_read_write f = (None, f')
                   \<longrightarrow> FileExists fs p f' = Inr True
                       \<and> ReadFile fs p f' = Inr (ResourceVersion secret))
            \<and> DumpSecretToDir fs secret dir w = (None, w1)"
  from Dump_success_cases[OF assms, of secret w w1] a
  have r: "FileExists fs p (files w1) = Inr True \<and> ReadFile fs p (files w1) = Inr (ResourceVersion secret)"
    by auto
  then show "DumpSecretToDir fs secret dir w1
                  = (None, w1\<lparr>actions := actions w1 @ [ActFileExists p, ActReadFile p]\<rparr>)"
    using assms by (simp add: Dump_skip)
  from r show "ReadFile fs p (files w1) = Inr (ResourceVersion secret)" by simp
qed

lemma mem_fs_read_after_write:
  "WriteFile mem_fs p c m f = (None, f') \<Longrightarrow> FileExists mem_fs p f' = Inr True \<and> ReadFile mem_fs p f' = Inr c"
  by (auto simp: mem_fs_def update_conv dom_update simp flip: dom_map_of_conv_image_fst)

lemma example_first_dump:
  "DumpSecretToDir mem_fs (example_leaf_secret ''n/leaf'') ''/certs'' (example_world [] [] [] [])
     = (None, (example_world [] [] []
                 [(''/certs/tls.crt'', ''n/leaf'', owner_read_write),
                  (''/certs/tls.key'', ''leaf-key'', owner_read_write),
                  (''/certs/resource'', ''3'', owner_read_write)])
              \<lparr>actions := [ActFileExists ''/certs/resource'',
                            ActWriteFile ''/certs/tls.crt'' ''n/leaf'' owner_read_write,
                            ActWriteFile ''/certs/tls.key'' ''leaf-key'' owner_read_write,
                            ActWriteFile ''/certs/resource'' ''3'' owner_read_write]\<rparr>)"
  by (simp add: DumpSecretToDir_def dump_files_def fs_FileExists_def fs_ReadFile_def fs_WriteFile_def
      mem_fs_def example_leaf_secret_def example_world_def Let_def)

text \<open>
  An instance: the leaf secret is written to an empty directory of the in-memory file
  system (three writes, which leave three files), and a second call finds the sentinel
  current and only reads.
\<close>

theorem DumpSecretToDir_materialization_witness:
  "''/certs/resource'' = path_Join mem_fs ''/certs'' ''resource''
   \<and> FileExists mem_fs ''/certs/resource'' (files (example_world [] [] [] [])) = Inr False
   \<and> fst (DumpSecretToDir mem_fs (example_leaf_secret ''n/leaf'') ''/certs'' (example_world [] [] [] [])) = None
   \<and> actions (snd (DumpSecretToDir mem_fs (example_leaf_secret ''n/leaf'') ''/certs''
                       (example_world [] [] [] [])))
      = [ActFileExists ''/certs/resource'',
         ActWriteFile ''/certs/tls.crt'' ''n/leaf'' owner_read_write,
         ActWriteFile ''/certs/tls.key'' ''leaf-key'' owner_read_write,
         ActWriteFile ''/certs/resource'' ''3'' owner_read_write]
   \<and> write_all mem_fs
        [(''/certs/tls.crt'', ''n/leaf'', owner_read_write),
         (''/certs/tls.key'', ''leaf-key'', owner_read_write),
         (''/certs/resource'', ''3'', owner_read_write)] []
      = (None, files (snd (DumpSecretToDir mem_fs (example_leaf_secret ''n/leaf'') ''/certs''
                              (example_world [] [] [] []))))
   \<and> files (snd (DumpSecretToDir mem_fs (example_leaf_secret ''n/leaf'') ''/certs''
                       (example_world [] [] [] [])))
      = [(''/certs/tls.crt'', ''n/leaf'', owner_read_write),
         (''/certs/tls.key'', ''leaf-key'', owner_read_write),
         (''/certs/resource'', ''3'', owner_read_write)]
   \<and> actions (snd (DumpSecretToDir mem_fs (example_leaf_secret ''n/leaf'') ''/certs''
                (snd (DumpSecretToDir mem_fs (example_leaf_secret ''n/leaf'') ''/certs''
                       (example_world [] [] [] [])))))
      = [ActFileExists ''/certs/resource'',
         ActWriteFile ''/certs/tls.crt'' ''n/leaf'' owner_read_write,
         ActWriteFile ''/certs/tls.key'' ''leaf-key'' owner_read_write,
         ActWriteFile ''/certs/resource'' ''3'' owner_read_write,
         ActFileExists ''/certs/resource'', ActReadFile ''/certs/resource'']
   \<and> ReadFile mem_fs ''/certs/resource''
        (files (snd (DumpSecretToDir mem_fs (example_leaf_secret ''n/leaf'') ''/certs''
                       (example_world [] [] [] [])))) = Inr ''3''"
proof -
  let ?w = "example_world [] [] [] [] :: ((string, string) mem_cluster, mem_files, string, string) world"
  let ?s = "example_leaf_secret ''n/leaf''"
  let ?fs = "[(''/certs/tls.crt'', ''n/leaf'', owner_read_write),
              (''/certs/tls.key'', ''leaf-key'', owner_read_write),
              (''/certs/resource'', ''3'', owner_read_write)] :: mem_files"
  obtain w1 where w1: "DumpSecretToDir mem_fs ?s ''/certs'' ?w = (None, w1)"
    and a1: "actions w1 = [ActFileExists ''/certs/resource'',
         ActWriteFile ''/certs/tls.crt'' ''n/leaf'' owner_read_write,
         ActWriteFile ''/certs/tls.key'' ''leaf-key'' owner_read_write,
         ActWriteFile ''/certs/resource'' ''3'' owner_read_write]"
    and f1: "files w1 = ?fs"
    using example_first_dump by (simp add: example_world_def)
  have p: "''/certs/resource'' = path_Join mem_fs ''/certs'' ''resource''"
    by (simp add: mem_fs_def)
  have e: "FileExists mem_fs ''/certs/resource'' (files ?w) = Inr False"
    by (simp add: mem_fs_def example_world_def)
  have law: "\<forall>f f'. WriteFile mem_fs ''/certs/resource'' (ResourceVersion ?s) owner_read_write f = (None, f')
                \<longrightarrow> FileExists mem_fs ''/certs/resource'' f' = Inr True
                    \<and> ReadFile mem_fs ''/certs/resource'' f' = Inr (ResourceVersion ?s)"
    using mem_fs_read_after_write by blast
  have rv: "ResourceVersion ?s = ''3''" "Data ?s = [(''tls.crt'', ''n/leaf''), (''tls.key'', ''leaf-key'')]"
    by (simp_all add: example_leaf_secret_def)
  have j: "path_Join mem_fs ''/certs'' ''tls.crt'' = ''/certs/tls.crt''"
    "path_Join mem_fs ''/certs'' ''tls.key'' = ''/certs/tls.key''"
    by (simp_all add: mem_fs_def)
  have fw: "files ?w = []" by (simp add: example_world_def)
  note t = DumpSecretToDir_materialization[OF p, of ?w ?s "[ActFileExists ''/certs/resource'']" "[]" w1 w1]
  from t w1 e have "write_all mem_fs
        (map (\<lambda>(k, v). (path_Join mem_fs ''/certs'' k, v, owner_read_write)) (Data ?s)
         @ [(''/certs/resource'', ResourceVersion ?s, owner_read_write)]) (files ?w)
      = (None, files w1)"
    by blast
  then have wa: "write_all mem_fs ?fs [] = (None, files w1)"
    unfolding rv fw by (simp only: list.map prod.case j append.simps)
  from t w1 law
  have "DumpSecretToDir mem_fs ?s ''/certs'' w1
          = (None, w1\<lparr>actions := actions w1 @ [ActFileExists ''/certs/resource'', ActReadFile ''/certs/resource'']\<rparr>)
        \<and> ReadFile mem_fs ''/certs/resource'' (files w1) = Inr (ResourceVersion ?s)"
    by blast
  with p e w1 a1 f1 wa rv(1) show ?thesis by simp
qed

text \<open>
  Claim C6 as stated has every data field written to a file with permission for the
  owner only. The code passes \<open>0600\<close> to \<open>ioutil.WriteFile\<close> and does nothing else about
  permissions, and \<open>ioutil.WriteFile\<close> uses the permission only for a file it creates.
  Here \<open>tls.crt\<close> exists in the directory, readable by everyone: the call succeeds,
  writes the new certificate into it, and the file is still readable by everyone.
\<close>

theorem DumpSecretToDir_keeps_permission_of_existing_file:
  "map_of (files used_directory_world) ''/certs/tls.crt'' = Some (''n/old'', world_readable)
   \<and> fst (DumpSecretToDir mem_fs (example_leaf_secret ''n/leaf'') ''/certs'' used_directory_world) = None
   \<and> ActWriteFile ''/certs/tls.crt'' ''n/leaf'' owner_read_write
        \<in> set (actions (snd (DumpSecretToDir mem_fs (example_leaf_secret ''n/leaf'') ''/certs''
                                 used_directory_world)))
   \<and> map_of (files (snd (DumpSecretToDir mem_fs (example_leaf_secret ''n/leaf'') ''/certs''
                            used_directory_world))) ''/certs/tls.crt''
       = Some (''n/leaf'', world_readable)
   \<and> world_readable \<noteq> owner_read_write"
  by (simp add: DumpSecretToDir_def dump_files_def fs_FileExists_def fs_ReadFile_def fs_WriteFile_def
      mem_fs_def example_leaf_secret_def example_world_def used_directory_world_def Let_def
      world_readable_def owner_read_write_def)

lemma renewCACertificate_current:
  assumes "ParseCASecret pk secret = Inr pair" and "IsExpiring pk pair = Inr False"
  shows "renewCACertificate cl pk secret w = (Inr secret, secret, w)"
  using assms by (simp add: renewCACertificate_def)

lemma renewServerCertificate_current:
  assumes "ParseServerSecret pk secret = Inr pair" and "IsExpiring pk pair = Inr False"
  shows "renewServerCertificate cl pk caSecret secret w = (Inr secret, w)"
  using assms by (simp add: renewServerCertificate_def)

text \<open>
  Claim C8. When the authority secret (first part) or the leaf secret (second part)
  exists and its certificate is not expiring, the ensure operation makes one call, the
  \<open>Get\<close>, and no \<open>Update\<close>: it leaves the cluster and the files as they were and
  returns the record exactly as read. A second call right after it (with certificate
  functions \<open>pk'\<close> that again find nothing expiring) returns the same record.
\<close>

theorem ensure_idempotent_when_not_expiring:
  "(SecretsGet cl ns name (cluster w) = Inr secret
      \<and> ParseCASecret pk secret = Inr pair \<and> IsExpiring pk pair = Inr False
      \<and> ParseCASecret pk' secret = Inr pair' \<and> IsExpiring pk' pair' = Inr False
    \<longrightarrow> EnsureRootCACertificate cl pk ns name w
          = (Inr secret, w\<lparr>actions := actions w @ [ActGetSecret ns name]\<rparr>)
        \<and> EnsureRootCACertificate cl pk' ns name (snd (EnsureRootCACertificate cl pk ns name w))
          = (Inr secret, w\<lparr>actions := actions w @ [ActGetSecret ns name, ActGetSecret ns name]\<rparr>))
   \<and> (SecretsGet cl (OperatorNamespace webhook) (SecretName webhook) (cluster w) = Inr secret
      \<and> ParseServerSecret pk secret = Inr pair \<and> IsExpiring pk pair = Inr False
      \<and> ParseServerSecret pk' secret = Inr pair' \<and> IsExpiring pk' pair' = Inr False
    \<longrightarrow> EnsureCertificate webhook cl pk caSecret w
          = (Inr secret, w\<lparr>actions := actions w
                @ [ActGetSecret (OperatorNamespace webhook) (SecretName webhook)]\<rparr>)
        \<and> EnsureCertificate webhook cl pk' caSecret' (snd (EnsureCertificate webhook cl pk caSecret w))
          = (Inr secret, w\<lparr>actions := actions w
                @ [ActGetSecret (OperatorNamespace webhook) (SecretName webhook),
                   ActGetSecret (OperatorNamespace webhook) (SecretName webhook)]\<rparr>))"
  by (auto simp: EnsureRootCACertificate_def EnsureCertificate_def api_SecretsGet_def
      renewCACertificate_current renewServerCertificate_current)


lemma example_ca_current:
  "SecretsGet mem_client ''operator'' ''ca-secret''
      (cluster (example_world [example_ca_secret ''K2'' (''n/ca'' @ signature ''K2'')] [] [] []))
     = Inr (example_ca_secret ''K2'' (''n/ca'' @ signature ''K2''))"
  "ParseCASecret sym_pki (example_ca_secret ''K2'' (''n/ca'' @ signature ''K2''))
     = Inr \<lparr>Private = ''K2'', Certificate = ''n/ca'' @ signature ''K2''\<rparr>"
  "IsExpiring sym_pki \<lparr>Private = ''K2'', Certificate = ''n/ca'' @ signature ''K2''\<rparr> = Inr False"
  by (simp_all add: mem_client_def sym_pki_def sym_parse_def example_world_def example_ca_secret_def
      same_secret_def)

text \<open>
  An instance: the in-memory store holds an authority secret whose certificate is fresh.
\<close>

theorem ensure_idempotent_when_not_expiring_witness:
  "SecretsGet mem_client ''operator'' ''ca-secret''
      (cluster (example_world [example_ca_secret ''K2'' (''n/ca'' @ signature ''K2'')] [] [] []))
     = Inr (example_ca_secret ''K2'' (''n/ca'' @ signature ''K2''))
   \<and> ParseCASecret sym_pki (example_ca_secret ''K2'' (''n/ca'' @ signature ''K2''))
       = Inr \<lparr>Private = ''K2'', Certificate = ''n/ca'' @ signature ''K2''\<rparr>
   \<and> IsExpiring sym_pki \<lparr>Private = ''K2'', Certificate = ''n/ca'' @ signature ''K2''\<rparr> = Inr False
   \<and> fst (EnsureRootCACertificate mem_client sym_pki ''operator'' ''ca-secret''
             (example_world [example_ca_secret ''K2'' (''n/ca'' @ signature ''K2'')] [] [] []))
       = Inr (example_ca_secret ''K2'' (''n/ca'' @ signature ''K2''))
   \<and> fst (EnsureRootCACertificate mem_client sym_pki ''operator'' ''ca-secret''
             (snd (EnsureRootCACertificate mem_client sym_pki ''operator'' ''ca-secret''
                (example_world [example_ca_secret ''K2'' (''n/ca'' @ signature ''K2'')] [] [] []))))
       = Inr (example_ca_secret ''K2'' (''n/ca'' @ signature ''K2''))"
proof -
  let ?s = "example_ca_secret ''K2'' (''n/ca'' @ signature ''K2'')"
  let ?w = "example_world [?s] [] [] [] :: ((string, string) mem_cluster, mem_files, string, string) world"
  let ?pair = "\<lparr>Private = ''K2'', Certificate = ''n/ca'' @ signature ''K2''\<rparr>"
  have h: "SecretsGet mem_client ''operator'' ''ca-secret'' (cluster ?w) = Inr ?s
      \<and> ParseCASecret sym_pki ?s = Inr ?pair \<and> IsExpiring sym_pki ?pair = Inr False
      \<and> ParseCASecret sym_pki ?s = Inr ?pair \<and> IsExpiring sym_pki ?pair = Inr False"
    using example_ca_current by simp
  from ensure_idempotent_when_not_expiring[of mem_client "''operator''" "''ca-secret''" ?w ?s
      sym_pki ?pair sym_pki ?pair] h
  have c: "EnsureRootCACertificate mem_client sym_pki ''operator'' ''ca-secret'' ?w
          = (Inr ?s, ?w\<lparr>actions := actions ?w @ [ActGetSecret ''operator'' ''ca-secret'']\<rparr>)
        \<and> EnsureRootCACertificate mem_client sym_pki ''operator'' ''ca-secret''
            (snd (EnsureRootCACertificate mem_client sym_pki ''operator'' ''ca-secret'' ?w))
          = (Inr ?s, ?w\<lparr>actions := actions ?w
                @ [ActGetSecret ''operator'' ''ca-secret'', ActGetSecret ''operator'' ''ca-secret'']\<rparr>)"
    by blast
  from c have "fst (EnsureRootCACertificate mem_client sym_pki ''operator'' ''ca-secret'' ?w) = Inr ?s"
    by (simp only: fst_conv)
  moreover from c have "fst (EnsureRootCACertificate mem_client sym_pki ''operator'' ''ca-secret''
            (snd (EnsureRootCACertificate mem_client sym_pki ''operator'' ''ca-secret'' ?w))) = Inr ?s"
    by (metis fst_conv)
  ultimately show ?thesis using example_ca_current by (simp only: simp_thms)
qed

text \<open>
  Claim C10. When the authority secret exists and is expiring and the renewal and the
  \<open>Update\<close> succeed, \<open>EnsureRootCACertificate\<close> returns the object it read, changed
  in place: its \<open>ca.crt\<close> is the renewed certificate, its \<open>ca.key\<close> and its
  \<open>resourceVersion\<close> are those read. The record \<open>updatedSecret\<close> that the store's
  \<open>Update\<close> returned does not occur in the result.
\<close>

theorem EnsureRootCACertificate_returns_object_read:
  assumes "SecretsGet cl ns name (cluster w) = Inr secret"
    and "ParseCASecret pk secret = Inr pair" and "IsExpiring pk pair = Inr True"
    and "ParseECPrivateKey pk pair = Inr privateKey"
    and "RenewCertificate pk pair privateKey = Inr renewed"
    and "returned = secret\<lparr>Data := AList.update ''ca.crt'' (Certificate renewed) (Data secret)\<rparr>"
    and "SecretsUpdate cl (Namespace secret) returned (cluster w) = (Inr updatedSecret, c)"
  shows "EnsureRootCACertificate cl pk ns name w
           = (Inr returned,
              w\<lparr>cluster := c,
                actions := actions w @ [ActGetSecret ns name, ActUpdateSecret (Namespace secret) returned]\<rparr>)
         \<and> data_field returned ''ca.crt'' = Certificate renewed
         \<and> map_of (Data returned) ''ca.key'' = map_of (Data secret) ''ca.key''
         \<and> ResourceVersion returned = ResourceVersion secret"
  using assms
  by (simp add: EnsureRootCACertificate_def api_SecretsGet_def renewCACertificate_def
      api_SecretsUpdate_def Let_def data_field_def update_conv)


text \<open>
  An instance: the in-memory store holds an expiring authority secret at
  \<open>resourceVersion\<close> 7. The secret returned still says 7; the store holds \<open>7+\<close>.
\<close>

theorem EnsureRootCACertificate_returns_object_read_witness:
  "SecretsGet mem_client ''operator'' ''ca-secret''
      (cluster (example_world [example_ca_secret ''K2'' (''o/ca'' @ signature ''K2'')] [] [] []))
     = Inr (example_ca_secret ''K2'' (''o/ca'' @ signature ''K2''))
   \<and> IsExpiring sym_pki \<lparr>Private = ''K2'', Certificate = ''o/ca'' @ signature ''K2''\<rparr> = Inr True
   \<and> fst (EnsureRootCACertificate mem_client sym_pki ''operator'' ''ca-secret''
             (example_world [example_ca_secret ''K2'' (''o/ca'' @ signature ''K2'')] [] [] []))
       = Inr (example_ca_secret ''K2'' (''n/renewed'' @ signature ''K2''))
   \<and> ResourceVersion (example_ca_secret ''K2'' (''n/renewed'' @ signature ''K2'')) = ''7''
   \<and> map ResourceVersion (stored_secrets (cluster (snd
         (EnsureRootCACertificate mem_client sym_pki ''operator'' ''ca-secret''
             (example_world [example_ca_secret ''K2'' (''o/ca'' @ signature ''K2'')] [] [] [])))))
       = [''7+'']"
proof -
  let ?s = "example_ca_secret ''K2'' (''o/ca'' @ signature ''K2'')"
  let ?r = "example_ca_secret ''K2'' (''n/renewed'' @ signature ''K2'')"
  let ?w = "example_world [?s] [] [] [] :: ((string, string) mem_cluster, mem_files, string, string) world"
  let ?pair = "\<lparr>Private = ''K2'', Certificate = ''o/ca'' @ signature ''K2''\<rparr>"
  let ?renewed = "\<lparr>Private = ''K2'', Certificate = ''n/renewed'' @ signature ''K2''\<rparr>"
  let ?u = "?r\<lparr>ResourceVersion := ''7+''\<rparr>"
  let ?c = "\<lparr>stored_secrets = [?u], stored_mutating = [], stored_validating = []\<rparr>
              :: (string, string) mem_cluster"
  have h1: "SecretsGet mem_client ''operator'' ''ca-secret'' (cluster ?w) = Inr ?s"
    by (simp add: mem_client_def example_world_def example_ca_secret_def same_secret_def)
  have h2: "ParseCASecret sym_pki ?s = Inr ?pair"
    by (simp add: sym_pki_def sym_parse_def example_ca_secret_def)
  have h3: "IsExpiring sym_pki ?pair = Inr True"
    by (simp add: sym_pki_def)
  have h4: "ParseECPrivateKey sym_pki ?pair = Inr ''K2''"
    by (simp add: sym_pki_def)
  have h5: "RenewCertificate sym_pki ?pair ''K2'' = Inr ?renewed"
    by (simp add: sym_pki_def)
  have h6: "?r = ?s\<lparr>Data := AList.update ''ca.crt'' (Certificate ?renewed) (Data ?s)\<rparr>"
    by (simp add: example_ca_secret_def)
  have h7: "SecretsUpdate mem_client (Namespace ?s) ?r (cluster ?w) = (Inr ?u, ?c)"
    by (simp add: mem_client_def mem_SecretsUpdate_def example_world_def example_ca_secret_def
        same_secret_def Let_def)
  from EnsureRootCACertificate_returns_object_read[OF h1 h2 h3 h4 h5 h6 h7]
  have e: "EnsureRootCACertificate mem_client sym_pki ''operator'' ''ca-secret'' ?w
           = (Inr ?r, ?w\<lparr>cluster := ?c,
                actions := actions ?w @ [ActGetSecret ''operator'' ''ca-secret'',
                                         ActUpdateSecret (Namespace ?s) ?r]\<rparr>)"
    by blast
  have "ResourceVersion ?r = ''7''" by (simp add: example_ca_secret_def)
  with h1 h3 show ?thesis unfolding e by (simp add: example_ca_secret_def)
qed

lemma api_actions:
  "actions (snd (api_SecretsGet cl ns name w)) = actions w @ [ActGetSecret ns name]"
  "actions (snd (api_SecretsCreate cl ns s w)) = actions w @ [ActCreateSecret ns s]"
  "actions (snd (api_SecretsUpdate cl ns s w)) = actions w @ [ActUpdateSecret ns s]"
  "actions (snd (api_MutatingGet cl n w)) = actions w @ [ActGetMutating n]"
  "actions (snd (api_MutatingUpdate cl m w)) = actions w @ [ActUpdateMutating m]"
  "actions (snd (api_ValidatingGet cl n w)) = actions w @ [ActGetValidating n]"
  "actions (snd (api_ValidatingUpdate cl v w)) = actions w @ [ActUpdateValidating v]"
  "actions (snd (fs_FileExists fs p w)) = actions w @ [ActFileExists p]"
  "actions (snd (fs_ReadFile fs p w)) = actions w @ [ActReadFile p]"
  "actions (snd (fs_WriteFile fs p b m' w)) = actions w @ [ActWriteFile p b m']"
  "actions (log_Info msg n w) = actions w @ [ActLogInfo msg n]"
  by (simp_all add: api_SecretsGet_def api_SecretsCreate_def api_SecretsUpdate_def
      api_MutatingGet_def api_MutatingUpdate_def api_ValidatingGet_def api_ValidatingUpdate_def
      fs_FileExists_def fs_ReadFile_def fs_WriteFile_def log_Info_def split: prod.splits)

lemma write_data_extends:
  "write_data fs dir xs w = (r, w') \<Longrightarrow> prefix (actions w) (actions w')"
proof (induction xs arbitrary: w)
  case Nil
  then show ?case by simp
next
  case (Cons x xs)
  obtain k v where x: "x = (k, v)" by (cases x)
  obtain r1 w1 where f: "fs_WriteFile fs (path_Join fs dir k) v owner_read_write w = (r1, w1)"
    by force
  from api_actions(10)[of fs "path_Join fs dir k" v owner_read_write w] f
  have p1: "prefix (actions w) (actions w1)" by simp
  show ?case
  proof (cases r1)
    case None
    with Cons.prems x f have "write_data fs dir xs w1 = (r, w')" by simp
    from Cons.IH[OF this] p1 show ?thesis by (rule prefix_order.trans[rotated])
  next
    case (Some e)
    with Cons.prems x f have "w' = w1" by simp
    with p1 show ?thesis by simp
  qed
qed

lemma dump_files_extends:
  assumes "dump_files fs secret dir p w = (r, w')"
  shows "prefix (actions w) (actions w')"
proof -
  obtain r1 w1 where d: "write_data fs dir (Data secret) w = (r1, w1)" by force
  note p1 = write_data_extends[OF d]
  show ?thesis
  proof (cases r1)
    case (Some e)
    with assms d have "w' = w1" by (simp add: dump_files_def)
    with p1 show ?thesis by simp
  next
    case None
    with assms d have "w' = snd (fs_WriteFile fs p (ResourceVersion secret) owner_read_write w1)"
      by (simp add: dump_files_def)
    then have "prefix (actions w1) (actions w')" by (simp add: api_actions)
    with p1 show ?thesis by (rule prefix_order.trans)
  qed
qed

lemma DumpSecretToDir_extends:
  assumes "DumpSecretToDir fs secret dir w = (r, w')"
  shows "prefix (actions w) (actions w')"
proof -
  let ?p = "path_Join fs dir ''resource''"
  obtain r1 w1 where e: "fs_FileExists fs ?p w = (r1, w1)" by force
  with api_actions(8)[of fs ?p w] have p1: "prefix (actions w) (actions w1)" by simp
  obtain r2 w2 where rd: "fs_ReadFile fs ?p w1 = (r2, w2)" by force
  with api_actions(9)[of fs ?p w1] have p2: "prefix (actions w1) (actions w2)" by simp
  from p1 p2 have p12: "prefix (actions w) (actions w2)" by (rule prefix_order.trans)
  from assms e rd have "w' = w1 \<or> w' = w2 \<or> dump_files fs secret dir ?p w1 = (r, w')
      \<or> dump_files fs secret dir ?p w2 = (r, w')"
    by (auto simp: DumpSecretToDir_def Let_def split: sum.splits if_splits)
  then show ?thesis
    using p1 p12 dump_files_extends prefix_order.trans by blast
qed

lemma Inject_extends:
  "prefix (actions w) (actions (snd (InjectPublicKeyIntoMutatingWebhook webhook cl s w)))"
  "prefix (actions w) (actions (snd (InjectPublicKeyIntoValidatingWebhook webhook cl s w)))"
proof -
  let ?n = "MutatingWebhookConfigurationName webhook"
  obtain r1 w1 where g: "api_MutatingGet cl ?n w = (r1, w1)" by force
  with api_actions(4)[of cl ?n w] have a1: "actions w1 = actions w @ [ActGetMutating ?n]" by simp
  show "prefix (actions w) (actions (snd (InjectPublicKeyIntoMutatingWebhook webhook cl s w)))"
  proof (cases r1)
    case (Inl e)
    with g a1 show ?thesis by (simp add: InjectPublicKeyIntoMutatingWebhook_def)
  next
    case (Inr cfg)
    let ?cfg = "cfg\<lparr>Webhooks := map (set_CABundle (data_field s ''tls.crt'')) (Webhooks cfg)\<rparr>"
    obtain r2 w2 where u: "api_MutatingUpdate cl ?cfg w1 = (r2, w2)" by force
    with api_actions(5)[of cl ?cfg w1] a1 have "prefix (actions w) (actions w2)" by simp
    with g Inr u show ?thesis
      by (cases r2) (simp_all add: InjectPublicKeyIntoMutatingWebhook_def)
  qed
next
  let ?n = "ValidatingWebhookConfigurationName webhook"
  obtain r1 w1 where g: "api_ValidatingGet cl ?n w = (r1, w1)" by force
  with api_actions(6)[of cl ?n w] have a1: "actions w1 = actions w @ [ActGetValidating ?n]" by simp
  show "prefix (actions w) (actions (snd (InjectPublicKeyIntoValidatingWebhook webhook cl s w)))"
  proof (cases r1)
    case (Inl e)
    with g a1 show ?thesis by (simp add: InjectPublicKeyIntoValidatingWebhook_def)
  next
    case (Inr cfg)
    let ?cfg = "cfg\<lparr>Webhooks := map (set_CABundle (data_field s ''tls.crt'')) (Webhooks cfg)\<rparr>"
    obtain r2 w2 where u: "api_ValidatingUpdate cl ?cfg w1 = (r2, w2)" by force
    with api_actions(7)[of cl ?cfg w1] a1 have "prefix (actions w) (actions w2)" by simp
    with g Inr u show ?thesis
      by (cases r2) (simp_all add: InjectPublicKeyIntoValidatingWebhook_def)
  qed
qed

lemma setup_validating_extends:
  "prefix (actions w) (actions (snd (setup_validating webhook cl s w)))"
proof -
  obtain r1 w1 where i: "InjectPublicKeyIntoValidatingWebhook webhook cl s w = (r1, w1)" by force
  with Inject_extends(2)[of w webhook cl s] have p: "prefix (actions w) (actions w1)" by simp
  then have "prefix (actions w) (actions (log_Info m n w1))" for m n
    by (simp add: api_actions)
  with p i show ?thesis
    by (cases r1) (simp_all add: setup_validating_def)
qed

lemma Setup_extends_after_leaf:
  assumes "EnsureRootCACertificate cl pk (OperatorNamespace webhook) (CaSecretName webhook) w = (Inr caSecret, w1)"
    and "EnsureCertificate webhook cl pk caSecret w1 = (r, w2)"
  shows "prefix (actions w2) (actions (snd (Setup webhook cl pk fs w)))"
proof (cases r)
  case (Inl e)
  with assms show ?thesis by (simp add: Setup_def)
next
  case (Inr ws)
  obtain r3 w3 where d: "DumpSecretToDir fs ws (CertDir webhook) w2 = (r3, w3)" by force
  note p3 = DumpSecretToDir_extends[OF d]
  show ?thesis
  proof (cases r3)
    case (Some e)
    with assms Inr d p3 show ?thesis by (simp add: Setup_def)
  next
    case None
    obtain r4 w4 where m: "InjectPublicKeyIntoMutatingWebhook webhook cl ws w3 = (r4, w4)" by force
    with Inject_extends(1)[of w3 webhook cl ws] have p4: "prefix (actions w3) (actions w4)" by simp
    from p3 p4 have p34: "prefix (actions w2) (actions w4)" by (rule prefix_order.trans)
    have v: "prefix (actions w2) (actions (snd (setup_validating webhook cl ws w4)))"
      using p34 setup_validating_extends by (rule prefix_order.trans)
    have "prefix (actions w4) (actions (log_Info m n w4))" for m n
      by (simp add: api_actions)
    then have vl: "prefix (actions w2) (actions (snd (setup_validating webhook cl ws (log_Info m n w4))))" for m n
      using p34 setup_validating_extends prefix_order.trans by blast
    from assms Inr d None m v vl p34 show ?thesis
      by (cases r4) (simp_all add: Setup_def)
  qed
qed

text \<open>
  Claim C9. In a run of \<open>Setup\<close> whose first step returned \<open>caSecret\<close> and that finds
  the leaf certificate expiring, the key given to \<open>RenewCertificate\<close> is the private
  key parsed, in this run, from \<open>caSecret\<close>: the leaf record sent to the store's \<open>Update\<close>
  (the second call of the second step, and part of the calls of \<open>Setup\<close>) carries as
  \<open>tls.crt\<close> the certificate renewed with that key. With any notion \<open>verifies\<close> of a
  certificate being valid under a signing key that renewal establishes, the renewed leaf
  certificate verifies under the key of the authority secret of this run.
\<close>

theorem leaf_renewal_signed_with_current_authority_key:
  assumes "EnsureRootCACertificate cl pk (OperatorNamespace webhook) (CaSecretName webhook) w = (Inr caSecret, w1)"
    and "SecretsGet cl (OperatorNamespace webhook) (SecretName webhook) (cluster w1) = Inr leaf"
    and "ParseServerSecret pk leaf = Inr pair" and "IsExpiring pk pair = Inr True"
    and "ParseCASecret pk caSecret = Inr caPair"
    and "ParseECPrivateKey pk caPair = Inr caPrivateKey"
    and "RenewCertificate pk pair caPrivateKey = Inr renewed"
    and "\<forall>p k r. RenewCertificate pk p k = Inr r \<longrightarrow> verifies (Certificate r) k"
    and "renewedLeaf = leaf\<lparr>Data := AList.update ''tls.crt'' (Certificate renewed) (Data leaf)\<rparr>"
  shows "\<exists>r w2. EnsureCertificate webhook cl pk caSecret w1 = (r, w2)
           \<and> actions w2 = actions w1 @ [ActGetSecret (OperatorNamespace webhook) (SecretName webhook),
                                        ActUpdateSecret (Namespace leaf) renewedLeaf]
           \<and> prefix (actions w2) (actions (snd (Setup webhook cl pk fs w)))
           \<and> verifies (data_field renewedLeaf ''tls.crt'') caPrivateKey"
proof -
  obtain r w2 where e: "EnsureCertificate webhook cl pk caSecret w1 = (r, w2)" by force
  from e assms(2-7,9) have "actions w2 = actions w1
      @ [ActGetSecret (OperatorNamespace webhook) (SecretName webhook),
         ActUpdateSecret (Namespace leaf) renewedLeaf]"
    by (auto simp: EnsureCertificate_def api_SecretsGet_def renewServerCertificate_def
        api_SecretsUpdate_def Let_def split: prod.splits sum.splits)
  moreover note Setup_extends_after_leaf[OF assms(1) e, of fs]
  moreover have "data_field renewedLeaf ''tls.crt'' = Certificate renewed"
    using assms(9) by (simp add: data_field_def update_conv)
  then have "verifies (data_field renewedLeaf ''tls.crt'') caPrivateKey"
    using assms(7,8) by simp
  ultimately show ?thesis using e by blast
qed


lemma sym_pki_signs:
  "\<forall>p k r. RenewCertificate sym_pki p k = Inr r \<longrightarrow> signed_by (Certificate r) k"
  by (auto simp: sym_pki_def signed_by_def suffix_def)

text \<open>
  An instance: the authority secret holds the key K2, the leaf certificate was signed
  with an earlier key K1 and is expiring. The run renews it with K2.
\<close>

theorem leaf_renewal_signed_with_current_authority_key_witness:
  "fst (EnsureRootCACertificate mem_client sym_pki (OperatorNamespace example_env) (CaSecretName example_env)
          (example_world [example_ca_secret ''K2'' (''n/ca'' @ signature ''K2''),
                          example_leaf_secret (''o/leaf'' @ signature ''K1'')] [] [] []))
     = Inr (example_ca_secret ''K2'' (''n/ca'' @ signature ''K2''))
   \<and> IsExpiring sym_pki \<lparr>Private = ''leaf-key'', Certificate = ''o/leaf'' @ signature ''K1''\<rparr> = Inr True
   \<and> ParseECPrivateKey sym_pki \<lparr>Private = ''K2'', Certificate = ''n/ca'' @ signature ''K2''\<rparr> = Inr ''K2''
   \<and> \<not> signed_by (''o/leaf'' @ signature ''K1'') ''K2''
   \<and> signed_by (data_field (example_leaf_secret (''n/renewed'' @ signature ''K2'')) ''tls.crt'') ''K2''
   \<and> ActUpdateSecret ''operator'' (example_leaf_secret (''n/renewed'' @ signature ''K2''))
        \<in> set (actions (snd (Setup example_env mem_client sym_pki mem_fs
              (example_world [example_ca_secret ''K2'' (''n/ca'' @ signature ''K2''),
                              example_leaf_secret (''o/leaf'' @ signature ''K1'')] [] [] []))))"
proof -
  let ?ca = "example_ca_secret ''K2'' (''n/ca'' @ signature ''K2'')"
  let ?leaf = "example_leaf_secret (''o/leaf'' @ signature ''K1'')"
  let ?new = "example_leaf_secret (''n/renewed'' @ signature ''K2'')"
  let ?w = "example_world [?ca, ?leaf] [] [] []
              :: ((string, string) mem_cluster, mem_files, string, string) world"
  let ?w1 = "?w\<lparr>actions := actions ?w @ [ActGetSecret ''operator'' ''ca-secret'']\<rparr>"
  let ?pair = "\<lparr>Private = ''leaf-key'', Certificate = ''o/leaf'' @ signature ''K1''\<rparr>"
  let ?caPair = "\<lparr>Private = ''K2'', Certificate = ''n/ca'' @ signature ''K2''\<rparr>"
  let ?renewed = "\<lparr>Private = ''leaf-key'', Certificate = ''n/renewed'' @ signature ''K2''\<rparr>"
  have h1: "EnsureRootCACertificate mem_client sym_pki (OperatorNamespace example_env)
              (CaSecretName example_env) ?w = (Inr ?ca, ?w1)"
    by (simp add: EnsureRootCACertificate_def api_SecretsGet_def renewCACertificate_def
        mem_client_def sym_pki_def sym_parse_def example_world_def example_ca_secret_def
        example_leaf_secret_def example_env_def same_secret_def)
  have h2: "SecretsGet mem_client (OperatorNamespace example_env) (SecretName example_env) (cluster ?w1)
              = Inr ?leaf"
    by (simp add: mem_client_def example_world_def example_ca_secret_def
        example_leaf_secret_def example_env_def same_secret_def)
  have h3: "ParseServerSecret sym_pki ?leaf = Inr ?pair"
    by (simp add: sym_pki_def sym_parse_def example_leaf_secret_def)
  have h4: "IsExpiring sym_pki ?pair = Inr True"
    by (simp add: sym_pki_def)
  have h5: "ParseCASecret sym_pki ?ca = Inr ?caPair"
    by (simp add: sym_pki_def sym_parse_def example_ca_secret_def)
  have h6: "ParseECPrivateKey sym_pki ?caPair = Inr ''K2''"
    by (simp add: sym_pki_def)
  have h7: "RenewCertificate sym_pki ?pair ''K2'' = Inr ?renewed"
    by (simp add: sym_pki_def)
  have h9: "?new = ?leaf\<lparr>Data := AList.update ''tls.crt'' (Certificate ?renewed) (Data ?leaf)\<rparr>"
    by (simp add: example_leaf_secret_def)
  from leaf_renewal_signed_with_current_authority_key[OF h1 h2 h3 h4 h5 h6 h7 sym_pki_signs h9,
      of mem_fs]
  obtain w2 :: "((string, string) mem_cluster, mem_files, string, string) world" where
    a: "actions w2 = actions ?w1 @ [ActGetSecret (OperatorNamespace example_env) (SecretName example_env),
                                    ActUpdateSecret (Namespace ?leaf) ?new]"
    and p: "prefix (actions w2) (actions (snd (Setup example_env mem_client sym_pki mem_fs ?w)))"
    and v: "signed_by (data_field ?new ''tls.crt'') ''K2''"
    by blast
  from a have "ActUpdateSecret ''operator'' ?new \<in> set (actions w2)"
    by (simp add: example_leaf_secret_def)
  with p have m: "ActUpdateSecret ''operator'' ?new
      \<in> set (actions (snd (Setup example_env mem_client sym_pki mem_fs ?w)))"
    using set_mono_prefix by blast
  have n: "\<not> signed_by (''o/leaf'' @ signature ''K1'') ''K2''"
    by (simp add: signed_by_def signature_def suffix_to_prefix)
  from h1 have "fst (EnsureRootCACertificate mem_client sym_pki (OperatorNamespace example_env)
              (CaSecretName example_env) ?w) = Inr ?ca"
    by simp
  with h4 h6 n v m show ?thesis by blast
qed


lemma Inject_Mutating_found:
  assumes "MutatingGet cl (MutatingWebhookConfigurationName webhook) (cluster w) = Inr cfg"
    and "MutatingUpdate cl
           (cfg\<lparr>Webhooks := map (\<lambda>h. h\<lparr>ClientConfig := (ClientConfig h)\<lparr>CABundle := data_field tlsSecret ''tls.crt''\<rparr>\<rparr>)
                              (Webhooks cfg)\<rparr>) (cluster w) = (r, c)"
  shows "InjectPublicKeyIntoMutatingWebhook webhook cl tlsSecret w
       = (case r of Inl err \<Rightarrow> Some err | Inr updated \<Rightarrow> None,
          w\<lparr>cluster := c,
            actions := actions w @ [ActGetMutating (MutatingWebhookConfigurationName webhook),
               ActUpdateMutating
                 (cfg\<lparr>Webhooks := map (\<lambda>h. h\<lparr>ClientConfig := (ClientConfig h)\<lparr>CABundle := data_field tlsSecret ''tls.crt''\<rparr>\<rparr>)
                                    (Webhooks cfg)\<rparr>)]\<rparr>)"
proof -
  have s: "set_CABundle b = (\<lambda>h. h\<lparr>ClientConfig := (ClientConfig h)\<lparr>CABundle := b\<rparr>\<rparr>)" for b :: bytes
    by (rule ext) (simp add: set_CABundle_def)
  from assms show ?thesis
    by (cases r) (simp_all add: InjectPublicKeyIntoMutatingWebhook_def api_MutatingGet_def
        api_MutatingUpdate_def s)
qed

lemma Inject_Validating_found:
  assumes "ValidatingGet cl (ValidatingWebhookConfigurationName webhook) (cluster w) = Inr cfg"
    and "ValidatingUpdate cl
           (cfg\<lparr>Webhooks := map (\<lambda>h. h\<lparr>ClientConfig := (ClientConfig h)\<lparr>CABundle := data_field tlsSecret ''tls.crt''\<rparr>\<rparr>)
                              (Webhooks cfg)\<rparr>) (cluster w) = (r, c)"
  shows "InjectPublicKeyIntoValidatingWebhook webhook cl tlsSecret w
       = (case r of Inl err \<Rightarrow> Some err | Inr updated \<Rightarrow> None,
          w\<lparr>cluster := c,
            actions := actions w @ [ActGetValidating (ValidatingWebhookConfigurationName webhook),
               ActUpdateValidating
                 (cfg\<lparr>Webhooks := map (\<lambda>h. h\<lparr>ClientConfig := (ClientConfig h)\<lparr>CABundle := data_field tlsSecret ''tls.crt''\<rparr>\<rparr>)
                                    (Webhooks cfg)\<rparr>)]\<rparr>)"
proof -
  have s: "set_CABundle b = (\<lambda>h. h\<lparr>ClientConfig := (ClientConfig h)\<lparr>CABundle := b\<rparr>\<rparr>)" for b :: bytes
    by (rule ext) (simp add: set_CABundle_def)
  from assms show ?thesis
    by (cases r) (simp_all add: InjectPublicKeyIntoValidatingWebhook_def api_ValidatingGet_def
        api_ValidatingUpdate_def s)
qed

lemma Inject_not_found:
  "MutatingGet cl (MutatingWebhookConfigurationName webhook) (cluster w) = Inl err \<Longrightarrow>
   InjectPublicKeyIntoMutatingWebhook webhook cl tlsSecret w
     = (Some err, w\<lparr>actions := actions w @ [ActGetMutating (MutatingWebhookConfigurationName webhook)]\<rparr>)"
  "ValidatingGet cl (ValidatingWebhookConfigurationName webhook) (cluster w) = Inl err \<Longrightarrow>
   InjectPublicKeyIntoValidatingWebhook webhook cl tlsSecret w
     = (Some err, w\<lparr>actions := actions w @ [ActGetValidating (ValidatingWebhookConfigurationName webhook)]\<rparr>)"
  by (simp_all add: InjectPublicKeyIntoMutatingWebhook_def api_MutatingGet_def
      InjectPublicKeyIntoValidatingWebhook_def api_ValidatingGet_def)

lemma Setup_after_dump:
  assumes "EnsureRootCACertificate cl pk (OperatorNamespace webhook) (CaSecretName webhook) w = (Inr caSecret, w1)"
    and "EnsureCertificate webhook cl pk caSecret w1 = (Inr webhookSecret, w2)"
    and "DumpSecretToDir fs webhookSecret (CertDir webhook) w2 = (None, w3)"
  shows "Setup webhook cl pk fs w =
     (case InjectPublicKeyIntoMutatingWebhook webhook cl webhookSecret w3 of
        (Some err, w4) \<Rightarrow>
          if IsNotFound err
          then setup_validating webhook cl webhookSecret
                 (log_Info ''mutating webhook configuration not found, cannot inject public key''
                    (MutatingWebhookConfigurationName webhook) w4)
          else (Some err, w4)
      | (None, w4) \<Rightarrow> setup_validating webhook cl webhookSecret w4)"
  using assms by (simp add: Setup_def)

lemma Setup_after_mutating:
  assumes "EnsureRootCACertificate cl pk (OperatorNamespace webhook) (CaSecretName webhook) w = (Inr caSecret, w1)"
    and "EnsureCertificate webhook cl pk caSecret w1 = (Inr webhookSecret, w2)"
    and "DumpSecretToDir fs webhookSecret (CertDir webhook) w2 = (None, w3)"
    and "InjectPublicKeyIntoMutatingWebhook webhook cl webhookSecret w3 = (None, w4) \<and> w4' = w4
         \<or> InjectPublicKeyIntoMutatingWebhook webhook cl webhookSecret w3 = (Some nf, w4)
            \<and> IsNotFound nf
            \<and> w4' = log_Info ''mutating webhook configuration not found, cannot inject public key''
                       (MutatingWebhookConfigurationName webhook) w4"
  shows "Setup webhook cl pk fs w = setup_validating webhook cl webhookSecret w4'"
  using assms(4) by (auto simp: Setup_after_dump[OF assms(1-3)])

lemma EnsureCertificate_calls:
  "actions (snd (EnsureCertificate webhook cl pk caSecret w)) \<noteq> actions w"
proof -
  have "\<exists>as. actions (snd (EnsureCertificate webhook cl pk caSecret w))
          = actions w @ ActGetSecret (OperatorNamespace webhook) (SecretName webhook) # as"
    by (auto simp: EnsureCertificate_def renewServerCertificate_def api_SecretsGet_def
        api_SecretsCreate_def api_SecretsUpdate_def Let_def split: sum.splits prod.splits)
  then show ?thesis by auto
qed

lemma DumpSecretToDir_calls:
  "actions (snd (DumpSecretToDir fs secret dir w)) \<noteq> actions w"
proof -
  let ?p = "path_Join fs dir ''resource''"
  let ?w1 = "snd (fs_FileExists fs ?p w)"
  let ?w2 = "snd (fs_ReadFile fs ?p ?w1)"
  obtain r w' where d: "DumpSecretToDir fs secret dir w = (r, w')" by force
  have a1: "actions ?w1 = actions w @ [ActFileExists ?p]" by (simp add: api_actions)
  have a2: "prefix (actions ?w1) (actions ?w2)" by (simp add: api_actions)
  from d have "w' = ?w1 \<or> w' = ?w2 \<or> dump_files fs secret dir ?p ?w1 = (r, w')
      \<or> dump_files fs secret dir ?p ?w2 = (r, w')"
    by (auto simp: DumpSecretToDir_def Let_def fs_FileExists_def fs_ReadFile_def
        split: sum.splits if_splits)
  then have "prefix (actions ?w1) (actions w')"
    using a2 dump_files_extends prefix_order.trans by blast
  with a1 d show ?thesis by (auto simp: prefix_def)
qed

lemma Inject_calls:
  "actions (snd (InjectPublicKeyIntoMutatingWebhook webhook cl s w)) \<noteq> actions w"
  "actions (snd (InjectPublicKeyIntoValidatingWebhook webhook cl s w)) \<noteq> actions w"
proof -
  have "\<exists>as. actions (snd (InjectPublicKeyIntoMutatingWebhook webhook cl s w))
          = actions w @ ActGetMutating (MutatingWebhookConfigurationName webhook) # as"
    by (auto simp: InjectPublicKeyIntoMutatingWebhook_def api_MutatingGet_def api_MutatingUpdate_def
        split: sum.splits prod.splits)
  then show "actions (snd (InjectPublicKeyIntoMutatingWebhook webhook cl s w)) \<noteq> actions w"
    by auto
  have "\<exists>as. actions (snd (InjectPublicKeyIntoValidatingWebhook webhook cl s w))
          = actions w @ ActGetValidating (ValidatingWebhookConfigurationName webhook) # as"
    by (auto simp: InjectPublicKeyIntoValidatingWebhook_def api_ValidatingGet_def
        api_ValidatingUpdate_def split: sum.splits prod.splits)
  then show "actions (snd (InjectPublicKeyIntoValidatingWebhook webhook cl s w)) \<noteq> actions w"
    by auto
qed

text \<open>
  Claim C4, as amended. \<open>Setup\<close> runs \<open>EnsureRootCACertificate\<close>, \<open>EnsureCertificate\<close>,
  \<open>DumpSecretToDir\<close>, the injection into the mutating configuration and the injection
  into the validating configuration, each on the world the step before it left. The
  first error of the first three steps is returned, with the world as the failing step
  left it; an error of an injection is returned likewise unless it is a NotFound error,
  whichever call of the injection returned it (the \<open>Get\<close> or the \<open>Update\<close>): that one is
  logged and \<open>Setup\<close> goes on. In particular, when both configurations are absent and
  the first three steps succeed, \<open>Setup\<close> succeeds after the two \<open>Get\<close>s, each followed
  by its log line. Every step after the first makes at least one recorded call, so a
  world returned as a step left it shows that no later step ran.
\<close>

theorem Setup_order_and_short_circuit:
  "(EnsureRootCACertificate cl pk (OperatorNamespace webhook) (CaSecretName webhook) w = (Inl err, w1)
      \<longrightarrow> Setup webhook cl pk fs w = (Some err, w1))
   \<and> (EnsureRootCACertificate cl pk (OperatorNamespace webhook) (CaSecretName webhook) w = (Inr caSecret, w1)
      \<longrightarrow>
      (EnsureCertificate webhook cl pk caSecret w1 = (Inl err, w2)
         \<longrightarrow> Setup webhook cl pk fs w = (Some err, w2))
      \<and> (EnsureCertificate webhook cl pk caSecret w1 = (Inr webhookSecret, w2)
         \<longrightarrow>
         (DumpSecretToDir fs webhookSecret (CertDir webhook) w2 = (Some err, w3)
            \<longrightarrow> Setup webhook cl pk fs w = (Some err, w3))
         \<and> (DumpSecretToDir fs webhookSecret (CertDir webhook) w2 = (None, w3)
            \<longrightarrow>
            (InjectPublicKeyIntoMutatingWebhook webhook cl webhookSecret w3 = (Some err, w4)
               \<and> \<not> IsNotFound err
               \<longrightarrow> Setup webhook cl pk fs w = (Some err, w4))
            \<and> (InjectPublicKeyIntoMutatingWebhook webhook cl webhookSecret w3 = (None, w4) \<and> w4' = w4
                \<or> InjectPublicKeyIntoMutatingWebhook webhook cl webhookSecret w3 = (Some nf, w4)
                   \<and> IsNotFound nf
                   \<and> w4' = log_Info ''mutating webhook configuration not found, cannot inject public key''
                              (MutatingWebhookConfigurationName webhook) w4
               \<longrightarrow>
               (InjectPublicKeyIntoValidatingWebhook webhook cl webhookSecret w4' = (Some err, w5)
                  \<and> \<not> IsNotFound err
                  \<longrightarrow> Setup webhook cl pk fs w = (Some err, w5))
               \<and> (InjectPublicKeyIntoValidatingWebhook webhook cl webhookSecret w4' = (None, w5)
                  \<longrightarrow> Setup webhook cl pk fs w = (None, w5))
               \<and> (InjectPublicKeyIntoValidatingWebhook webhook cl webhookSecret w4' = (Some nf', w5)
                  \<and> IsNotFound nf'
                  \<longrightarrow> Setup webhook cl pk fs w
                        = (None, log_Info ''validating webhook configuration not found, cannot inject public key''
                                   (ValidatingWebhookConfigurationName webhook) w5)))
            \<and> (MutatingGet cl (MutatingWebhookConfigurationName webhook) (cluster w3) = Inl nf
                \<and> IsNotFound nf
                \<and> ValidatingGet cl (ValidatingWebhookConfigurationName webhook) (cluster w3) = Inl nf'
                \<and> IsNotFound nf'
               \<longrightarrow> Setup webhook cl pk fs w
                     = (None, w3\<lparr>actions := actions w3
                          @ [ActGetMutating (MutatingWebhookConfigurationName webhook),
                             ActLogInfo ''mutating webhook configuration not found, cannot inject public key''
                               (MutatingWebhookConfigurationName webhook),
                             ActGetValidating (ValidatingWebhookConfigurationName webhook),
                             ActLogInfo ''validating webhook configuration not found, cannot inject public key''
                               (ValidatingWebhookConfigurationName webhook)]\<rparr>)))))
   \<and> actions (snd (EnsureCertificate webhook cl pk s0 w0)) \<noteq> actions w0
   \<and> actions (snd (DumpSecretToDir fs s0 dir w0)) \<noteq> actions w0
   \<and> actions (snd (InjectPublicKeyIntoMutatingWebhook webhook cl s0 w0)) \<noteq> actions w0
   \<and> actions (snd (InjectPublicKeyIntoValidatingWebhook webhook cl s0 w0)) \<noteq> actions w0"
proof (intro conjI impI)
  assume "EnsureRootCACertificate cl pk (OperatorNamespace webhook) (CaSecretName webhook) w = (Inl err, w1)"
  then show "Setup webhook cl pk fs w = (Some err, w1)" by (simp add: Setup_def)
next
  assume "EnsureRootCACertificate cl pk (OperatorNamespace webhook) (CaSecretName webhook) w = (Inr caSecret, w1)"
    and "EnsureCertificate webhook cl pk caSecret w1 = (Inl err, w2)"
  then show "Setup webhook cl pk fs w = (Some err, w2)" by (simp add: Setup_def)
next
  assume "EnsureRootCACertificate cl pk (OperatorNamespace webhook) (CaSecretName webhook) w = (Inr caSecret, w1)"
    and "EnsureCertificate webhook cl pk caSecret w1 = (Inr webhookSecret, w2)"
    and "DumpSecretToDir fs webhookSecret (CertDir webhook) w2 = (Some err, w3)"
  then show "Setup webhook cl pk fs w = (Some err, w3)" by (simp add: Setup_def)
next
  assume a: "EnsureRootCACertificate cl pk (OperatorNamespace webhook) (CaSecretName webhook) w = (Inr caSecret, w1)"
    "EnsureCertificate webhook cl pk caSecret w1 = (Inr webhookSecret, w2)"
    "DumpSecretToDir fs webhookSecret (CertDir webhook) w2 = (None, w3)"
    and m: "InjectPublicKeyIntoMutatingWebhook webhook cl webhookSecret w3 = (Some err, w4) \<and> \<not> IsNotFound err"
  from m show "Setup webhook cl pk fs w = (Some err, w4)"
    by (simp add: Setup_after_dump[OF a])
next
  assume a: "EnsureRootCACertificate cl pk (OperatorNamespace webhook) (CaSecretName webhook) w = (Inr caSecret, w1)"
    "EnsureCertificate webhook cl pk caSecret w1 = (Inr webhookSecret, w2)"
    "DumpSecretToDir fs webhookSecret (CertDir webhook) w2 = (None, w3)"
    and m: "InjectPublicKeyIntoMutatingWebhook webhook cl webhookSecret w3 = (None, w4) \<and> w4' = w4
            \<or> InjectPublicKeyIntoMutatingWebhook webhook cl webhookSecret w3 = (Some nf, w4)
               \<and> IsNotFound nf
               \<and> w4' = log_Info ''mutating webhook configuration not found, cannot inject public key''
                          (MutatingWebhookConfigurationName webhook) w4"
    and v: "InjectPublicKeyIntoValidatingWebhook webhook cl webhookSecret w4' = (Some err, w5) \<and> \<not> IsNotFound err"
  from v show "Setup webhook cl pk fs w = (Some err, w5)"
    by (simp add: Setup_after_mutating[OF a m] setup_validating_def)
next
  assume a: "EnsureRootCACertificate cl pk (OperatorNamespace webhook) (CaSecretName webhook) w = (Inr caSecret, w1)"
    "EnsureCertificate webhook cl pk caSecret w1 = (Inr webhookSecret, w2)"
    "DumpSecretToDir fs webhookSecret (CertDir webhook) w2 = (None, w3)"
    and m: "InjectPublicKeyIntoMutatingWebhook webhook cl webhookSecret w3 = (None, w4) \<and> w4' = w4
            \<or> InjectPublicKeyIntoMutatingWebhook webhook cl webhookSecret w3 = (Some nf, w4)
               \<and> IsNotFound nf
               \<and> w4' = log_Info ''mutating webhook configuration not found, cannot inject public key''
                          (MutatingWebhookConfigurationName webhook) w4"
    and v: "InjectPublicKeyIntoValidatingWebhook webhook cl webhookSecret w4' = (None, w5)"
  from v show "Setup webhook cl pk fs w = (None, w5)"
    by (simp add: Setup_after_mutating[OF a m] setup_validating_def)
next
  assume a: "EnsureRootCACertificate cl pk (OperatorNamespace webhook) (CaSecretName webhook) w = (Inr caSecret, w1)"
    "EnsureCertificate webhook cl pk caSecret w1 = (Inr webhookSecret, w2)"
    "DumpSecretToDir fs webhookSecret (CertDir webhook) w2 = (None, w3)"
    and m: "InjectPublicKeyIntoMutatingWebhook webhook cl webhookSecret w3 = (None, w4) \<and> w4' = w4
            \<or> InjectPublicKeyIntoMutatingWebhook webhook cl webhookSecret w3 = (Some nf, w4)
               \<and> IsNotFound nf
               \<and> w4' = log_Info ''mutating webhook configuration not found, cannot inject public key''
                          (MutatingWebhookConfigurationName webhook) w4"
    and v: "InjectPublicKeyIntoValidatingWebhook webhook cl webhookSecret w4' = (Some nf', w5) \<and> IsNotFound nf'"
  from v show "Setup webhook cl pk fs w
                        = (None, log_Info ''validating webhook configuration not found, cannot inject public key''
                                   (ValidatingWebhookConfigurationName webhook) w5)"
    by (simp add: Setup_after_mutating[OF a m] setup_validating_def)
next
  assume a: "EnsureRootCACertificate cl pk (OperatorNamespace webhook) (CaSecretName webhook) w = (Inr caSecret, w1)"
    "EnsureCertificate webhook cl pk caSecret w1 = (Inr webhookSecret, w2)"
    "DumpSecretToDir fs webhookSecret (CertDir webhook) w2 = (None, w3)"
    and g: "MutatingGet cl (MutatingWebhookConfigurationName webhook) (cluster w3) = Inl nf
                \<and> IsNotFound nf
                \<and> ValidatingGet cl (ValidatingWebhookConfigurationName webhook) (cluster w3) = Inl nf'
                \<and> IsNotFound nf'"
  from g show "Setup webhook cl pk fs w
                     = (None, w3\<lparr>actions := actions w3
                          @ [ActGetMutating (MutatingWebhookConfigurationName webhook),
                             ActLogInfo ''mutating webhook configuration not found, cannot inject public key''
                               (MutatingWebhookConfigurationName webhook),
                             ActGetValidating (ValidatingWebhookConfigurationName webhook),
                             ActLogInfo ''validating webhook configuration not found, cannot inject public key''
                               (ValidatingWebhookConfigurationName webhook)]\<rparr>)"
    by (simp add: Setup_after_dump[OF a] Inject_not_found setup_validating_def log_Info_def)
next
  show "actions (snd (EnsureCertificate webhook cl pk s0 w0)) \<noteq> actions w0"
    by (rule EnsureCertificate_calls)
next
  show "actions (snd (DumpSecretToDir fs s0 dir w0)) \<noteq> actions w0"
    by (rule DumpSecretToDir_calls)
next
  show "actions (snd (InjectPublicKeyIntoMutatingWebhook webhook cl s0 w0)) \<noteq> actions w0"
    by (rule Inject_calls)
next
  show "actions (snd (InjectPublicKeyIntoValidatingWebhook webhook cl s0 w0)) \<noteq> actions w0"
    by (rule Inject_calls)
qed


text \<open>
  An instance: both secrets exist and are fresh, no admission configuration exists.
\<close>

theorem Setup_order_and_short_circuit_witness:
  "fst (EnsureRootCACertificate mem_client sym_pki (OperatorNamespace example_env)
          (CaSecretName example_env) bare_world)
     = Inr (example_ca_secret ''K2'' (''n/ca'' @ signature ''K2''))
   \<and> MutatingGet mem_client (MutatingWebhookConfigurationName example_env) (cluster bare_world)
       = Inl (NotFound ''webhook configuration not found'')
   \<and> ValidatingGet mem_client (ValidatingWebhookConfigurationName example_env) (cluster bare_world)
       = Inl (NotFound ''webhook configuration not found'')
   \<and> fst (Setup example_env mem_client sym_pki mem_fs bare_world) = None
   \<and> actions (snd (Setup example_env mem_client sym_pki mem_fs bare_world))
       = [ActGetSecret ''operator'' ''ca-secret'',
          ActGetSecret ''operator'' ''webhook-secret'',
          ActFileExists ''/certs/resource'',
          ActWriteFile ''/certs/tls.crt'' (''n/leaf'' @ signature ''K2'') owner_read_write,
          ActWriteFile ''/certs/tls.key'' ''leaf-key'' owner_read_write,
          ActWriteFile ''/certs/resource'' ''3'' owner_read_write,
          ActGetMutating ''mutating-cfg'',
          ActLogInfo ''mutating webhook configuration not found, cannot inject public key'' ''mutating-cfg'',
          ActGetValidating ''validating-cfg'',
          ActLogInfo ''validating webhook configuration not found, cannot inject public key''
            ''validating-cfg'']"
proof -
  let ?ca = "example_ca_secret ''K2'' (''n/ca'' @ signature ''K2'')"
  let ?leaf = "example_leaf_secret (''n/leaf'' @ signature ''K2'')"
  let ?w1 = "bare_world\<lparr>actions := [ActGetSecret ''operator'' ''ca-secret'']\<rparr>"
  let ?w2 = "bare_world\<lparr>actions := [ActGetSecret ''operator'' ''ca-secret'',
                                      ActGetSecret ''operator'' ''webhook-secret'']\<rparr>"
  let ?w3 = "bare_world\<lparr>files := [(''/certs/tls.crt'', ''n/leaf'' @ signature ''K2'', owner_read_write),
                                    (''/certs/tls.key'', ''leaf-key'', owner_read_write),
                                    (''/certs/resource'', ''3'', owner_read_write)],
                         actions := [ActGetSecret ''operator'' ''ca-secret'',
                                     ActGetSecret ''operator'' ''webhook-secret'',
                                     ActFileExists ''/certs/resource'',
                                     ActWriteFile ''/certs/tls.crt'' (''n/leaf'' @ signature ''K2'') owner_read_write,
                                     ActWriteFile ''/certs/tls.key'' ''leaf-key'' owner_read_write,
                                     ActWriteFile ''/certs/resource'' ''3'' owner_read_write]\<rparr>"
  have s1: "EnsureRootCACertificate mem_client sym_pki (OperatorNamespace example_env)
              (CaSecretName example_env) bare_world = (Inr ?ca, ?w1)"
    by (simp add: certs_defs example_defs)
  have s2: "EnsureCertificate example_env mem_client sym_pki ?ca ?w1 = (Inr ?leaf, ?w2)"
    by (simp add: certs_defs example_defs)
  have s3: "DumpSecretToDir mem_fs ?leaf (CertDir example_env) ?w2 = (None, ?w3)"
    by (simp add: certs_defs example_defs Let_def)
  have g: "MutatingGet mem_client (MutatingWebhookConfigurationName example_env) (cluster ?w3)
             = Inl (NotFound ''webhook configuration not found'')
           \<and> IsNotFound (NotFound ''webhook configuration not found'')
           \<and> ValidatingGet mem_client (ValidatingWebhookConfigurationName example_env) (cluster ?w3)
             = Inl (NotFound ''webhook configuration not found'')
           \<and> IsNotFound (NotFound ''webhook configuration not found'')"
    by (simp add: example_defs)
  from Setup_order_and_short_circuit[where cl = mem_client and pk = sym_pki and webhook = example_env
      and w = bare_world and fs = mem_fs and caSecret = ?ca and ?w1.0 = ?w1 and webhookSecret = ?leaf
      and ?w2.0 = ?w2 and ?w3.0 = ?w3 and nf = "NotFound ''webhook configuration not found''"
      and nf' = "NotFound ''webhook configuration not found''"] s1 s2 s3 g
  have "Setup example_env mem_client sym_pki mem_fs bare_world
      = (None, ?w3\<lparr>actions := actions ?w3
                          @ [ActGetMutating (MutatingWebhookConfigurationName example_env),
                             ActLogInfo ''mutating webhook configuration not found, cannot inject public key''
                               (MutatingWebhookConfigurationName example_env),
                             ActGetValidating (ValidatingWebhookConfigurationName example_env),
                             ActLogInfo ''validating webhook configuration not found, cannot inject public key''
                               (ValidatingWebhookConfigurationName example_env)]\<rparr>)"
    by blast
  then have "fst (Setup example_env mem_client sym_pki mem_fs bare_world) = None"
    and "actions (snd (Setup example_env mem_client sym_pki mem_fs bare_world))
       = [ActGetSecret ''operator'' ''ca-secret'',
          ActGetSecret ''operator'' ''webhook-secret'',
          ActFileExists ''/certs/resource'',
          ActWriteFile ''/certs/tls.crt'' (''n/leaf'' @ signature ''K2'') owner_read_write,
          ActWriteFile ''/certs/tls.key'' ''leaf-key'' owner_read_write,
          ActWriteFile ''/certs/resource'' ''3'' owner_read_write,
          ActGetMutating ''mutating-cfg'',
          ActLogInfo ''mutating webhook configuration not found, cannot inject public key'' ''mutating-cfg'',
          ActGetValidating ''validating-cfg'',
          ActLogInfo ''validating webhook configuration not found, cannot inject public key''
            ''validating-cfg'']"
    by (simp_all add: example_env_def)
  moreover from s1 have "fst (EnsureRootCACertificate mem_client sym_pki (OperatorNamespace example_env)
          (CaSecretName example_env) bare_world) = Inr ?ca"
    by simp
  moreover have "MutatingGet mem_client (MutatingWebhookConfigurationName example_env) (cluster bare_world)
       = Inl (NotFound ''webhook configuration not found'')"
    "ValidatingGet mem_client (ValidatingWebhookConfigurationName example_env) (cluster bare_world)
       = Inl (NotFound ''webhook configuration not found'')"
    by (simp_all add: example_defs)
  ultimately show ?thesis by blast
qed

text \<open>
  Claim C4 as stated excepts only a NotFound error from fetching a configuration. Here
  the mutating configuration is fetched, is deleted by someone else before the
  \<open>Update\<close>, and the \<open>Update\<close> fails with NotFound: the injection returns that error,
  which is the first error of the run and does not come from a fetch, and \<open>Setup\<close>
  logs it, runs the validating injection and succeeds.
\<close>

theorem Setup_skips_NotFound_of_Update:
  "MutatingGet (racing_client (NotFound ''gone'')) (MutatingWebhookConfigurationName example_env)
      (cluster fresh_world)
     = Inr (example_configuration ''mutating-cfg'')
   \<and> fst (InjectPublicKeyIntoMutatingWebhook example_env (racing_client (NotFound ''gone''))
             (example_leaf_secret (''n/leaf'' @ signature ''K2'')) fresh_world)
       = Some (NotFound ''gone'')
   \<and> fst (Setup example_env (racing_client (NotFound ''gone'')) sym_pki mem_fs fresh_world) = None
   \<and> drop 6 (actions (snd (Setup example_env (racing_client (NotFound ''gone'')) sym_pki mem_fs
                              fresh_world)))
       = [ActGetMutating ''mutating-cfg'',
          ActUpdateMutating
            ((example_configuration ''mutating-cfg'')
               \<lparr>Webhooks := map (set_CABundle (''n/leaf'' @ signature ''K2''))
                                 (Webhooks (example_configuration ''mutating-cfg''))\<rparr>),
          ActLogInfo ''mutating webhook configuration not found, cannot inject public key'' ''mutating-cfg'',
          ActGetValidating ''validating-cfg'',
          ActUpdateValidating
            ((example_configuration ''validating-cfg'')
               \<lparr>Webhooks := map (set_CABundle (''n/leaf'' @ signature ''K2''))
                                 (Webhooks (example_configuration ''validating-cfg''))\<rparr>)]"
  by (simp add: certs_defs example_defs Let_def)


lemma Setup_injects_mutating:
  assumes "EnsureRootCACertificate cl pk (OperatorNamespace webhook) (CaSecretName webhook) w = (Inr caSecret, w1)"
    and "EnsureCertificate webhook cl pk caSecret w1 = (Inr webhookSecret, w2)"
    and "DumpSecretToDir fs webhookSecret (CertDir webhook) w2 = (None, w3)"
    and "MutatingGet cl (MutatingWebhookConfigurationName webhook) (cluster w3) = Inr cfg"
  shows "ActUpdateMutating
           (cfg\<lparr>Webhooks := map (\<lambda>h. h\<lparr>ClientConfig := (ClientConfig h)\<lparr>CABundle := data_field webhookSecret ''tls.crt''\<rparr>\<rparr>)
                              (Webhooks cfg)\<rparr>)
         \<in> set (actions (snd (Setup webhook cl pk fs w)))"
proof -
  let ?inj = "cfg\<lparr>Webhooks := map (\<lambda>h. h\<lparr>ClientConfig := (ClientConfig h)\<lparr>CABundle := data_field webhookSecret ''tls.crt''\<rparr>\<rparr>)
                              (Webhooks cfg)\<rparr>"
  obtain r c where u: "MutatingUpdate cl ?inj (cluster w3) = (r, c)" by force
  obtain r4 w4 where m: "InjectPublicKeyIntoMutatingWebhook webhook cl webhookSecret w3 = (r4, w4)"
    by force
  from Inject_Mutating_found[OF assms(4) u] m
  have a4: "actions w4 = actions w3 @ [ActGetMutating (MutatingWebhookConfigurationName webhook),
                                       ActUpdateMutating ?inj]"
    by simp
  have "prefix (actions w4) (actions (snd (Setup webhook cl pk fs w)))"
  proof (cases r4)
    case None
    with m show ?thesis
      by (simp add: Setup_after_dump[OF assms(1-3)] setup_validating_extends)
  next
    case (Some e)
    have "prefix (actions w4) (actions (log_Info msg n w4))" for msg n
      by (simp add: api_actions)
    then have "prefix (actions w4) (actions (snd (setup_validating webhook cl webhookSecret (log_Info msg n w4))))"
      for msg n
      using setup_validating_extends prefix_order.trans by blast
    with m Some show ?thesis
      by (simp add: Setup_after_dump[OF assms(1-3)])
  qed
  then have "set (actions w4) \<subseteq> set (actions (snd (Setup webhook cl pk fs w)))"
    by (rule set_mono_prefix)
  with a4 show ?thesis by auto
qed

lemma Setup_injects_validating:
  assumes "EnsureRootCACertificate cl pk (OperatorNamespace webhook) (CaSecretName webhook) w = (Inr caSecret, w1)"
    and "EnsureCertificate webhook cl pk caSecret w1 = (Inr webhookSecret, w2)"
    and "DumpSecretToDir fs webhookSecret (CertDir webhook) w2 = (None, w3)"
    and "InjectPublicKeyIntoMutatingWebhook webhook cl webhookSecret w3 = (None, w4) \<and> w4' = w4
         \<or> InjectPublicKeyIntoMutatingWebhook webhook cl webhookSecret w3 = (Some nf, w4)
            \<and> IsNotFound nf
            \<and> w4' = log_Info ''mutating webhook configuration not found, cannot inject public key''
                       (MutatingWebhookConfigurationName webhook) w4"
    and "ValidatingGet cl (ValidatingWebhookConfigurationName webhook) (cluster w4') = Inr cfg"
  shows "ActUpdateValidating
           (cfg\<lparr>Webhooks := map (\<lambda>h. h\<lparr>ClientConfig := (ClientConfig h)\<lparr>CABundle := data_field webhookSecret ''tls.crt''\<rparr>\<rparr>)
                              (Webhooks cfg)\<rparr>)
         \<in> set (actions (snd (Setup webhook cl pk fs w)))"
proof -
  let ?inj = "cfg\<lparr>Webhooks := map (\<lambda>h. h\<lparr>ClientConfig := (ClientConfig h)\<lparr>CABundle := data_field webhookSecret ''tls.crt''\<rparr>\<rparr>)
                              (Webhooks cfg)\<rparr>"
  obtain r c where u: "ValidatingUpdate cl ?inj (cluster w4') = (r, c)" by force
  obtain r5 w5 where v: "InjectPublicKeyIntoValidatingWebhook webhook cl webhookSecret w4' = (r5, w5)"
    by force
  from Inject_Validating_found[OF assms(5) u] v
  have a5: "actions w5 = actions w4' @ [ActGetValidating (ValidatingWebhookConfigurationName webhook),
                                        ActUpdateValidating ?inj]"
    by simp
  have s: "Setup webhook cl pk fs w = setup_validating webhook cl webhookSecret w4'"
    using assms(1-4) by (rule Setup_after_mutating)
  have "actions (snd (setup_validating webhook cl webhookSecret w4')) = actions w5
        \<or> (\<exists>msg n. actions (snd (setup_validating webhook cl webhookSecret w4')) = actions (log_Info msg n w5))"
    using v by (cases r5) (auto simp: setup_validating_def)
  then have "ActUpdateValidating ?inj \<in> set (actions (snd (setup_validating webhook cl webhookSecret w4')))"
    using a5 by (auto simp: api_actions)
  with s show ?thesis by simp
qed

text \<open>
  Claim C5, as amended. Each injection fetches the named configuration and sends to
  \<open>Update\<close> that configuration with the \<open>CABundle\<close> of every entry of its webhook list
  replaced by the \<open>tls.crt\<close> field of the secret passed to the injection; every other
  field of every entry, and of the configuration, is as fetched. It returns the error
  of the \<open>Update\<close>, if any. In \<open>Setup\<close> the secret passed is the leaf (webhook server)
  secret that \<open>EnsureCertificate\<close> returned, so the bytes injected are the leaf
  certificate, not the \<open>ca.crt\<close> of the authority secret.
\<close>

theorem Inject_overwrites_CABundle_with_tls_crt:
  "(MutatingGet cl (MutatingWebhookConfigurationName webhook) (cluster w) = Inr cfg
      \<and> injected = cfg\<lparr>Webhooks :=
                          map (\<lambda>h. h\<lparr>ClientConfig := (ClientConfig h)\<lparr>CABundle := data_field tlsSecret ''tls.crt''\<rparr>\<rparr>)
                            (Webhooks cfg)\<rparr>
      \<and> MutatingUpdate cl injected (cluster w) = (r, c)
    \<longrightarrow> InjectPublicKeyIntoMutatingWebhook webhook cl tlsSecret w
          = (case r of Inl err \<Rightarrow> Some err | Inr updated \<Rightarrow> None,
             w\<lparr>cluster := c,
               actions := actions w @ [ActGetMutating (MutatingWebhookConfigurationName webhook),
                                       ActUpdateMutating injected]\<rparr>))
   \<and> (ValidatingGet cl (ValidatingWebhookConfigurationName webhook) (cluster w) = Inr vcfg
      \<and> vinjected = vcfg\<lparr>Webhooks :=
                            map (\<lambda>h. h\<lparr>ClientConfig := (ClientConfig h)\<lparr>CABundle := data_field tlsSecret ''tls.crt''\<rparr>\<rparr>)
                              (Webhooks vcfg)\<rparr>
      \<and> ValidatingUpdate cl vinjected (cluster w) = (vr, vc)
    \<longrightarrow> InjectPublicKeyIntoValidatingWebhook webhook cl tlsSecret w
          = (case vr of Inl err \<Rightarrow> Some err | Inr updated \<Rightarrow> None,
             w\<lparr>cluster := vc,
               actions := actions w @ [ActGetValidating (ValidatingWebhookConfigurationName webhook),
                                       ActUpdateValidating vinjected]\<rparr>))
   \<and> (EnsureRootCACertificate cl pk (OperatorNamespace webhook) (CaSecretName webhook) w0 = (Inr caSecret, w1)
      \<and> EnsureCertificate webhook cl pk caSecret w1 = (Inr webhookSecret, w2)
      \<and> DumpSecretToDir fs webhookSecret (CertDir webhook) w2 = (None, w3)
    \<longrightarrow>
      (MutatingGet cl (MutatingWebhookConfigurationName webhook) (cluster w3) = Inr mcfg
       \<longrightarrow> ActUpdateMutating
             (mcfg\<lparr>Webhooks :=
                     map (\<lambda>h. h\<lparr>ClientConfig := (ClientConfig h)\<lparr>CABundle := data_field webhookSecret ''tls.crt''\<rparr>\<rparr>)
                       (Webhooks mcfg)\<rparr>)
           \<in> set (actions (snd (Setup webhook cl pk fs w0))))
      \<and> ((InjectPublicKeyIntoMutatingWebhook webhook cl webhookSecret w3 = (None, w4) \<and> w4' = w4
           \<or> InjectPublicKeyIntoMutatingWebhook webhook cl webhookSecret w3 = (Some nf, w4)
              \<and> IsNotFound nf
              \<and> w4' = log_Info ''mutating webhook configuration not found, cannot inject public key''
                         (MutatingWebhookConfigurationName webhook) w4)
          \<and> ValidatingGet cl (ValidatingWebhookConfigurationName webhook) (cluster w4') = Inr vcfg'
       \<longrightarrow> ActUpdateValidating
             (vcfg'\<lparr>Webhooks :=
                      map (\<lambda>h. h\<lparr>ClientConfig := (ClientConfig h)\<lparr>CABundle := data_field webhookSecret ''tls.crt''\<rparr>\<rparr>)
                        (Webhooks vcfg')\<rparr>)
           \<in> set (actions (snd (Setup webhook cl pk fs w0)))))"
proof (intro conjI impI)
  assume "MutatingGet cl (MutatingWebhookConfigurationName webhook) (cluster w) = Inr cfg
      \<and> injected = cfg\<lparr>Webhooks :=
                          map (\<lambda>h. h\<lparr>ClientConfig := (ClientConfig h)\<lparr>CABundle := data_field tlsSecret ''tls.crt''\<rparr>\<rparr>)
                            (Webhooks cfg)\<rparr>
      \<and> MutatingUpdate cl injected (cluster w) = (r, c)"
  then show "InjectPublicKeyIntoMutatingWebhook webhook cl tlsSecret w
          = (case r of Inl err \<Rightarrow> Some err | Inr updated \<Rightarrow> None,
             w\<lparr>cluster := c,
               actions := actions w @ [ActGetMutating (MutatingWebhookConfigurationName webhook),
                                       ActUpdateMutating injected]\<rparr>)"
    using Inject_Mutating_found[of cl webhook w cfg tlsSecret r c] by blast
next
  assume "ValidatingGet cl (ValidatingWebhookConfigurationName webhook) (cluster w) = Inr vcfg
      \<and> vinjected = vcfg\<lparr>Webhooks :=
                            map (\<lambda>h. h\<lparr>ClientConfig := (ClientConfig h)\<lparr>CABundle := data_field tlsSecret ''tls.crt''\<rparr>\<rparr>)
                              (Webhooks vcfg)\<rparr>
      \<and> ValidatingUpdate cl vinjected (cluster w) = (vr, vc)"
  then show "InjectPublicKeyIntoValidatingWebhook webhook cl tlsSecret w
          = (case vr of Inl err \<Rightarrow> Some err | Inr updated \<Rightarrow> None,
             w\<lparr>cluster := vc,
               actions := actions w @ [ActGetValidating (ValidatingWebhookConfigurationName webhook),
                                       ActUpdateValidating vinjected]\<rparr>)"
    using Inject_Validating_found[of cl webhook w vcfg tlsSecret vr vc] by blast
next
  assume a: "EnsureRootCACertificate cl pk (OperatorNamespace webhook) (CaSecretName webhook) w0 = (Inr caSecret, w1)
      \<and> EnsureCertificate webhook cl pk caSecret w1 = (Inr webhookSecret, w2)
      \<and> DumpSecretToDir fs webhookSecret (CertDir webhook) w2 = (None, w3)"
    and g: "MutatingGet cl (MutatingWebhookConfigurationName webhook) (cluster w3) = Inr mcfg"
  from a g show "ActUpdateMutating
             (mcfg\<lparr>Webhooks :=
                     map (\<lambda>h. h\<lparr>ClientConfig := (ClientConfig h)\<lparr>CABundle := data_field webhookSecret ''tls.crt''\<rparr>\<rparr>)
                       (Webhooks mcfg)\<rparr>)
           \<in> set (actions (snd (Setup webhook cl pk fs w0)))"
    by (intro Setup_injects_mutating[where ?w1.0 = w1 and ?w2.0 = w2 and ?w3.0 = w3 and caSecret = caSecret])
      simp_all
next
  assume a: "EnsureRootCACertificate cl pk (OperatorNamespace webhook) (CaSecretName webhook) w0 = (Inr caSecret, w1)
      \<and> EnsureCertificate webhook cl pk caSecret w1 = (Inr webhookSecret, w2)
      \<and> DumpSecretToDir fs webhookSecret (CertDir webhook) w2 = (None, w3)"
    and g: "(InjectPublicKeyIntoMutatingWebhook webhook cl webhookSecret w3 = (None, w4) \<and> w4' = w4
           \<or> InjectPublicKeyIntoMutatingWebhook webhook cl webhookSecret w3 = (Some nf, w4)
              \<and> IsNotFound nf
              \<and> w4' = log_Info ''mutating webhook configuration not found, cannot inject public key''
                         (MutatingWebhookConfigurationName webhook) w4)
          \<and> ValidatingGet cl (ValidatingWebhookConfigurationName webhook) (cluster w4') = Inr vcfg'"
  from a have a1: "EnsureRootCACertificate cl pk (OperatorNamespace webhook) (CaSecretName webhook) w0 = (Inr caSecret, w1)"
    and a2: "EnsureCertificate webhook cl pk caSecret w1 = (Inr webhookSecret, w2)"
    and a3: "DumpSecretToDir fs webhookSecret (CertDir webhook) w2 = (None, w3)"
    by simp_all
  from g have g1: "InjectPublicKeyIntoMutatingWebhook webhook cl webhookSecret w3 = (None, w4) \<and> w4' = w4
           \<or> InjectPublicKeyIntoMutatingWebhook webhook cl webhookSecret w3 = (Some nf, w4)
              \<and> IsNotFound nf
              \<and> w4' = log_Info ''mutating webhook configuration not found, cannot inject public key''
                         (MutatingWebhookConfigurationName webhook) w4"
    and g2: "ValidatingGet cl (ValidatingWebhookConfigurationName webhook) (cluster w4') = Inr vcfg'"
    by blast+
  show "ActUpdateValidating
             (vcfg'\<lparr>Webhooks :=
                      map (\<lambda>h. h\<lparr>ClientConfig := (ClientConfig h)\<lparr>CABundle := data_field webhookSecret ''tls.crt''\<rparr>\<rparr>)
                        (Webhooks vcfg')\<rparr>)
           \<in> set (actions (snd (Setup webhook cl pk fs w0)))"
    using a1 a2 a3 g1 g2 by (rule Setup_injects_validating)
qed

text \<open>
  Claim C5 as stated has the authority's public certificate injected. In this run of
  \<open>Setup\<close> the authority secret holds the certificate \<open>n/ca/signed-by:K2\<close> before and
  after, and every entry of both configurations ends with the leaf certificate
  \<open>n/leaf/signed-by:K2\<close> as its bundle.
\<close>

theorem CABundle_is_not_the_authority_certificate:
  "SecretsGet mem_client (OperatorNamespace example_env) (CaSecretName example_env)
      (cluster (snd (Setup example_env mem_client sym_pki mem_fs fresh_world)))
     = Inr (example_ca_secret ''K2'' (''n/ca'' @ signature ''K2''))
   \<and> data_field (example_ca_secret ''K2'' (''n/ca'' @ signature ''K2'')) ''ca.crt'' = ''n/ca'' @ signature ''K2''
   \<and> fst (Setup example_env mem_client sym_pki mem_fs fresh_world) = None
   \<and> map (\<lambda>h. CABundle (ClientConfig h))
        (concat (map Webhooks (stored_mutating (cluster (snd
           (Setup example_env mem_client sym_pki mem_fs fresh_world))))))
       = [''n/leaf'' @ signature ''K2'', ''n/leaf'' @ signature ''K2'']
   \<and> map (\<lambda>h. CABundle (ClientConfig h))
        (concat (map Webhooks (stored_validating (cluster (snd
           (Setup example_env mem_client sym_pki mem_fs fresh_world))))))
       = [''n/leaf'' @ signature ''K2'', ''n/leaf'' @ signature ''K2'']
   \<and> ''n/leaf'' @ signature ''K2'' \<noteq> ''n/ca'' @ signature ''K2''"
  by (simp add: certs_defs example_defs Let_def)


text \<open>
  An instance: the injection into the mutating configuration of the in-memory store.
\<close>

theorem Inject_overwrites_CABundle_with_tls_crt_witness:
  "MutatingGet mem_client (MutatingWebhookConfigurationName example_env) (cluster fresh_world)
     = Inr (example_configuration ''mutating-cfg'')
   \<and> fst (InjectPublicKeyIntoMutatingWebhook example_env mem_client
             (example_leaf_secret (''n/leaf'' @ signature ''K2'')) fresh_world) = None
   \<and> actions (snd (InjectPublicKeyIntoMutatingWebhook example_env mem_client
             (example_leaf_secret (''n/leaf'' @ signature ''K2'')) fresh_world))
       = [ActGetMutating ''mutating-cfg'',
          ActUpdateMutating
            \<lparr>ConfigurationName = ''mutating-cfg'',
             Webhooks = [\<lparr>ClientConfig = \<lparr>CABundle = ''n/leaf'' @ signature ''K2'',
                                           client_config_rest = ''service-a''\<rparr>,
                          webhook_rest = ''hook-a''\<rparr>,
                         \<lparr>ClientConfig = \<lparr>CABundle = ''n/leaf'' @ signature ''K2'',
                                           client_config_rest = ''service-b''\<rparr>,
                          webhook_rest = ''hook-b''\<rparr>],
             configuration_rest = ''labels''\<rparr>]"
proof -
  let ?leaf = "example_leaf_secret (''n/leaf'' @ signature ''K2'')"
  let ?cfg = "example_configuration ''mutating-cfg''"
  let ?inj = "\<lparr>ConfigurationName = ''mutating-cfg'',
             Webhooks = [\<lparr>ClientConfig = \<lparr>CABundle = ''n/leaf'' @ signature ''K2'',
                                           client_config_rest = ''service-a''\<rparr>,
                          webhook_rest = ''hook-a''\<rparr>,
                         \<lparr>ClientConfig = \<lparr>CABundle = ''n/leaf'' @ signature ''K2'',
                                           client_config_rest = ''service-b''\<rparr>,
                          webhook_rest = ''hook-b''\<rparr>],
             configuration_rest = ''labels''\<rparr>"
  let ?c = "(cluster fresh_world)\<lparr>stored_mutating := [?inj]\<rparr>"
  have h1: "MutatingGet mem_client (MutatingWebhookConfigurationName example_env) (cluster fresh_world)
              = Inr ?cfg"
    by (simp add: example_defs)
  have h2: "?inj = ?cfg\<lparr>Webhooks :=
                          map (\<lambda>h. h\<lparr>ClientConfig := (ClientConfig h)\<lparr>CABundle := data_field ?leaf ''tls.crt''\<rparr>\<rparr>)
                            (Webhooks ?cfg)\<rparr>"
    by (simp add: example_defs data_field_def)
  have h3: "MutatingUpdate mem_client ?inj (cluster fresh_world) = (Inr ?inj, ?c)"
    by (simp add: example_defs)
  from h1 h2 h3 have h: "MutatingGet mem_client (MutatingWebhookConfigurationName example_env)
                (cluster fresh_world) = Inr ?cfg
      \<and> ?inj = ?cfg\<lparr>Webhooks :=
                          map (\<lambda>h. h\<lparr>ClientConfig := (ClientConfig h)\<lparr>CABundle := data_field ?leaf ''tls.crt''\<rparr>\<rparr>)
                            (Webhooks ?cfg)\<rparr>
      \<and> MutatingUpdate mem_client ?inj (cluster fresh_world) = (Inr ?inj, ?c)"
    by (intro conjI)
  have "InjectPublicKeyIntoMutatingWebhook example_env mem_client ?leaf fresh_world
          = (case (Inr ?inj :: error + string webhook_configuration) of
               Inl err \<Rightarrow> Some err | Inr updated \<Rightarrow> None,
             fresh_world\<lparr>cluster := ?c,
               actions := actions fresh_world @ [ActGetMutating (MutatingWebhookConfigurationName example_env),
                                                 ActUpdateMutating ?inj]\<rparr>)"
    by (rule Inject_overwrites_CABundle_with_tls_crt[where cl = mem_client and webhook = example_env
      and w = fresh_world and cfg = ?cfg and injected = ?inj and tlsSecret = ?leaf
      and r = "Inr ?inj" and c = ?c, THEN conjunct1, THEN mp, OF h])
  then have "fst (InjectPublicKeyIntoMutatingWebhook example_env mem_client ?leaf fresh_world) = None"
    and "actions (snd (InjectPublicKeyIntoMutatingWebhook example_env mem_client ?leaf fresh_world))
           = [ActGetMutating ''mutating-cfg'', ActUpdateMutating ?inj]"
    by (simp_all add: example_env_def fresh_world_def example_world_def)
  with h1 show ?thesis by blast
qed


end
